(* ===== verification/Go_Prelude.thy ===== *)
theory Go_Prelude
  imports Main "HOL-Library.Multiset"
begin

text \<open>
  Shared vocabulary of the development: the Go idioms that
  \<^verbatim>\<open>src/chatbot/statemachine/fsm.go\<close> uses again and again, each as one executable
  definition with the lemmas the component theories rewrite with.

  \<^item> A Go \<^verbatim>\<open>map[K]V\<close> is a partial function \<open>('k, 'v) gomap\<close>. Indexing a map with a
    key it does not hold yields the zero value of \<open>V\<close> and no error: \<open>index_or\<close>.
  \<^item> The loop \<^verbatim>\<open>for _, x := range xs { m[key(x)] = val(x) }\<close> is \<open>store_all\<close>; a later
    element overwrites an earlier one with the same key, which \<open>last_with\<close> makes
    explicit.
  \<^item> The loop \<^verbatim>\<open>for _, x := range xs { res = append(res, f(x)) }\<close> is \<open>append_all\<close>,
    written with the accumulator the loop has and proved equal to \<open>map\<close>.
  \<^item> Ranging over a Go map visits every key once, in an order the language leaves
    open. A list \<open>ks\<close> is an admissible order of \<open>m\<close> when \<open>range_order m ks\<close>.
  \<^item> A library error is kept as its message, \<open>cause\<close>.
  \<^item> A step that may fail returns a sum with the error on the left. \<open>and_then\<close> is the
    idiom \<^verbatim>\<open>if err != nil { return nil, err }\<close> followed by the rest of the function;
    \<open>traverse\<close> applies a fallible step to the elements of a slice in order and stops
    at the first error.
  \<^item> Sorting by a key that is injective on the elements gives a result that depends
    only on which elements there are, not on their order (\<open>sort_key_mset_cong\<close>).
\<close>

named_theorems go_defs "unfolding rules of the Go idioms"
named_theorems model_defs "unfolding rules of the operations of the model"

type_synonym cause = string
type_synonym ('k, 'v) gomap = "'k \<rightharpoonup> 'v"

definition index_or :: "'v \<Rightarrow> ('k, 'v) gomap \<Rightarrow> 'k \<Rightarrow> 'v" where
  "index_or zero m k = (case m k of None \<Rightarrow> zero | Some v \<Rightarrow> v)"

definition store_all ::
  "('a \<Rightarrow> 'k) \<Rightarrow> ('a \<Rightarrow> 'v) \<Rightarrow> 'a list \<Rightarrow> ('k, 'v) gomap \<Rightarrow> ('k, 'v) gomap" where
  "store_all key val xs m = fold (\<lambda>x m. m(key x \<mapsto> val x)) xs m"

definition append_all :: "('a \<Rightarrow> 'b) \<Rightarrow> 'a list \<Rightarrow> 'b list" where
  "append_all f xs = foldl (\<lambda>res x. res @ [f x]) [] xs"

definition last_with :: "('a \<Rightarrow> bool) \<Rightarrow> 'a list \<Rightarrow> 'a option" where
  "last_with P xs = find P (rev xs)"

definition range_order :: "('k, 'v) gomap \<Rightarrow> 'k list \<Rightarrow> bool" where
  "range_order m ks \<longleftrightarrow> distinct ks \<and> set ks = dom m"

definition isOK :: "'e + 'a \<Rightarrow> bool" where
  "isOK r = (case r of Inl _ \<Rightarrow> False | Inr _ \<Rightarrow> True)"

definition and_then :: "'e + 'a \<Rightarrow> ('a \<Rightarrow> 'e + 'b) \<Rightarrow> 'e + 'b" where
  "and_then r k = (case r of Inl e \<Rightarrow> Inl e | Inr x \<Rightarrow> k x)"

primrec traverse :: "('a \<Rightarrow> 'e + 'b) \<Rightarrow> 'a list \<Rightarrow> 'e + 'b list" where
  "traverse f [] = Inr []"
| "traverse f (x # xs) = and_then (f x) (\<lambda>y. and_then (traverse f xs) (\<lambda>ys. Inr (y # ys)))"

declare index_or_def [go_defs] store_all_def [go_defs] append_all_def [go_defs]
  last_with_def [go_defs] range_order_def [go_defs] isOK_def [go_defs]


section \<open>Results\<close>

lemma isOK_simps [simp]: "isOK (Inr x)" "\<not> isOK (Inl e)"
  by (simp_all add: isOK_def)

lemma isOK_iff: "isOK r \<longleftrightarrow> (\<exists>x. r = Inr x)"
  by (cases r) simp_all

lemma not_isOK_iff: "\<not> isOK r \<longleftrightarrow> (\<exists>e. r = Inl e)"
  by (cases r) simp_all


section \<open>Indexing a map\<close>

lemma index_or_Some [simp]: "m k = Some v \<Longrightarrow> index_or zero m k = v"
  by (simp add: index_or_def)

lemma index_or_None [simp]: "m k = None \<Longrightarrow> index_or zero m k = zero"
  by (simp add: index_or_def)

lemma index_or_empty [simp]: "index_or zero Map.empty k = zero"
  by (simp add: index_or_def)

lemma index_or_upd [simp]:
  "index_or zero (m(k \<mapsto> v)) k' = (if k' = k then v else index_or zero m k')"
  by (simp add: index_or_def)

lemma index_or_in_ran: "k \<in> dom m \<Longrightarrow> index_or zero m k \<in> ran m"
  by (auto simp: index_or_def ran_def)


section \<open>The last element with a property\<close>

lemma last_with_Nil [simp]: "last_with P [] = None"
  by (simp add: last_with_def)

lemma last_with_snoc [simp]:
  "last_with P (xs @ [x]) = (if P x then Some x else last_with P xs)"
  by (simp add: last_with_def)

lemma last_with_Cons:
  "last_with P (x # xs) =
     (case last_with P xs of None \<Rightarrow> (if P x then Some x else None) | Some y \<Rightarrow> Some y)"
  by (induction xs rule: rev_induct) (simp_all add: last_with_def)

lemma last_with_append:
  "last_with P (xs @ ys) =
     (case last_with P ys of None \<Rightarrow> last_with P xs | Some y \<Rightarrow> Some y)"
  by (induction ys rule: rev_induct) (simp_all flip: append_assoc)

lemma last_with_None_iff: "last_with P xs = None \<longleftrightarrow> (\<forall>x \<in> set xs. \<not> P x)"
  by (induction xs rule: rev_induct) auto

lemma last_with_SomeD: "last_with P xs = Some x \<Longrightarrow> P x \<and> x \<in> set xs"
  by (induction xs rule: rev_induct) (auto split: if_splits)

lemma last_with_Some_ex: "(\<exists>x. last_with P xs = Some x) \<longleftrightarrow> (\<exists>x \<in> set xs. P x)"
  using last_with_None_iff [of P xs] by (cases "last_with P xs") auto

lemma last_with_unique:
  assumes "x \<in> set xs" and "P x" and "\<And>y. y \<in> set xs \<Longrightarrow> P y \<Longrightarrow> y = x"
  shows "last_with P xs = Some x"
proof (cases "last_with P xs")
  case None
  with assms(1,2) show ?thesis by (simp add: last_with_None_iff)
next
  case (Some y)
  then have "P y \<and> y \<in> set xs" by (rule last_with_SomeD)
  with assms(3) Some show ?thesis by simp
qed

lemma last_with_map: "last_with P (map g xs) = map_option g (last_with (\<lambda>x. P (g x)) xs)"
  by (induction xs rule: rev_induct) simp_all

lemma last_with_key_distinct:
  "distinct (map key xs) \<Longrightarrow> x \<in> set xs \<Longrightarrow> last_with (\<lambda>y. key y = key x) xs = Some x"
  by (rule last_with_unique) (auto simp: distinct_map dest: inj_onD)

lemma last_with_key_set_cong:
  assumes "distinct (map key xs)" and "distinct (map key ys)" and "set ys = set xs"
  shows "last_with (\<lambda>x. key x = k) ys = last_with (\<lambda>x. key x = k) xs"
proof (cases "\<exists>x \<in> set xs. key x = k")
  case True
  then obtain x where x: "x \<in> set xs" and k: "key x = k" by blast
  with assms show ?thesis
    using last_with_key_distinct [of key xs x] last_with_key_distinct [of key ys x] by simp
next
  case False
  with assms(3) have "last_with (\<lambda>x. key x = k) ys = None"
    and "last_with (\<lambda>x. key x = k) xs = None"
    by (auto simp: last_with_None_iff)
  then show ?thesis by simp
qed


section \<open>Storing a list into a map\<close>

lemma store_all_Nil [simp]: "store_all key val [] m = m"
  by (simp add: store_all_def)

lemma store_all_Cons [simp]:
  "store_all key val (x # xs) m = store_all key val xs (m(key x \<mapsto> val x))"
  by (simp add: store_all_def)

lemma store_all_append [simp]:
  "store_all key val (xs @ ys) m = store_all key val ys (store_all key val xs m)"
  by (simp add: store_all_def)

lemma store_all_snoc:
  "store_all key val (xs @ [x]) m = (store_all key val xs m)(key x \<mapsto> val x)"
  by simp

lemma dom_store_all [simp]: "dom (store_all key val xs m) = dom m \<union> key ` set xs"
  by (induction xs arbitrary: m) auto

lemma finite_dom_store_all: "finite (dom m) \<Longrightarrow> finite (dom (store_all key val xs m))"
  by simp

lemma store_all_last:
  "store_all key val xs m k =
     (case last_with (\<lambda>x. key x = k) xs of None \<Rightarrow> m k | Some x \<Rightarrow> Some (val x))"
  by (induction xs arbitrary: m rule: rev_induct) simp_all

lemma store_all_other: "k \<notin> key ` set xs \<Longrightarrow> store_all key val xs m k = m k"
  by (induction xs arbitrary: m) auto

lemma store_all_SomeD:
  "store_all key val xs Map.empty k = Some v \<Longrightarrow> \<exists>x \<in> set xs. key x = k \<and> val x = v"
  by (auto simp: store_all_last split: option.splits dest: last_with_SomeD)

lemma store_all_distinct:
  "distinct (map key xs) \<Longrightarrow> x \<in> set xs \<Longrightarrow> store_all key val xs m (key x) = Some (val x)"
  by (simp add: store_all_last last_with_key_distinct)

lemma store_all_mset_cong:
  assumes "distinct (map key xs)" and "mset ys = mset xs"
  shows "store_all key val ys m = store_all key val xs m"
proof -
  from assms(2) have m: "mset (map key ys) = mset (map key xs)" by simp
  have d: "distinct (map key ys)" using mset_eq_imp_distinct_iff [OF m] assms(1) by simp
  from assms(2) have "set ys = set xs" by (rule mset_eq_setD)
  with assms(1) d show ?thesis
    by (simp add: fun_eq_iff store_all_last last_with_key_set_cong [of key xs ys])
qed

lemma store_all_map_of:
  "store_all key val xs m = m ++ map_of (rev (map (\<lambda>x. (key x, val x)) xs))"
  by (induction xs arbitrary: m rule: rev_induct) (simp_all add: fun_eq_iff map_add_def)

lemma store_all_map:
  "store_all key val (map g xs) m = store_all (\<lambda>x. key (g x)) (\<lambda>x. val (g x)) xs m"
  by (induction xs arbitrary: m) simp_all

lemma ran_store_all: "ran (store_all key val xs Map.empty) \<subseteq> val ` set xs"
  by (auto simp: ran_def dest: store_all_SomeD)


section \<open>Appending in a loop\<close>

lemma foldl_snoc_map: "foldl (\<lambda>res x. res @ [f x]) acc xs = acc @ map f xs"
  by (induction xs arbitrary: acc) simp_all

lemma append_all_map: "append_all f xs = map f xs"
  by (simp add: append_all_def foldl_snoc_map)

lemma append_all_simps [simp]:
  "append_all f [] = []"
  "append_all f (x # xs) = f x # append_all f xs"
  "append_all f (xs @ ys) = append_all f xs @ append_all f ys"
  by (simp_all add: append_all_map)

lemma length_append_all [simp]: "length (append_all f xs) = length xs"
  by (simp add: append_all_map)

lemma set_append_all [simp]: "set (append_all f xs) = f ` set xs"
  by (simp add: append_all_map)

lemma nth_append_all: "i < length xs \<Longrightarrow> append_all f xs ! i = f (xs ! i)"
  by (simp add: append_all_map)


section \<open>Orders in which a map may be ranged over\<close>

lemma range_orderI: "distinct ks \<Longrightarrow> set ks = dom m \<Longrightarrow> range_order m ks"
  by (simp add: range_order_def)

lemma range_order_distinct: "range_order m ks \<Longrightarrow> distinct ks"
  by (simp add: range_order_def)

lemma range_order_set: "range_order m ks \<Longrightarrow> set ks = dom m"
  by (simp add: range_order_def)

lemma range_order_mem: "range_order m ks \<Longrightarrow> k \<in> set ks \<longleftrightarrow> m k \<noteq> None"
  by (auto simp: range_order_def)

lemma range_order_empty [simp]: "range_order Map.empty ks \<longleftrightarrow> ks = []"
  by (auto simp: range_order_def)

lemma range_order_mset:
  "range_order m ks \<Longrightarrow> range_order m ks' \<Longrightarrow> mset ks = mset ks'"
  by (simp add: range_order_def set_eq_iff_mset_eq_distinct [symmetric])

lemma range_order_length: "range_order m ks \<Longrightarrow> length ks = card (dom m)"
  by (auto simp: range_order_def distinct_card [symmetric])

lemma range_order_remdups: "set ks = dom m \<Longrightarrow> range_order m (remdups ks)"
  by (simp add: range_order_def)

lemma range_order_exists: "finite (dom m) \<Longrightarrow> \<exists>ks. range_order m ks"
  unfolding range_order_def using finite_distinct_list [of "dom m"] by blast

lemma range_order_filter_mset:
  "range_order m ks \<Longrightarrow> range_order m ks' \<Longrightarrow>
     mset (map f (filter P ks)) = mset (map f (filter P ks'))"
proof -
  assume "range_order m ks" and "range_order m ks'"
  then have "mset ks = mset ks'" by (rule range_order_mset)
  then have "image_mset f (filter_mset P (mset ks)) = image_mset f (filter_mset P (mset ks'))"
    by simp
  then show ?thesis by simp
qed


section \<open>Steps that may fail\<close>

lemma and_then_simps [simp]:
  "and_then (Inl e) k = Inl e"
  "and_then (Inr x) k = k x"
  by (simp_all add: and_then_def)

lemma and_then_eq_Inr_iff: "and_then r k = Inr y \<longleftrightarrow> (\<exists>x. r = Inr x \<and> k x = Inr y)"
  by (cases r) auto

lemma and_then_eq_Inl_iff:
  "and_then r k = Inl e \<longleftrightarrow> r = Inl e \<or> (\<exists>x. r = Inr x \<and> k x = Inl e)"
  by (cases r) auto

lemma traverse_Inr: "(\<And>x. x \<in> set xs \<Longrightarrow> f x = Inr (g x)) \<Longrightarrow> traverse f xs = Inr (map g xs)"
  by (induction xs) simp_all

lemma traverse_map: "traverse f (map g xs) = traverse (\<lambda>x. f (g x)) xs"
  by (induction xs) simp_all

lemma traverse_eq_Inr_iff: "traverse f xs = Inr ys \<longleftrightarrow> list_all2 (\<lambda>x y. f x = Inr y) xs ys"
proof (induction xs arbitrary: ys)
  case Nil
  show ?case by auto
next
  case (Cons x xs)
  show ?case by (cases ys) (auto simp: and_then_eq_Inr_iff Cons.IH)
qed

lemma traverse_first_error:
  "traverse f xs = Inr ys \<Longrightarrow> f x = Inl e \<Longrightarrow> traverse f (xs @ x # zs) = Inl e"
  by (induction xs arbitrary: ys) (auto simp: and_then_eq_Inr_iff)

lemma traverse_InlD: "traverse f xs = Inl e \<Longrightarrow> \<exists>x \<in> set xs. f x = Inl e"
  by (induction xs) (auto simp: and_then_eq_Inl_iff)

lemma length_traverse: "traverse f xs = Inr ys \<Longrightarrow> length ys = length xs"
  by (simp add: traverse_eq_Inr_iff list_all2_lengthD)

lemma traverse_snoc_InrD:
  assumes "traverse f (xs @ [x]) = Inr zs"
  obtains ys z where "zs = ys @ [z]" and "traverse f xs = Inr ys" and "f x = Inr z"
proof -
  from assms have "list_all2 (\<lambda>x y. f x = Inr y) (xs @ [x]) zs"
    by (simp only: traverse_eq_Inr_iff)
  then obtain ys z where "zs = ys @ [z]" and "list_all2 (\<lambda>x y. f x = Inr y) xs ys"
    and "f x = Inr z"
    by (auto simp: list_all2_append1 list_all2_Cons1)
  then show thesis by (intro that [of ys z]) (simp_all add: traverse_eq_Inr_iff)
qed


section \<open>Sorting by a key\<close>

lemma filter_eq_replicate_count: "filter ((=) k) xs = replicate (count (mset xs) k) k"
  by (induction xs) auto

lemma sort_key_mset_cong:
  assumes "mset xs = mset ys" and "inj_on f (set xs)"
  shows "sort_key f xs = sort_key f ys"
proof (rule properties_for_sort_key)
  show "mset (sort_key f ys) = mset xs" using assms(1) by simp
  show "sorted (map f (sort_key f ys))" by simp
  fix k assume "k \<in> set (sort_key f ys)"
  then have k: "k \<in> set xs" using assms(1) by (metis mset_eq_setD set_sort)
  have "filter (\<lambda>x. f k = f x) zs = filter ((=) k) zs" if "set zs \<subseteq> set xs" for zs
    using that k assms(2) by (intro filter_cong) (auto dest: inj_onD)
  moreover have "set (sort_key f ys) \<subseteq> set xs"
    using assms(1) by (metis mset_eq_setD set_sort subset_refl)
  ultimately show "filter (\<lambda>x. f k = f x) (sort_key f ys) = filter (\<lambda>x. f k = f x) xs"
    using assms(1) by (simp add: filter_eq_replicate_count)
qed

lemma card_image_set_le: "card (f ` set xs) \<le> length xs"
  by (metis card_length length_map set_map)

lemma card_image_set_eq_iff: "card (f ` set xs) = length xs \<longleftrightarrow> distinct (map f xs)"
  by (metis card_distinct distinct_card length_map set_map)

lemma distinct_length_le_card:
  "distinct xs \<Longrightarrow> set xs \<subseteq> f ` set ys \<Longrightarrow> length xs \<le> length (remdups (map f ys))"
  by (metis card_mono distinct_card length_remdups_card_conv List.finite_set set_map)

end
