(* ===== verification/Chat_Types.thy ===== *)
theory Chat_Types
  imports Go_Prelude
begin

text \<open>
  The data of package \<^verbatim>\<open>statemachine\<close>.

  \<^item> \<open>State\<close> and \<open>Event\<close> with their constructors \<open>NewState\<close> and \<open>NewEvent\<close> are
    declared in files of the package that \<^verbatim>\<open>fsm.go\<close> only uses; they follow the data
    model of the specification (a state is a name and a message, an event a name, a
    message and an order id). The message is kept as a string, which the engine never
    inspects; the order id is a Go \<^verbatim>\<open>int\<close> on which no arithmetic is done here, so it is
    an \<open>int\<close>.
  \<^item> \<open>zero_State\<close> and \<open>zero_Event\<close> are the Go zero values of the two structs: what
    indexing \<^verbatim>\<open>map[string]State\<close> or \<^verbatim>\<open>map[string]Event\<close> yields for a missing key.
  \<^item> \<open>FsmEntry\<close>, \<open>EventDescYaml\<close>, \<open>StateYaml\<close> and \<open>EventYaml\<close> are the decoding
    targets declared in \<^verbatim>\<open>fsm.go\<close>, lines 19 to 33.
\<close>

record State =
  State_Name :: string
  State_Message :: string

record Event =
  Event_Name :: string
  Event_Message :: string
  Event_OrderID :: int

definition NewState :: "string \<Rightarrow> string \<Rightarrow> State" where
  "NewState name message = \<lparr>State_Name = name, State_Message = message\<rparr>"

definition NewEvent :: "string \<Rightarrow> string \<Rightarrow> int \<Rightarrow> Event" where
  "NewEvent name message orderID =
     \<lparr>Event_Name = name, Event_Message = message, Event_OrderID = orderID\<rparr>"

definition zero_State :: State where
  "zero_State = \<lparr>State_Name = [], State_Message = []\<rparr>"

definition zero_Event :: Event where
  "zero_Event = \<lparr>Event_Name = [], Event_Message = [], Event_OrderID = 0\<rparr>"

record FsmEntry =
  Entry_Name :: string
  SrcState :: "string list"
  DestState :: string

record EventDescYaml =
  Fsm :: "FsmEntry list"

record StateYaml =
  StateYaml_States :: "State list"

record EventYaml =
  EventYaml_Events :: "Event list"

declare NewState_def [model_defs] NewEvent_def [model_defs]
  zero_State_def [model_defs] zero_Event_def [model_defs]

lemma NewState_sel [simp]:
  "State_Name (NewState n m) = n" "State_Message (NewState n m) = m"
  by (simp_all add: NewState_def)

lemma NewEvent_sel [simp]:
  "Event_Name (NewEvent n m i) = n" "Event_Message (NewEvent n m i) = m"
  "Event_OrderID (NewEvent n m i) = i"
  by (simp_all add: NewEvent_def)

lemma NewState_eta [simp]: "NewState (State_Name s) (State_Message s) = s"
  by (simp add: NewState_def)

lemma NewEvent_eta [simp]:
  "NewEvent (Event_Name e) (Event_Message e) (Event_OrderID e) = e"
  by (simp add: NewEvent_def)

lemma NewState_inject [simp]: "NewState n m = NewState n' m' \<longleftrightarrow> n = n' \<and> m = m'"
  by (simp add: NewState_def)

lemma NewEvent_inject [simp]:
  "NewEvent n m i = NewEvent n' m' i' \<longleftrightarrow> n = n' \<and> m = m' \<and> i = i'"
  by (simp add: NewEvent_def)

lemma zero_State_sel [simp]: "State_Name zero_State = []" "State_Message zero_State = []"
  by (simp_all add: zero_State_def)

lemma zero_Event_sel [simp]:
  "Event_Name zero_Event = []" "Event_Message zero_Event = []" "Event_OrderID zero_Event = 0"
  by (simp_all add: zero_Event_def)

lemma NewState_zero_iff: "NewState n m = zero_State \<longleftrightarrow> n = [] \<and> m = []"
  by (simp add: NewState_def zero_State_def)

end
