(* ===== verification/Looplab_FSM.thy ===== *)
theory Looplab_FSM
  imports Go_Prelude
begin

text \<open>
  The graph engine behind \<^verbatim>\<open>fsm.go\<close>: the type \<^verbatim>\<open>fsm.FSM\<close> that \<open>yamlToFSM\<close> builds with
  \<^verbatim>\<open>fsm.NewFSM\<close> and that the wrapper queries with \<^verbatim>\<open>Current\<close> and
  \<^verbatim>\<open>AvailableTransitions\<close>. Its code is not part of the repository; the definitions
  follow sections 3, 4.2 (step 4) and 4.3 of the specification.

  \<^item> \<open>EventDesc\<close> is a transition rule: an event name, the source states it is legal
    from, one destination.
  \<^item> \<open>FSM\<close> is the machine: the current state and the transition table, a Go map
    keyed by \<open>(source state, event name)\<close>.
  \<^item> \<open>NewFSM\<close> fills the table rule by rule and source by source, in declaration
    order, so that a later rule overwrites an earlier one on the same key. The
    third argument of \<^verbatim>\<open>fsm.NewFSM\<close>, the table of callbacks, is the empty map literal
    at its only call (line 82 of \<^verbatim>\<open>fsm.go\<close>), so no hook is ever registered; the
    engine is modelled without hooks and \<open>NewFSM\<close> has no such argument.
  \<^item> \<open>Fire\<close> is the transition operation, with the rejection as a value.
  \<^item> \<open>FSM_AvailableTransitions\<close> ranges over the table; the order of a Go map range
    is open, so the order is a parameter \<open>ks\<close> and the lemmas hold for every
    \<open>range_order\<close> of the table. \<open>decl_order\<close> is one such order.
  \<^item> \<open>fsm_step\<close> is the step relation of successful transitions, \<open>reachable\<close> its
    closure from a start machine, \<open>run\<close> a caller that drops rejected events and
    \<open>fire_all\<close> a caller that stops at the first rejection.

  The lemmas give the table of \<open>NewFSM\<close> in closed form (\<open>NewFSM_lookup\<close>), the
  behaviour of \<open>Fire\<close> on both branches, the agreement of
  \<open>FSM_AvailableTransitions\<close> with \<open>Fire\<close>, and the invariants of reachable machines.
\<close>

record EventDesc =
  Name :: string
  Src :: "string list"
  Dst :: string

type_synonym eKey = "string \<times> string"

record FSM =
  current :: string
  transitions :: "(eKey, string) gomap"

datatype fire_error = IllegalTransitionError string string

definition add_desc :: "EventDesc \<Rightarrow> (eKey, string) gomap \<Rightarrow> (eKey, string) gomap" where
  "add_desc e t = store_all (\<lambda>src. (src, Name e)) (\<lambda>src. Dst e) (Src e) t"

definition NewFSM :: "string \<Rightarrow> EventDesc list \<Rightarrow> FSM" where
  "NewFSM initial events = \<lparr>current = initial, transitions = fold add_desc events Map.empty\<rparr>"

definition FSM_Current :: "FSM \<Rightarrow> string" where
  "FSM_Current f = current f"

definition Can :: "FSM \<Rightarrow> string \<Rightarrow> bool" where
  "Can f event \<longleftrightarrow> transitions f (current f, event) \<noteq> None"

definition Fire :: "FSM \<Rightarrow> string \<Rightarrow> fire_error + FSM" where
  "Fire f event =
     (case transitions f (current f, event) of
        None \<Rightarrow> Inl (IllegalTransitionError (current f) event)
      | Some dst \<Rightarrow> Inr (f\<lparr>current := dst\<rparr>))"

definition FSM_AvailableTransitions :: "eKey list \<Rightarrow> FSM \<Rightarrow> string list" where
  "FSM_AvailableTransitions ks f = map snd (filter (\<lambda>key. fst key = current f) ks)"

definition desc_keys :: "EventDesc \<Rightarrow> eKey list" where
  "desc_keys e = map (\<lambda>src. (src, Name e)) (Src e)"

definition decl_order :: "EventDesc list \<Rightarrow> eKey list" where
  "decl_order events = remdups (concat (map desc_keys events))"

definition governs :: "string \<Rightarrow> string \<Rightarrow> EventDesc \<Rightarrow> bool" where
  "governs s event e \<longleftrightarrow> Name e = event \<and> s \<in> set (Src e)"

fun run :: "FSM \<Rightarrow> string list \<Rightarrow> FSM" where
  "run f [] = f"
| "run f (e # es) = run (case Fire f e of Inl _ \<Rightarrow> f | Inr f' \<Rightarrow> f') es"

fun fire_all :: "FSM \<Rightarrow> string list \<Rightarrow> fire_error + FSM" where
  "fire_all f [] = Inr f"
| "fire_all f (e # es) = (case Fire f e of Inl err \<Rightarrow> Inl err | Inr f' \<Rightarrow> fire_all f' es)"

inductive fsm_step :: "FSM \<Rightarrow> string \<Rightarrow> FSM \<Rightarrow> bool" where
  fire: "transitions f (current f, event) = Some dst \<Longrightarrow> fsm_step f event (f\<lparr>current := dst\<rparr>)"

inductive reachable :: "FSM \<Rightarrow> FSM \<Rightarrow> bool" for f0 where
  start: "reachable f0 f0"
| step: "reachable f0 f \<Longrightarrow> fsm_step f event f' \<Longrightarrow> reachable f0 f'"

declare add_desc_def [model_defs] NewFSM_def [model_defs] FSM_Current_def [model_defs]
  Can_def [model_defs] Fire_def [model_defs] FSM_AvailableTransitions_def [model_defs]
  desc_keys_def [model_defs] decl_order_def [model_defs] governs_def [model_defs]

inductive_cases fsm_stepE [elim!]: "fsm_step f event f'"

inductive_simps fsm_step_iff: "fsm_step f event f'"


section \<open>The table that NewFSM builds\<close>

lemma add_desc_lookup:
  "add_desc e t (s, event) = (if governs s event e then Some (Dst e) else t (s, event))"
  by (auto simp: add_desc_def governs_def store_all_last last_with_None_iff
      split: option.splits dest: last_with_SomeD)

lemma dom_add_desc: "dom (add_desc e t) = dom t \<union> set (desc_keys e)"
  by (simp add: add_desc_def desc_keys_def)

lemma fold_add_desc_snoc: "fold add_desc (es @ [e]) t = add_desc e (fold add_desc es t)"
  by simp

lemma fold_add_desc_lookup:
  "fold add_desc es t (s, event) =
     (case last_with (governs s event) es of None \<Rightarrow> t (s, event) | Some e \<Rightarrow> Some (Dst e))"
  by (induction es rule: rev_induct) (simp_all add: add_desc_lookup)

lemma dom_fold_add_desc: "dom (fold add_desc es t) = dom t \<union> set (concat (map desc_keys es))"
  by (induction es arbitrary: t) (auto simp: dom_add_desc)

lemma NewFSM_current [simp]: "current (NewFSM initial es) = initial"
  by (simp add: NewFSM_def)

lemma NewFSM_transitions: "transitions (NewFSM initial es) = fold add_desc es Map.empty"
  by (simp add: NewFSM_def)

lemma NewFSM_lookup:
  "transitions (NewFSM initial es) (s, event) = map_option Dst (last_with (governs s event) es)"
  by (simp add: NewFSM_transitions fold_add_desc_lookup split: option.splits)

lemma NewFSM_dom: "dom (transitions (NewFSM initial es)) = set (concat (map desc_keys es))"
  by (simp add: NewFSM_transitions dom_fold_add_desc)

lemma NewFSM_finite: "finite (dom (transitions (NewFSM initial es)))"
  by (simp add: NewFSM_dom)

lemma NewFSM_enabled_iff:
  "transitions (NewFSM initial es) (s, event) \<noteq> None \<longleftrightarrow> (\<exists>e \<in> set es. governs s event e)"
  using last_with_Some_ex [of "governs s event" es] by (auto simp: NewFSM_lookup)

lemma NewFSM_lookup_SomeD:
  "transitions (NewFSM initial es) (s, event) = Some d \<Longrightarrow>
     \<exists>e \<in> set es. governs s event e \<and> Dst e = d"
  by (auto simp: NewFSM_lookup dest: last_with_SomeD)

lemma NewFSM_ran: "ran (transitions (NewFSM initial es)) \<subseteq> Dst ` set es"
  by (auto simp: ran_def dest!: NewFSM_lookup_SomeD)

lemma decl_order_range: "range_order (transitions (NewFSM initial es)) (decl_order es)"
  unfolding decl_order_def by (rule range_order_remdups) (simp add: NewFSM_dom)


section \<open>Firing an event\<close>

lemma Fire_Some:
  "transitions f (current f, event) = Some dst \<Longrightarrow> Fire f event = Inr (f\<lparr>current := dst\<rparr>)"
  by (simp add: Fire_def)

lemma Fire_None:
  "transitions f (current f, event) = None \<Longrightarrow>
     Fire f event = Inl (IllegalTransitionError (current f) event)"
  by (simp add: Fire_def)

lemma Fire_InrD:
  "Fire f event = Inr f' \<Longrightarrow>
     transitions f (current f, event) = Some (current f') \<and> f' = f\<lparr>current := current f'\<rparr>"
  by (auto simp: Fire_def split: option.splits)

lemma Fire_InlD:
  "Fire f event = Inl err \<Longrightarrow>
     transitions f (current f, event) = None \<and> err = IllegalTransitionError (current f) event"
  by (auto simp: Fire_def split: option.splits)

lemma Fire_transitions: "Fire f event = Inr f' \<Longrightarrow> transitions f' = transitions f"
  by (auto simp: Fire_def split: option.splits)

lemma isOK_Fire: "isOK (Fire f event) \<longleftrightarrow> Can f event"
  by (auto simp: Fire_def Can_def split: option.splits)

lemma fsm_step_Fire: "fsm_step f event f' \<longleftrightarrow> Fire f event = Inr f'"
  by (auto simp: Fire_def fsm_step_iff split: option.splits)

lemma fsm_step_transitions: "fsm_step f event f' \<Longrightarrow> transitions f' = transitions f"
  by auto

lemma fsm_step_deterministic: "fsm_step f event f' \<Longrightarrow> fsm_step f event f'' \<Longrightarrow> f' = f''"
  by (simp add: fsm_step_Fire)

lemma Can_update_current [simp]: "Can (f\<lparr>current := s\<rparr>) event \<longleftrightarrow> transitions f (s, event) \<noteq> None"
  by (simp add: Can_def)


section \<open>The events available in a state\<close>

lemma set_FSM_AvailableTransitions:
  "range_order (transitions f) ks \<Longrightarrow> set (FSM_AvailableTransitions ks f) = {event. Can f event}"
  by (force simp: FSM_AvailableTransitions_def Can_def range_order_def)

lemma distinct_FSM_AvailableTransitions:
  "distinct ks \<Longrightarrow> distinct (FSM_AvailableTransitions ks f)"
  by (auto simp: FSM_AvailableTransitions_def distinct_map inj_on_def)

lemma mset_FSM_AvailableTransitions:
  "range_order (transitions f) ks \<Longrightarrow> range_order (transitions f) ks' \<Longrightarrow>
     mset (FSM_AvailableTransitions ks f) = mset (FSM_AvailableTransitions ks' f)"
  unfolding FSM_AvailableTransitions_def by (rule range_order_filter_mset)

lemma FSM_AvailableTransitions_Nil_iff:
  "range_order (transitions f) ks \<Longrightarrow>
     FSM_AvailableTransitions ks f = [] \<longleftrightarrow> (\<forall>event. \<not> Can f event)"
  using set_FSM_AvailableTransitions [of f ks] by (auto simp flip: set_empty)


section \<open>Runs and reachable machines\<close>

lemma run_append [simp]: "run f (es @ es') = run (run f es) es'"
  by (induction es arbitrary: f) simp_all

lemma run_transitions [simp]: "transitions (run f es) = transitions f"
  by (induction es arbitrary: f) (auto split: sum.splits simp: Fire_transitions)

lemma fire_all_append:
  "fire_all f (es @ es') = (case fire_all f es of Inl err \<Rightarrow> Inl err | Inr f' \<Rightarrow> fire_all f' es')"
  by (induction es arbitrary: f) (simp_all split: sum.splits)

lemma fire_all_run: "fire_all f es = Inr f' \<Longrightarrow> run f es = f'"
  by (induction es arbitrary: f) (auto split: sum.splits)

lemma fire_all_transitions: "fire_all f es = Inr f' \<Longrightarrow> transitions f' = transitions f"
  by (auto dest!: fire_all_run)

lemma reachable_transitions: "reachable f0 f \<Longrightarrow> transitions f = transitions f0"
  by (induction rule: reachable.induct) (auto simp: fsm_step_transitions)

lemma reachable_current:
  "reachable f0 f \<Longrightarrow> current f = current f0 \<or> current f \<in> ran (transitions f0)"
proof (induction rule: reachable.induct)
  case start
  show ?case by simp
next
  case (step f event f')
  from step.hyps(1) have "transitions f = transitions f0" by (rule reachable_transitions)
  with step.hyps(2) show ?case by (auto simp: ran_def)
qed

lemma reachable_trans: "reachable f f' \<Longrightarrow> reachable f0 f \<Longrightarrow> reachable f0 f'"
proof (induction rule: reachable.induct)
  case start
  then show ?case .
next
  case (step f1 event f2)
  then have "reachable f0 f1" by simp
  then show ?case using step.hyps(2) by (rule reachable.step)
qed

lemma reachable_Fire: "reachable f0 f \<Longrightarrow> Fire f event = Inr f' \<Longrightarrow> reachable f0 f'"
  by (auto intro: reachable.step simp: fsm_step_Fire)

lemma reachable_run: "reachable f0 f \<Longrightarrow> reachable f0 (run f es)"
  by (induction es arbitrary: f) (auto split: sum.splits intro: reachable_Fire)

lemma reachable_fire_all: "reachable f0 f \<Longrightarrow> fire_all f es = Inr f' \<Longrightarrow> reachable f0 f'"
  using fire_all_run reachable_run by blast

lemma reachable_is_run: "reachable f0 f \<Longrightarrow> \<exists>es. fire_all f0 es = Inr f"
proof (induction rule: reachable.induct)
  case start
  have "fire_all f0 [] = Inr f0" by simp
  then show ?case ..
next
  case (step f event f')
  then obtain es where "fire_all f0 es = Inr f" by blast
  with step.hyps(2) have "fire_all f0 (es @ [event]) = Inr f'"
    by (simp add: fire_all_append fsm_step_Fire)
  then show ?case ..
qed

lemma reachable_iff_fire_all: "reachable f0 f \<longleftrightarrow> (\<exists>es. fire_all f0 es = Inr f)"
  by (blast intro: reachable_is_run reachable_fire_all reachable.start)

end
