(* ===== verification/Graph_Spec.thy ===== *)
theory Graph_Spec
  imports Looplab_FSM
begin

text \<open>
  What the machine promises, independent of how its table is built: the labelled
  graph that the transition rules declare (section 3 of the specification), and the
  proof that the table of \<open>NewFSM\<close> with \<open>Fire\<close> implements it.

  \<^item> \<open>edges_of\<close> is the set of edges \<open>(source, event, destination)\<close> of a list of
    rules, \<open>edge_list\<close> the same edges in declaration order.
  \<^item> \<open>table_edges\<close> is the abstraction function from a transition table to the set
    of edges it holds.
  \<^item> \<open>path\<close> is the abstract behaviour: the sequences of events along edges.
  \<^item> \<open>conflict_free\<close> says that no two rules give one \<open>(source, event)\<close> pair two
    destinations, the condition under which the graph is deterministic.

  The table never holds an edge that was not declared and enables exactly the
  declared pairs (\<open>table_edges_subset\<close>, \<open>table_enabled_iff\<close>); it holds every
  declared edge iff the rules are conflict free (\<open>table_edges_eq_iff\<close>). Every
  successful sequence of \<open>Fire\<close> is a path of the graph (\<open>fire_all_path\<close>), and on
  conflict-free rules every path is such a sequence (\<open>path_fire_all\<close>).
\<close>

type_synonym edge = "string \<times> string \<times> string"

definition desc_edges :: "EventDesc \<Rightarrow> edge list" where
  "desc_edges e = map (\<lambda>src. (src, Name e, Dst e)) (Src e)"

definition edge_list :: "EventDesc list \<Rightarrow> edge list" where
  "edge_list es = concat (map desc_edges es)"

definition edges_of :: "EventDesc list \<Rightarrow> edge set" where
  "edges_of es = set (edge_list es)"

definition table_edges :: "(eKey, string) gomap \<Rightarrow> edge set" where
  "table_edges t = {(s, event, d). t (s, event) = Some d}"

definition conflict_free :: "EventDesc list \<Rightarrow> bool" where
  "conflict_free es \<longleftrightarrow>
     list_all (\<lambda>(s, event, d). list_all (\<lambda>(s', event', d'). s = s' \<and> event = event' \<longrightarrow> d = d')
       (edge_list es)) (edge_list es)"

inductive path :: "edge set \<Rightarrow> string \<Rightarrow> string list \<Rightarrow> string \<Rightarrow> bool" for E where
  stay: "path E s [] s"
| move: "(s, event, s') \<in> E \<Longrightarrow> path E s' events s'' \<Longrightarrow> path E s (event # events) s''"

declare desc_edges_def [model_defs] edge_list_def [model_defs] edges_of_def [model_defs]
  table_edges_def [model_defs] conflict_free_def [model_defs]

inductive_cases path_NilE [elim!]: "path E s [] s'"

inductive_cases path_ConsE [elim!]: "path E s (event # events) s'"

inductive_simps path_Nil_iff [simp]: "path E s [] s'"

inductive_simps path_Cons_iff: "path E s (event # events) s'"


section \<open>The declared graph\<close>

lemma edges_of_iff: "(s, event, d) \<in> edges_of es \<longleftrightarrow> (\<exists>e \<in> set es. governs s event e \<and> Dst e = d)"
  by (auto simp: edges_of_def edge_list_def desc_edges_def governs_def)

lemma edges_of_Nil [simp]: "edges_of [] = {}"
  by (simp add: edges_of_def edge_list_def)

lemma edges_of_append [simp]: "edges_of (es @ es') = edges_of es \<union> edges_of es'"
  by (simp add: edges_of_def edge_list_def)

lemma finite_edges_of [simp]: "finite (edges_of es)"
  by (simp add: edges_of_def)

lemma conflict_free_iff:
  "conflict_free es \<longleftrightarrow>
     (\<forall>s event d d'. (s, event, d) \<in> edges_of es \<longrightarrow> (s, event, d') \<in> edges_of es \<longrightarrow> d = d')"
  unfolding conflict_free_def edges_of_def list_all_iff by fast

lemma conflict_freeD:
  "conflict_free es \<Longrightarrow> (s, event, d) \<in> edges_of es \<Longrightarrow> (s, event, d') \<in> edges_of es \<Longrightarrow> d = d'"
  unfolding conflict_free_iff by blast


section \<open>The table as a set of edges\<close>

lemma table_edges_iff [simp]: "(s, event, d) \<in> table_edges t \<longleftrightarrow> t (s, event) = Some d"
  by (simp add: table_edges_def)

lemma table_edges_functional:
  "(s, event, d) \<in> table_edges t \<Longrightarrow> (s, event, d') \<in> table_edges t \<Longrightarrow> d = d'"
  by simp

lemma table_edges_subset: "table_edges (transitions (NewFSM initial es)) \<subseteq> edges_of es"
  by (auto simp: edges_of_iff dest: NewFSM_lookup_SomeD)

lemma table_enabled_iff:
  "(\<exists>d. (s, event, d) \<in> table_edges (transitions (NewFSM initial es))) \<longleftrightarrow>
     (\<exists>d. (s, event, d) \<in> edges_of es)"
  using NewFSM_enabled_iff [of initial es s event] by (auto simp: edges_of_iff)

lemma table_edges_conflict_free:
  assumes "conflict_free es"
  shows "table_edges (transitions (NewFSM initial es)) = edges_of es"
proof
  show "table_edges (transitions (NewFSM initial es)) \<subseteq> edges_of es"
    by (rule table_edges_subset)
  show "edges_of es \<subseteq> table_edges (transitions (NewFSM initial es))"
  proof
    fix x assume x: "x \<in> edges_of es"
    obtain s event d where [simp]: "x = (s, event, d)" by (cases x)
    from x obtain d' where d': "(s, event, d') \<in> table_edges (transitions (NewFSM initial es))"
      using table_enabled_iff [of s event initial es] by auto
    then have "(s, event, d') \<in> edges_of es"
      using table_edges_subset by blast
    with assms x have "d' = d" by (auto dest: conflict_freeD)
    with d' show "x \<in> table_edges (transitions (NewFSM initial es))" by simp
  qed
qed

lemma table_edges_eq_iff:
  "table_edges (transitions (NewFSM initial es)) = edges_of es \<longleftrightarrow> conflict_free es"
proof
  assume eq: "table_edges (transitions (NewFSM initial es)) = edges_of es"
  show "conflict_free es"
    unfolding conflict_free_iff eq [symmetric] by simp
qed (rule table_edges_conflict_free)


section \<open>Runs are paths\<close>

lemma path_append:
  "path E s events s' \<Longrightarrow> path E s' events' s'' \<Longrightarrow> path E s (events @ events') s''"
  by (induction rule: path.induct) (auto intro: path.intros)

lemma path_mono: "path E s events s' \<Longrightarrow> E \<subseteq> E' \<Longrightarrow> path E' s events s'"
  by (induction rule: path.induct) (auto intro: path.intros)

lemma fire_all_table_path:
  "fire_all f events = Inr f' \<Longrightarrow> path (table_edges (transitions f)) (current f) events (current f')"
proof (induction events arbitrary: f)
  case Nil
  then show ?case by (auto intro: path.stay)
next
  case (Cons event events)
  from Cons.prems obtain f1 where f1: "Fire f event = Inr f1" and rest: "fire_all f1 events = Inr f'"
    by (auto split: sum.splits)
  from f1 have "(current f, event, current f1) \<in> table_edges (transitions f)"
    and "transitions f1 = transitions f"
    by (auto dest: Fire_InrD Fire_transitions)
  with Cons.IH [OF rest] show ?case by (auto intro: path.move)
qed

lemma table_path_fire_all:
  "path (table_edges (transitions f)) (current f) events s' \<Longrightarrow>
     fire_all f events = Inr (f\<lparr>current := s'\<rparr>)"
proof (induction events arbitrary: f)
  case Nil
  then show ?case by auto
next
  case (Cons event events)
  from Cons.prems obtain s1 where s1: "transitions f (current f, event) = Some s1"
    and rest: "path (table_edges (transitions f)) s1 events s'"
    by auto
  let ?f1 = "f\<lparr>current := s1\<rparr>"
  from rest have "path (table_edges (transitions ?f1)) (current ?f1) events s'" by simp
  then have "fire_all ?f1 events = Inr (?f1\<lparr>current := s'\<rparr>)" by (rule Cons.IH)
  with s1 show ?case by (simp add: Fire_Some)
qed

lemma fire_all_path:
  assumes "fire_all (NewFSM initial es) events = Inr f'"
  shows "path (edges_of es) initial events (current f')"
  using fire_all_table_path [OF assms] table_edges_subset [of initial es]
  by (auto intro: path_mono)

lemma path_fire_all:
  assumes "conflict_free es" and "path (edges_of es) initial events s'"
  shows "fire_all (NewFSM initial es) events = Inr ((NewFSM initial es)\<lparr>current := s'\<rparr>)"
  using assms table_path_fire_all [of "NewFSM initial es" events s']
  by (simp add: table_edges_conflict_free)

end
