(* ===== verification/Builder.thy ===== *)
theory Builder
  imports Chat_Types Graph_Spec
begin

text \<open>
  Construction of the machine: \<open>ChatBotFSM\<close>, \<open>yamlToFSM\<close> and
  \<open>eventDescYamlToEventDesc\<close> of \<^verbatim>\<open>fsm.go\<close>.

  \<^item> \<open>FSMWithStatesAndEvents\<close> is the struct the package hands out: the graph engine
    and the two tables from names to states and events. The field \<^verbatim>\<open>FSM\<close> is a
    pointer in Go (line 14); here the record holds the engine it points to, and the
    theory \<open>Shared_Machine\<close> has the struct with the pointer and relates the two.
  \<^item> \<open>error\<close> has one constructor per \<^verbatim>\<open>errors.Wrapf\<close> of the file, holding the wrapped
    cause (and the file name where the message formats it); \<open>error_text\<close> is the
    message the wrapped error prints, \<open>root_cause\<close> the innermost cause.
  \<^item> \<open>log_entry\<close> has one constructor per \<^verbatim>\<open>glog.Infof\<close> of \<open>yamlToFSM\<close>; the
    operations return the entries they wrote, in order, next to their result.
  \<^item> The YAML decoder is a library that \<^verbatim>\<open>fsm.go\<close> calls four times. It enters the
    model as an interface \<open>('b, 'd) yaml_api\<close> over the type \<open>'b\<close> of the input bytes
    and the type \<open>'d\<close> of the decoder's state: \<open>NewDecoder\<close> and one \<open>Decode\<close> per
    target type, each returning the decoded value or the library's error, and the
    decoder advanced to the next document. Every lemma about \<open>yamlToFSM\<close> holds for
    every such decoder.
  \<^item> \<open>decode_sections\<close> is the first half of \<open>yamlToFSM\<close> (the three \<open>Decode\<close> calls
    with their early returns), \<open>assemble\<close> the second half (the two loops that fill
    the tables and the call of \<open>NewFSM\<close> with the start state \<open>InitialStateName\<close>;
    the third argument of the call, the table of callbacks, is the empty map literal
    and has no counterpart).
  \<^item> \<open>ChatBotFSM\<close> reads the file through \<open>readFile\<close>, the file system seen as a
    function from paths to contents or errors.
  \<^item> \<open>closed\<close> is the well-formedness the specification asks of a built machine:
    the current state and every state and event of the transition table are
    declared, and both tables store each entry under its own name.
    \<open>wf_document\<close> is the corresponding condition on the decoded document, which
    \<^verbatim>\<open>fsm.go\<close> does not check.
  \<^item> \<open>document_edges\<close> is the labelled graph that the rules of a decoded document
    declare, read off the document itself; \<open>document_conflict_free\<close> says that no
    two of its rules give one source and event two destinations.
  \<^item> \<open>chat_rules\<close>, \<open>chat_states\<close>, \<open>chat_events\<close> with \<open>chat_machine\<close> are a worked
    example, \<open>greet_rules\<close>, \<open>greet_states\<close>, \<open>greet_events\<close> the scenario of the
    specification, \<open>unknown_rules\<close> and \<open>clash_rules\<close> documents that the
    specification rejects; \<open>scripted\<close> is a decoder that returns three given results.

  The lemmas give the result of each operation on every branch, the order in which
  failures are reported, the two tables in closed form (the last declaration of a
  name wins), the fact that every table entry is stored under its own name, that
  \<open>closed\<close> follows from \<open>wf_document\<close> and holds in every reachable machine, and that
  the runs of the assembled machine are paths of \<open>document_edges\<close>, all of them when
  the document is conflict free, the table holding in every case the edge of the
  last rule for each source and event. They also bound the size of each table by the
  length of its section, with equality exactly when no name is declared twice, and
  show that the tables do not depend on the order of the declarations when the
  names are distinct.
\<close>

record FSMWithStatesAndEvents =
  FSM :: FSM
  States :: "(string, State) gomap"
  Events :: "(string, Event) gomap"

datatype error =
    ReadConfigFailed cause string
  | CreateFSMFailed error string
  | DecodeFSMFailed cause
  | DecodeStatesFailed cause
  | DecodeEventsFailed cause

datatype log_entry =
    DecodedFSM EventDescYaml
  | DecodedStates StateYaml
  | DecodedEvents EventYaml
  | BuiltEventDesc "EventDesc list"

record ('b, 'd) yaml_api =
  NewDecoder :: "'b \<Rightarrow> 'd"
  DecodeFsm :: "'d \<Rightarrow> (cause + EventDescYaml) \<times> 'd"
  DecodeStates :: "'d \<Rightarrow> (cause + StateYaml) \<times> 'd"
  DecodeEvents :: "'d \<Rightarrow> (cause + EventYaml) \<times> 'd"

type_synonym 'a logged = "'a \<times> log_entry list"

fun error_text :: "error \<Rightarrow> string" where
  "error_text (ReadConfigFailed c file) = ''failed to read config file '' @ file @ '': '' @ c"
| "error_text (CreateFSMFailed e file) =
     ''failed to create FSM from contents of file '' @ file @ '': '' @ error_text e"
| "error_text (DecodeFSMFailed c) = ''failed to decode FSM: '' @ c"
| "error_text (DecodeStatesFailed c) = ''failed to decode states list: '' @ c"
| "error_text (DecodeEventsFailed c) = ''failed to decode events list: '' @ c"

fun root_cause :: "error \<Rightarrow> cause" where
  "root_cause (ReadConfigFailed c file) = c"
| "root_cause (CreateFSMFailed e file) = root_cause e"
| "root_cause (DecodeFSMFailed c) = c"
| "root_cause (DecodeStatesFailed c) = c"
| "root_cause (DecodeEventsFailed c) = c"

definition InitialStateName :: string where
  "InitialStateName = ''Initial''"

definition entry_desc :: "FsmEntry \<Rightarrow> EventDesc" where
  "entry_desc e = \<lparr>Name = Entry_Name e, Src = SrcState e, Dst = DestState e\<rparr>"

definition eventDescYamlToEventDesc :: "EventDescYaml \<Rightarrow> EventDesc list" where
  "eventDescYamlToEventDesc m = append_all entry_desc (Fsm m)"

definition statesMap :: "StateYaml \<Rightarrow> (string, State) gomap" where
  "statesMap states =
     store_all State_Name (\<lambda>s. NewState (State_Name s) (State_Message s))
       (StateYaml_States states) Map.empty"

definition eventsMap :: "EventYaml \<Rightarrow> (string, Event) gomap" where
  "eventsMap events =
     store_all Event_Name (\<lambda>e. NewEvent (Event_Name e) (Event_Message e) (Event_OrderID e))
       (EventYaml_Events events) Map.empty"

definition assemble :: "EventDescYaml \<Rightarrow> StateYaml \<Rightarrow> EventYaml \<Rightarrow> FSMWithStatesAndEvents" where
  "assemble eventDescYaml states events =
     (let eventDes = eventDescYamlToEventDesc eventDescYaml
      in \<lparr>FSM = NewFSM InitialStateName eventDes,
          States = statesMap states,
          Events = eventsMap events\<rparr>)"

definition decode_sections ::
  "('b, 'd) yaml_api \<Rightarrow> 'b \<Rightarrow> (error + EventDescYaml \<times> StateYaml \<times> EventYaml) logged" where
  "decode_sections Y yamlSpec =
     (let dec = NewDecoder Y yamlSpec in
      case DecodeFsm Y dec of
        (Inl err, _) \<Rightarrow> (Inl (DecodeFSMFailed err), [])
      | (Inr eventDescYaml, dec1) \<Rightarrow>
          (case DecodeStates Y dec1 of
             (Inl err, _) \<Rightarrow> (Inl (DecodeStatesFailed err), [DecodedFSM eventDescYaml])
           | (Inr states, dec2) \<Rightarrow>
               (case DecodeEvents Y dec2 of
                  (Inl err, _) \<Rightarrow>
                    (Inl (DecodeEventsFailed err),
                     [DecodedFSM eventDescYaml, DecodedStates states])
                | (Inr events, _) \<Rightarrow>
                    (Inr (eventDescYaml, states, events),
                     [DecodedFSM eventDescYaml, DecodedStates states, DecodedEvents events]))))"

definition yamlToFSM :: "('b, 'd) yaml_api \<Rightarrow> 'b \<Rightarrow> (error + FSMWithStatesAndEvents) logged" where
  "yamlToFSM Y yamlSpec =
     (case decode_sections Y yamlSpec of
        (Inl err, log) \<Rightarrow> (Inl err, log)
      | (Inr (eventDescYaml, states, events), log) \<Rightarrow>
          (Inr (assemble eventDescYaml states events),
           log @ [BuiltEventDesc (eventDescYamlToEventDesc eventDescYaml)]))"

definition ChatBotFSM ::
  "('b, 'd) yaml_api \<Rightarrow> (string \<Rightarrow> cause + 'b) \<Rightarrow> string \<Rightarrow>
     (error + FSMWithStatesAndEvents) logged" where
  "ChatBotFSM Y readFile configFile =
     (case readFile configFile of
        Inl err \<Rightarrow> (Inl (ReadConfigFailed err configFile), [])
      | Inr fileBytes \<Rightarrow>
          (case yamlToFSM Y fileBytes of
             (Inl err, log) \<Rightarrow> (Inl (CreateFSMFailed err configFile), log)
           | (Inr fsm, log) \<Rightarrow> (Inr fsm, log)))"

definition keyed_by :: "('a \<Rightarrow> 'k) \<Rightarrow> ('k, 'a) gomap \<Rightarrow> bool" where
  "keyed_by name m \<longleftrightarrow> (\<forall>k v. m k = Some v \<longrightarrow> name v = k)"

definition decodes ::
  "('b, 'd) yaml_api \<Rightarrow> 'b \<Rightarrow> EventDescYaml \<Rightarrow> StateYaml \<Rightarrow> EventYaml \<Rightarrow> bool" where
  "decodes Y yamlSpec y st ev \<longleftrightarrow>
     (\<exists>d1 d2 d3. DecodeFsm Y (NewDecoder Y yamlSpec) = (Inr y, d1) \<and>
        DecodeStates Y d1 = (Inr st, d2) \<and> DecodeEvents Y d2 = (Inr ev, d3))"

definition state_names :: "StateYaml \<Rightarrow> string list" where
  "state_names st = map State_Name (StateYaml_States st)"

definition event_names :: "EventYaml \<Rightarrow> string list" where
  "event_names ev = map Event_Name (EventYaml_Events ev)"

definition rule_resolves :: "string list \<Rightarrow> string list \<Rightarrow> FsmEntry \<Rightarrow> bool" where
  "rule_resolves sn en r \<longleftrightarrow>
     Entry_Name r \<in> set en \<and> list_all (\<lambda>s. s \<in> set sn) (SrcState r) \<and> DestState r \<in> set sn"

definition wf_document :: "EventDescYaml \<Rightarrow> StateYaml \<Rightarrow> EventYaml \<Rightarrow> bool" where
  "wf_document y st ev \<longleftrightarrow>
     distinct (state_names st) \<and> distinct (event_names ev) \<and>
     InitialStateName \<in> set (state_names st) \<and>
     list_all (rule_resolves (state_names st) (event_names ev)) (Fsm y)"

definition closed :: "FSMWithStatesAndEvents \<Rightarrow> bool" where
  "closed f \<longleftrightarrow>
     current (FSM f) \<in> dom (States f) \<and>
     (\<forall>s event d. transitions (FSM f) (s, event) = Some d \<longrightarrow>
        s \<in> dom (States f) \<and> event \<in> dom (Events f) \<and> d \<in> dom (States f)) \<and>
     keyed_by State_Name (States f) \<and> keyed_by Event_Name (Events f)"

definition document_edge_list :: "EventDescYaml \<Rightarrow> edge list" where
  "document_edge_list y =
     concat (map (\<lambda>r. map (\<lambda>s. (s, Entry_Name r, DestState r)) (SrcState r)) (Fsm y))"

definition document_edges :: "EventDescYaml \<Rightarrow> edge set" where
  "document_edges y = set (document_edge_list y)"

definition document_conflict_free :: "EventDescYaml \<Rightarrow> bool" where
  "document_conflict_free y \<longleftrightarrow>
     list_all (\<lambda>(s, event, d). list_all (\<lambda>(s', event', d'). s = s' \<and> event = event' \<longrightarrow> d = d')
       (document_edge_list y)) (document_edge_list y)"

definition greet_rules :: EventDescYaml where
  "greet_rules =
     \<lparr>Fsm = [\<lparr>Entry_Name = ''Greet'', SrcState = [''Initial''], DestState = ''Hello''\<rparr>]\<rparr>"

definition greet_states :: StateYaml where
  "greet_states =
     \<lparr>StateYaml_States = [NewState ''Initial'' ''Welcome'', NewState ''Hello'' ''Hello there'']\<rparr>"

definition greet_events :: EventYaml where
  "greet_events = \<lparr>EventYaml_Events = [NewEvent ''Greet'' ''Say hello'' 1]\<rparr>"

definition chat_rules :: EventDescYaml where
  "chat_rules = \<lparr>Fsm =
     [\<lparr>Entry_Name = ''GetStarted'', SrcState = [''Initial''], DestState = ''Hello''\<rparr>,
      \<lparr>Entry_Name = ''ShowBlogInfo'', SrcState = [''Hello''], DestState = ''Blog''\<rparr>,
      \<lparr>Entry_Name = ''Back'', SrcState = [''Blog''], DestState = ''Hello''\<rparr>,
      \<lparr>Entry_Name = ''Reset'', SrcState = [''Hello'', ''Blog''], DestState = ''Initial''\<rparr>]\<rparr>"

definition chat_states :: StateYaml where
  "chat_states = \<lparr>StateYaml_States =
     [NewState ''Initial'' ''Press Get Started'', NewState ''Hello'' ''How can I help?'',
      NewState ''Blog'' ''The blog is at /blog'']\<rparr>"

definition chat_events :: EventYaml where
  "chat_events = \<lparr>EventYaml_Events =
     [NewEvent ''GetStarted'' ''Get Started'' 1, NewEvent ''ShowBlogInfo'' ''Blog'' 2,
      NewEvent ''Back'' ''Back'' 3, NewEvent ''Reset'' ''Reset'' 4]\<rparr>"

definition scripted ::
  "cause + EventDescYaml \<Rightarrow> cause + StateYaml \<Rightarrow> cause + EventYaml \<Rightarrow> (unit, nat) yaml_api" where
  "scripted r1 r2 r3 =
     \<lparr>NewDecoder = (\<lambda>_. 0), DecodeFsm = (\<lambda>n. (r1, Suc n)),
      DecodeStates = (\<lambda>n. (r2, Suc n)), DecodeEvents = (\<lambda>n. (r3, Suc n))\<rparr>"

definition chat_api :: "(unit, nat) yaml_api" where
  "chat_api = scripted (Inr chat_rules) (Inr chat_states) (Inr chat_events)"

definition chat_machine :: FSMWithStatesAndEvents where
  "chat_machine = assemble chat_rules chat_states chat_events"

definition chat_fsm_at :: "string \<Rightarrow> FSM" where
  "chat_fsm_at s = (FSM chat_machine)\<lparr>current := s\<rparr>"

definition greet_api :: "(unit, nat) yaml_api" where
  "greet_api = scripted (Inr greet_rules) (Inr greet_states) (Inr greet_events)"

definition greet_machine :: FSMWithStatesAndEvents where
  "greet_machine = assemble greet_rules greet_states greet_events"

definition unknown_rules :: EventDescYaml where
  "unknown_rules =
     \<lparr>Fsm = [\<lparr>Entry_Name = ''Unknown'', SrcState = [''Initial''], DestState = ''Nowhere''\<rparr>]\<rparr>"

definition clash_rules :: EventDescYaml where
  "clash_rules =
     \<lparr>Fsm = [\<lparr>Entry_Name = ''Greet'', SrcState = [''Initial''], DestState = ''Hello''\<rparr>,
             \<lparr>Entry_Name = ''Greet'', SrcState = [''Initial''], DestState = ''Initial''\<rparr>]\<rparr>"

declare InitialStateName_def [model_defs] entry_desc_def [model_defs]
  eventDescYamlToEventDesc_def [model_defs] statesMap_def [model_defs]
  eventsMap_def [model_defs] assemble_def [model_defs] decode_sections_def [model_defs]
  yamlToFSM_def [model_defs] ChatBotFSM_def [model_defs] state_names_def [model_defs]
  event_names_def [model_defs] rule_resolves_def [model_defs] wf_document_def [model_defs]


section \<open>Rules\<close>

lemma entry_desc_sel [simp]:
  "Name (entry_desc e) = Entry_Name e" "Src (entry_desc e) = SrcState e"
  "Dst (entry_desc e) = DestState e"
  by (simp_all add: entry_desc_def)

lemma eventDescYamlToEventDesc_map: "eventDescYamlToEventDesc m = map entry_desc (Fsm m)"
  by (simp add: eventDescYamlToEventDesc_def append_all_map)

lemma inj_entry_desc: "inj entry_desc"
  by (rule injI) (simp add: entry_desc_def)


section \<open>The tables of states and events\<close>

lemma statesMap_store:
  "statesMap st = store_all State_Name (\<lambda>s. s) (StateYaml_States st) Map.empty"
  by (simp add: statesMap_def)

lemma eventsMap_store:
  "eventsMap ev = store_all Event_Name (\<lambda>e. e) (EventYaml_Events ev) Map.empty"
  by (simp add: eventsMap_def)

lemma statesMap_lookup:
  "statesMap st n = last_with (\<lambda>s. State_Name s = n) (StateYaml_States st)"
  by (simp add: statesMap_store store_all_last split: option.splits)

lemma eventsMap_lookup:
  "eventsMap ev n = last_with (\<lambda>e. Event_Name e = n) (EventYaml_Events ev)"
  by (simp add: eventsMap_store store_all_last split: option.splits)

lemma statesMap_None_iff:
  "statesMap st n = None \<longleftrightarrow> n \<notin> State_Name ` set (StateYaml_States st)"
  by (auto simp: statesMap_lookup last_with_None_iff)

lemma eventsMap_None_iff:
  "eventsMap ev n = None \<longleftrightarrow> n \<notin> Event_Name ` set (EventYaml_Events ev)"
  by (auto simp: eventsMap_lookup last_with_None_iff)

lemma dom_statesMap [simp]: "dom (statesMap st) = State_Name ` set (StateYaml_States st)"
  by (simp add: statesMap_store)

lemma dom_eventsMap [simp]: "dom (eventsMap ev) = Event_Name ` set (EventYaml_Events ev)"
  by (simp add: eventsMap_store)

lemma keyed_byD: "keyed_by name m \<Longrightarrow> m k = Some v \<Longrightarrow> name v = k"
  by (simp add: keyed_by_def)

lemma keyed_by_store_all: "keyed_by name (store_all name (\<lambda>x. x) xs Map.empty)"
  by (auto simp: keyed_by_def dest: store_all_SomeD)

lemma keyed_statesMap: "keyed_by State_Name (statesMap st)"
  by (simp add: statesMap_store keyed_by_store_all)

lemma keyed_eventsMap: "keyed_by Event_Name (eventsMap ev)"
  by (simp add: eventsMap_store keyed_by_store_all)

lemma statesMap_distinct:
  "distinct (map State_Name (StateYaml_States st)) \<Longrightarrow> s \<in> set (StateYaml_States st) \<Longrightarrow>
     statesMap st (State_Name s) = Some s"
  by (simp add: statesMap_store store_all_distinct)

lemma eventsMap_distinct:
  "distinct (map Event_Name (EventYaml_Events ev)) \<Longrightarrow> e \<in> set (EventYaml_Events ev) \<Longrightarrow>
     eventsMap ev (Event_Name e) = Some e"
  by (simp add: eventsMap_store store_all_distinct)

lemma statesMap_SomeD: "statesMap st n = Some s \<Longrightarrow> s \<in> set (StateYaml_States st) \<and> State_Name s = n"
  by (auto simp: statesMap_lookup dest: last_with_SomeD)

lemma eventsMap_SomeD: "eventsMap ev n = Some e \<Longrightarrow> e \<in> set (EventYaml_Events ev) \<and> Event_Name e = n"
  by (auto simp: eventsMap_lookup dest: last_with_SomeD)


section \<open>Assembling the machine\<close>

lemma assemble_sel [simp]:
  "FSM (assemble y st ev) = NewFSM InitialStateName (eventDescYamlToEventDesc y)"
  "States (assemble y st ev) = statesMap st"
  "Events (assemble y st ev) = eventsMap ev"
  by (simp_all add: assemble_def)

lemma assemble_current [simp]: "current (FSM (assemble y st ev)) = InitialStateName"
  by simp

lemma governs_entry_desc [simp]:
  "governs s event (entry_desc r) \<longleftrightarrow> Entry_Name r = event \<and> s \<in> set (SrcState r)"
  by (simp add: governs_def)

lemma NewFSM_entry_lookup:
  "transitions (NewFSM initial (eventDescYamlToEventDesc y)) (s, event) =
     map_option DestState
       (last_with (\<lambda>r. Entry_Name r = event \<and> s \<in> set (SrcState r)) (Fsm y))"
  by (simp add: NewFSM_lookup eventDescYamlToEventDesc_map last_with_map option.map_comp comp_def)

lemma assemble_lookup:
  "transitions (FSM (assemble y st ev)) (s, event) =
     map_option DestState
       (last_with (\<lambda>r. Entry_Name r = event \<and> s \<in> set (SrcState r)) (Fsm y))"
  by (simp add: NewFSM_entry_lookup)

lemma assemble_range_order:
  "range_order (transitions (FSM (assemble y st ev))) (decl_order (eventDescYamlToEventDesc y))"
  by (simp add: decl_order_range)


section \<open>The graph a document declares\<close>

lemma document_edge_list_eq: "document_edge_list y = edge_list (eventDescYamlToEventDesc y)"
  by (simp add: document_edge_list_def edge_list_def desc_edges_def eventDescYamlToEventDesc_map
      comp_def)

lemma document_edges_eq: "document_edges y = edges_of (eventDescYamlToEventDesc y)"
  by (simp add: document_edges_def edges_of_def document_edge_list_eq)

lemma document_conflict_free_eq:
  "document_conflict_free y = conflict_free (eventDescYamlToEventDesc y)"
  by (simp add: document_conflict_free_def conflict_free_def document_edge_list_eq)

lemma document_edges_iff:
  "(s, event, d) \<in> document_edges y \<longleftrightarrow>
     (\<exists>r \<in> set (Fsm y). Entry_Name r = event \<and> s \<in> set (SrcState r) \<and> DestState r = d)"
  by (auto simp: document_edges_eq edges_of_iff eventDescYamlToEventDesc_map)

lemma assemble_fire_all_path:
  "fire_all (FSM (assemble y st ev)) events = Inr m \<Longrightarrow>
     path (edges_of (eventDescYamlToEventDesc y)) InitialStateName events (current m)"
  by (simp add: fire_all_path)


section \<open>Closed machines\<close>

lemma closedI:
  assumes "current (FSM f) \<in> dom (States f)"
    and "\<And>s event d. transitions (FSM f) (s, event) = Some d \<Longrightarrow>
           s \<in> dom (States f) \<and> event \<in> dom (Events f) \<and> d \<in> dom (States f)"
    and "keyed_by State_Name (States f)" and "keyed_by Event_Name (Events f)"
  shows "closed f"
  using assms unfolding closed_def by blast

lemma closed_current: "closed f \<Longrightarrow> current (FSM f) \<in> dom (States f)"
  by (simp add: closed_def)

lemma closed_edge:
  "closed f \<Longrightarrow> transitions (FSM f) (s, event) = Some d \<Longrightarrow>
     s \<in> dom (States f) \<and> event \<in> dom (Events f) \<and> d \<in> dom (States f)"
  unfolding closed_def by blast

lemma closed_keyed:
  "closed f \<Longrightarrow> keyed_by State_Name (States f) \<and> keyed_by Event_Name (Events f)"
  by (simp add: closed_def)

lemma closed_reachable:
  assumes "closed f" and "reachable (FSM f) m"
  shows "closed (f\<lparr>FSM := m\<rparr>)"
proof (rule closedI)
  from assms(2) have tr: "transitions m = transitions (FSM f)" by (rule reachable_transitions)
  from assms(2) have "current m = current (FSM f) \<or> current m \<in> ran (transitions (FSM f))"
    by (rule reachable_current)
  then have "current m \<in> dom (States f)"
  proof
    assume "current m = current (FSM f)"
    with assms(1) show ?thesis by (simp add: closed_current)
  next
    assume "current m \<in> ran (transitions (FSM f))"
    then obtain s event where "transitions (FSM f) (s, event) = Some (current m)"
      by (auto simp: ran_def)
    with assms(1) show ?thesis by (blast dest: closed_edge)
  qed
  then show "current (FSM (f\<lparr>FSM := m\<rparr>)) \<in> dom (States (f\<lparr>FSM := m\<rparr>))" by simp
  show "s \<in> dom (States (f\<lparr>FSM := m\<rparr>)) \<and> e \<in> dom (Events (f\<lparr>FSM := m\<rparr>)) \<and>
      d \<in> dom (States (f\<lparr>FSM := m\<rparr>))"
    if "transitions (FSM (f\<lparr>FSM := m\<rparr>)) (s, e) = Some d" for s e d
    using that assms(1) by (simp add: tr closed_edge)
  from assms(1) show "keyed_by State_Name (States (f\<lparr>FSM := m\<rparr>))"
    and "keyed_by Event_Name (Events (f\<lparr>FSM := m\<rparr>))"
    by (simp_all add: closed_keyed)
qed

lemma wf_document_rule:
  assumes "wf_document y st ev" and "r \<in> set (Fsm y)"
  shows "Entry_Name r \<in> dom (eventsMap ev)" and "set (SrcState r) \<subseteq> dom (statesMap st)"
    and "DestState r \<in> dom (statesMap st)"
  using assms
  by (auto simp: wf_document_def rule_resolves_def state_names_def event_names_def list_all_iff)

lemma closed_assemble:
  assumes "wf_document y st ev"
  shows "closed (assemble y st ev)"
proof (rule closedI)
  from assms show "current (FSM (assemble y st ev)) \<in> dom (States (assemble y st ev))"
    by (simp add: wf_document_def state_names_def)
  show "s \<in> dom (States (assemble y st ev)) \<and> e \<in> dom (Events (assemble y st ev)) \<and>
      d \<in> dom (States (assemble y st ev))"
    if "transitions (FSM (assemble y st ev)) (s, e) = Some d" for s e d
  proof -
    from that obtain r where "r \<in> set (Fsm y)" and "Entry_Name r = e"
      and "s \<in> set (SrcState r)" and "DestState r = d"
      by (auto simp: eventDescYamlToEventDesc_map governs_def dest!: NewFSM_lookup_SomeD)
    with wf_document_rule [OF assms, of r] show ?thesis by auto
  qed
  show "keyed_by State_Name (States (assemble y st ev))"
    and "keyed_by Event_Name (Events (assemble y st ev))"
    by (simp_all add: keyed_statesMap keyed_eventsMap)
qed


section \<open>Decoding the three sections\<close>

lemma decode_sections_fsm_error:
  "DecodeFsm Y (NewDecoder Y b) = (Inl c, d1) \<Longrightarrow>
     decode_sections Y b = (Inl (DecodeFSMFailed c), [])"
  by (simp add: decode_sections_def)

lemma decode_sections_states_error:
  "DecodeFsm Y (NewDecoder Y b) = (Inr y, d1) \<Longrightarrow> DecodeStates Y d1 = (Inl c, d2) \<Longrightarrow>
     decode_sections Y b = (Inl (DecodeStatesFailed c), [DecodedFSM y])"
  by (simp add: decode_sections_def)

lemma decode_sections_events_error:
  "DecodeFsm Y (NewDecoder Y b) = (Inr y, d1) \<Longrightarrow> DecodeStates Y d1 = (Inr st, d2) \<Longrightarrow>
     DecodeEvents Y d2 = (Inl c, d3) \<Longrightarrow>
     decode_sections Y b = (Inl (DecodeEventsFailed c), [DecodedFSM y, DecodedStates st])"
  by (simp add: decode_sections_def)

lemma decode_sections_ok:
  "decodes Y b y st ev \<Longrightarrow>
     decode_sections Y b = (Inr (y, st, ev), [DecodedFSM y, DecodedStates st, DecodedEvents ev])"
  by (auto simp: decode_sections_def decodes_def)

lemma decode_sections_InrD:
  "decode_sections Y b = (Inr (y, st, ev), log) \<Longrightarrow>
     decodes Y b y st ev \<and> log = [DecodedFSM y, DecodedStates st, DecodedEvents ev]"
  by (auto simp: decode_sections_def decodes_def Let_def split: prod.splits sum.splits)

lemma decode_sections_Inr_iff:
  "fst (decode_sections Y b) = Inr (y, st, ev) \<longleftrightarrow> decodes Y b y st ev"
  by (cases "decode_sections Y b") (auto dest: decode_sections_InrD simp: decode_sections_ok)

lemma decode_sections_InlD:
  "decode_sections Y b = (Inl err, log) \<Longrightarrow>
     (\<exists>c. err = DecodeFSMFailed c) \<or> (\<exists>c. err = DecodeStatesFailed c) \<or>
     (\<exists>c. err = DecodeEventsFailed c)"
  by (auto simp: decode_sections_def Let_def split: prod.splits sum.splits)


section \<open>yamlToFSM and ChatBotFSM\<close>

lemma yamlToFSM_ok:
  "decodes Y b y st ev \<Longrightarrow>
     yamlToFSM Y b =
       (Inr (assemble y st ev),
        [DecodedFSM y, DecodedStates st, DecodedEvents ev,
         BuiltEventDesc (eventDescYamlToEventDesc y)])"
  by (simp add: yamlToFSM_def decode_sections_ok)

lemma yamlToFSM_error:
  "decode_sections Y b = (Inl err, log) \<Longrightarrow> yamlToFSM Y b = (Inl err, log)"
  by (simp add: yamlToFSM_def)

lemma yamlToFSM_InrD:
  "yamlToFSM Y b = (Inr m, log) \<Longrightarrow> \<exists>y st ev. decodes Y b y st ev \<and> m = assemble y st ev"
  by (auto simp: yamlToFSM_def split: prod.splits sum.splits dest: decode_sections_InrD)

lemma yamlToFSM_InlD:
  "yamlToFSM Y b = (Inl err, log) \<Longrightarrow> decode_sections Y b = (Inl err, log)"
  by (auto simp: yamlToFSM_def split: prod.splits sum.splits)

lemma yamlToFSM_Inl_iff:
  "yamlToFSM Y b = (Inl e, log) \<longleftrightarrow> decode_sections Y b = (Inl e, log)"
  by (auto simp: yamlToFSM_def split: prod.splits sum.splits)

lemma decode_sections_Inl_iff:
  "decode_sections Y b = (Inl e, log) \<longleftrightarrow>
     (\<exists>c d1. DecodeFsm Y (NewDecoder Y b) = (Inl c, d1) \<and> e = DecodeFSMFailed c \<and> log = []) \<or>
     (\<exists>y d1 c d2. DecodeFsm Y (NewDecoder Y b) = (Inr y, d1) \<and> DecodeStates Y d1 = (Inl c, d2) \<and>
        e = DecodeStatesFailed c \<and> log = [DecodedFSM y]) \<or>
     (\<exists>y d1 st d2 c d3. DecodeFsm Y (NewDecoder Y b) = (Inr y, d1) \<and>
        DecodeStates Y d1 = (Inr st, d2) \<and> DecodeEvents Y d2 = (Inl c, d3) \<and>
        e = DecodeEventsFailed c \<and> log = [DecodedFSM y, DecodedStates st])"
  by (auto simp: decode_sections_def Let_def split: prod.splits sum.splits)

lemma ChatBotFSM_read_error:
  "readFile file = Inl c \<Longrightarrow> ChatBotFSM Y readFile file = (Inl (ReadConfigFailed c file), [])"
  by (simp add: ChatBotFSM_def)

lemma ChatBotFSM_build_error:
  "readFile file = Inr b \<Longrightarrow> yamlToFSM Y b = (Inl err, log) \<Longrightarrow>
     ChatBotFSM Y readFile file = (Inl (CreateFSMFailed err file), log)"
  by (simp add: ChatBotFSM_def)

lemma ChatBotFSM_ok:
  "readFile file = Inr b \<Longrightarrow> yamlToFSM Y b = (Inr m, log) \<Longrightarrow>
     ChatBotFSM Y readFile file = (Inr m, log)"
  by (simp add: ChatBotFSM_def)

lemma ChatBotFSM_InrD:
  "ChatBotFSM Y readFile file = (Inr m, log) \<Longrightarrow>
     \<exists>b. readFile file = Inr b \<and> yamlToFSM Y b = (Inr m, log)"
  by (auto simp: ChatBotFSM_def split: sum.splits prod.splits)

lemmas decode_sections_cases =
  decode_sections_fsm_error decode_sections_states_error decode_sections_events_error
  decode_sections_ok

lemmas ChatBotFSM_cases = ChatBotFSM_read_error ChatBotFSM_build_error ChatBotFSM_ok


section \<open>Error messages\<close>

lemma error_text_root_cause: "\<exists>p. error_text e = p @ '': '' @ root_cause e"
proof (induction e)
  case (ReadConfigFailed c name)
  have "error_text (ReadConfigFailed c name) =
      (''failed to read config file '' @ name) @ '': '' @ root_cause (ReadConfigFailed c name)"
    by simp
  then show ?case by blast
next
  case (CreateFSMFailed e name)
  then obtain p where "error_text e = p @ '': '' @ root_cause e" by blast
  then have "error_text (CreateFSMFailed e name) =
      (''failed to create FSM from contents of file '' @ name @ '': '' @ p) @ '': '' @
        root_cause (CreateFSMFailed e name)"
    by simp
  then show ?case by blast
next
  case (DecodeFSMFailed c)
  have "error_text (DecodeFSMFailed c) = ''failed to decode FSM'' @ '': '' @ root_cause (DecodeFSMFailed c)"
    by simp
  then show ?case by blast
next
  case (DecodeStatesFailed c)
  have "error_text (DecodeStatesFailed c) =
      ''failed to decode states list'' @ '': '' @ root_cause (DecodeStatesFailed c)"
    by simp
  then show ?case by blast
next
  case (DecodeEventsFailed c)
  have "error_text (DecodeEventsFailed c) =
      ''failed to decode events list'' @ '': '' @ root_cause (DecodeEventsFailed c)"
    by simp
  then show ?case by blast
qed

lemma ChatBotFSM_InlD:
  "ChatBotFSM Y readFile file = (Inl err, log) \<Longrightarrow>
     (\<exists>c. readFile file = Inl c \<and> err = ReadConfigFailed c file \<and> log = []) \<or>
     (\<exists>b e. readFile file = Inr b \<and> yamlToFSM Y b = (Inl e, log) \<and> err = CreateFSMFailed e file)"
  by (auto simp: ChatBotFSM_def split: sum.splits prod.splits)


section \<open>The worked example\<close>

lemma chat_decodes: "decodes chat_api () chat_rules chat_states chat_events"
  by (simp add: decodes_def chat_api_def scripted_def)

lemma scripted_sel [simp]:
  "NewDecoder (scripted r1 r2 r3) b = 0"
  "DecodeFsm (scripted r1 r2 r3) n = (r1, Suc n)"
  "DecodeStates (scripted r1 r2 r3) n = (r2, Suc n)"
  "DecodeEvents (scripted r1 r2 r3) n = (r3, Suc n)"
  by (simp_all add: scripted_def)

lemma scripted_decodes [simp]: "decodes (scripted (Inr y) (Inr st) (Inr ev)) b y' st' ev' \<longleftrightarrow>
    y' = y \<and> st' = st \<and> ev' = ev"
  by (auto simp: decodes_def)

lemma greet_decodes: "decodes greet_api () greet_rules greet_states greet_events"
  by (simp add: greet_api_def)

lemma chat_wf: "wf_document chat_rules chat_states chat_events"
  by (simp add: wf_document_def rule_resolves_def state_names_def event_names_def
      chat_rules_def chat_states_def chat_events_def InitialStateName_def)

lemma chat_lookup:
  "transitions (FSM chat_machine) (s, event) =
     map_option DestState
       (last_with (\<lambda>r. Entry_Name r = event \<and> s \<in> set (SrcState r)) (Fsm chat_rules))"
  by (simp add: chat_machine_def NewFSM_entry_lookup)

lemma chat_fsm_at_sel [simp]:
  "current (chat_fsm_at s) = s" "transitions (chat_fsm_at s) = transitions (FSM chat_machine)"
  by (simp_all add: chat_fsm_at_def)

lemma chat_fsm_at_Initial: "chat_fsm_at ''Initial'' = FSM chat_machine"
  by (simp add: chat_fsm_at_def chat_machine_def InitialStateName_def)

lemma chat_fsm_fire:
  "transitions (FSM chat_machine) (s, event) = Some d \<Longrightarrow>
     Fire (chat_fsm_at s) event = Inr (chat_fsm_at d)"
  by (simp add: Fire_def chat_fsm_at_def)

lemma chat_reachable_Hello: "reachable (FSM chat_machine) (chat_fsm_at ''Hello'')"
proof -
  have "Fire (chat_fsm_at ''Initial'') ''GetStarted'' = Inr (chat_fsm_at ''Hello'')"
    by (rule chat_fsm_fire) (simp add: chat_lookup chat_rules_def last_with_def)
  then show ?thesis
    using reachable_Fire [OF reachable.start, of "FSM chat_machine"]
    by (simp add: chat_fsm_at_Initial)
qed

lemma chat_reachable_Blog: "reachable (FSM chat_machine) (chat_fsm_at ''Blog'')"
proof -
  have "Fire (chat_fsm_at ''Hello'') ''ShowBlogInfo'' = Inr (chat_fsm_at ''Blog'')"
    by (rule chat_fsm_fire) (simp add: chat_lookup chat_rules_def last_with_def)
  with chat_reachable_Hello show ?thesis by (rule reachable_Fire)
qed


section \<open>Properties of the construction\<close>

text \<open>
  C1. In every machine reached from a freshly built one, firing an event is decided
  by the last rule of the document that names the event and lists the current state
  as a source: the machine moves to that rule's destination and nothing else
  changes; if no rule does, the event is rejected with an error naming the current
  state and the event, and there is no new machine.
\<close>
theorem fire_follows_last_rule:
  "reachable (FSM (assemble y st ev)) m \<Longrightarrow>
     Fire m event =
       (case last_with (\<lambda>r. Entry_Name r = event \<and> current m \<in> set (SrcState r)) (Fsm y) of
          None \<Rightarrow> Inl (IllegalTransitionError (current m) event)
        | Some r \<Rightarrow> Inr (m\<lparr>current := DestState r\<rparr>))"
  by (simp add: Fire_def reachable_transitions NewFSM_entry_lookup split: option.splits)

theorem fire_follows_last_rule_witness:
  "Fire (chat_fsm_at ''Blog'') ''Reset'' = Inr (chat_fsm_at ''Initial'') \<and>
   Fire (chat_fsm_at ''Blog'') ''GetStarted'' = Inl (IllegalTransitionError ''Blog'' ''GetStarted'')"
  using fire_follows_last_rule [OF chat_reachable_Blog [unfolded chat_machine_def], of "''Reset''"]
    fire_follows_last_rule [OF chat_reachable_Blog [unfolded chat_machine_def], of "''GetStarted''"]
  by (simp add: chat_rules_def last_with_def chat_fsm_at_def chat_machine_def)

text \<open>
  C3. A machine built from a well-formed document (distinct state names, distinct
  event names, the start state declared, every rule naming a declared event and
  declared states) is closed, and stays closed whatever events are fired: the
  current state and every state and event of the transition table are declared, and
  both tables store each entry under its own name.
\<close>
theorem built_machine_closed:
  "wf_document y st ev \<Longrightarrow> reachable (FSM (assemble y st ev)) m \<Longrightarrow>
     closed ((assemble y st ev)\<lparr>FSM := m\<rparr>)"
  by (blast intro: closed_reachable closed_assemble)

theorem built_machine_closed_witness:
  "closed (chat_machine\<lparr>FSM := chat_fsm_at ''Blog''\<rparr>)"
  using built_machine_closed [OF chat_wf chat_reachable_Blog [unfolded chat_machine_def]]
  by (simp add: chat_machine_def)

text \<open>
  C5. \<open>yamlToFSM\<close> returns a machine exactly when the three sections decode one after
  the other, each \<open>Decode\<close> continuing from the decoder state the previous one left;
  the machine is then the one assembled from the three decoded values. Nothing else
  can make the construction fail or succeed.
\<close>
theorem yamlToFSM_succeeds_iff:
  "fst (yamlToFSM Y b) = Inr m \<longleftrightarrow> (\<exists>y st ev. decodes Y b y st ev \<and> m = assemble y st ev)"
proof
  assume "fst (yamlToFSM Y b) = Inr m"
  then obtain log where "yamlToFSM Y b = (Inr m, log)" by (cases "yamlToFSM Y b") simp
  then show "\<exists>y st ev. decodes Y b y st ev \<and> m = assemble y st ev" by (rule yamlToFSM_InrD)
next
  assume "\<exists>y st ev. decodes Y b y st ev \<and> m = assemble y st ev"
  then show "fst (yamlToFSM Y b) = Inr m" by (auto simp: yamlToFSM_ok)
qed

theorem yamlToFSM_succeeds_iff_witness:
  "fst (yamlToFSM chat_api ()) = Inr (assemble chat_rules chat_states chat_events)"
  using yamlToFSM_succeeds_iff [of chat_api "()" "assemble chat_rules chat_states chat_events"]
    chat_decodes by blast

text \<open>
  C9. In both tables the last declaration of a name wins: the state (or event)
  declared at some position of its section is what its name looks up, unless a
  later declaration repeats the name, and then the latest of those is. No
  declaration is rejected as a duplicate.
\<close>
theorem tables_last_wins:
  "statesMap \<lparr>StateYaml_States = xs @ s # ys\<rparr> (State_Name s) =
     (case last_with (\<lambda>s'. State_Name s' = State_Name s) ys of
        None \<Rightarrow> Some s | Some s' \<Rightarrow> Some s') \<and>
   eventsMap \<lparr>EventYaml_Events = us @ e # vs\<rparr> (Event_Name e) =
     (case last_with (\<lambda>e'. Event_Name e' = Event_Name e) vs of
        None \<Rightarrow> Some e | Some e' \<Rightarrow> Some e')"
  by (simp add: statesMap_lookup eventsMap_lookup last_with_append last_with_Cons
      split: option.splits)

theorem tables_last_wins_witness:
  "statesMap \<lparr>StateYaml_States = [NewState ''Hello'' ''first'', NewState ''Blog'' ''b'',
       NewState ''Hello'' ''second'']\<rparr> ''Hello'' = Some (NewState ''Hello'' ''second'') \<and>
   eventsMap \<lparr>EventYaml_Events = [NewEvent ''Back'' ''old'' 1, NewEvent ''Back'' ''new'' 2]\<rparr>
     ''Back'' = Some (NewEvent ''Back'' ''new'' 2)"
  using tables_last_wins [of "[]" "NewState ''Hello'' ''first''"
      "[NewState ''Blog'' ''b'', NewState ''Hello'' ''second'']"
      "[]" "NewEvent ''Back'' ''old'' 1" "[NewEvent ''Back'' ''new'' 2]"]
  by (simp add: last_with_def)

text \<open>
  C13. \<open>yamlToFSM\<close> fails exactly when one of the three sections fails to decode, and
  reports the first that does: the error is the library's error wrapped as "failed
  to decode FSM", "failed to decode states list" or "failed to decode events list",
  the log holds the sections decoded before it, and the sections after it are not
  looked at.
\<close>
theorem yamlToFSM_fails_iff:
  "yamlToFSM Y b = (Inl e, log) \<longleftrightarrow>
     (\<exists>c d1. DecodeFsm Y (NewDecoder Y b) = (Inl c, d1) \<and> e = DecodeFSMFailed c \<and> log = []) \<or>
     (\<exists>y d1 c d2. DecodeFsm Y (NewDecoder Y b) = (Inr y, d1) \<and> DecodeStates Y d1 = (Inl c, d2) \<and>
        e = DecodeStatesFailed c \<and> log = [DecodedFSM y]) \<or>
     (\<exists>y d1 st d2 c d3. DecodeFsm Y (NewDecoder Y b) = (Inr y, d1) \<and>
        DecodeStates Y d1 = (Inr st, d2) \<and> DecodeEvents Y d2 = (Inl c, d3) \<and>
        e = DecodeEventsFailed c \<and> log = [DecodedFSM y, DecodedStates st])"
  unfolding yamlToFSM_Inl_iff by (rule decode_sections_Inl_iff)

theorem yamlToFSM_fails_iff_witness:
  "yamlToFSM (scripted (Inr chat_rules) (Inl ''EOF'') (Inl ''never read'')) () =
     (Inl (DecodeStatesFailed ''EOF''), [DecodedFSM chat_rules])"
  using yamlToFSM_fails_iff [of "scripted (Inr chat_rules) (Inl ''EOF'') (Inl ''never read'')" "()"
      "DecodeStatesFailed ''EOF''" "[DecodedFSM chat_rules]"]
  by simp

text \<open>
  C14. A successful \<open>yamlToFSM\<close> has written four log entries, in this order: the
  decoded rules, the decoded states, the decoded events, and the rules converted to
  the engine's form, which are the declared rules in declaration order.
\<close>
theorem yamlToFSM_log:
  "decodes Y b y st ev \<Longrightarrow>
     snd (yamlToFSM Y b) =
       [DecodedFSM y, DecodedStates st, DecodedEvents ev,
        BuiltEventDesc (map (\<lambda>e. \<lparr>Name = Entry_Name e, Src = SrcState e, Dst = DestState e\<rparr>)
          (Fsm y))]"
  by (simp add: yamlToFSM_ok eventDescYamlToEventDesc_map entry_desc_def)

theorem yamlToFSM_log_witness:
  "length (snd (yamlToFSM chat_api ())) = 4 \<and> hd (snd (yamlToFSM chat_api ())) = DecodedFSM chat_rules"
  using yamlToFSM_log [OF chat_decodes] by simp

text \<open>
  C17. \<open>ChatBotFSM\<close> returns a machine exactly when the file can be read and
  \<open>yamlToFSM\<close> builds that machine from its contents; the log is the one of
  \<open>yamlToFSM\<close>.
\<close>
theorem ChatBotFSM_succeeds_iff:
  "ChatBotFSM Y readFile file = (Inr m, log) \<longleftrightarrow>
     (\<exists>b. readFile file = Inr b \<and> yamlToFSM Y b = (Inr m, log))"
  by (auto simp: ChatBotFSM_def split: sum.splits prod.splits)

theorem ChatBotFSM_succeeds_iff_witness:
  "fst (ChatBotFSM chat_api (\<lambda>path. if path = ''fsm.yaml'' then Inr () else Inl ''no such file'')
     ''fsm.yaml'') = Inr (assemble chat_rules chat_states chat_events)"
  using ChatBotFSM_succeeds_iff [of chat_api
      "\<lambda>path. if path = ''fsm.yaml'' then Inr () else Inl ''no such file''" "''fsm.yaml''"
      "assemble chat_rules chat_states chat_events" "snd (yamlToFSM chat_api ())"]
    yamlToFSM_ok [OF chat_decodes]
  by simp

text \<open>
  C18. A failing \<open>ChatBotFSM\<close> reports either that the file could not be read, with
  the file name and the cause, or that the machine could not be created from the
  file, with the file name and the message of \<open>yamlToFSM\<close>'s error; in both cases the
  message ends with the cause the library gave.
\<close>
theorem ChatBotFSM_error_text:
  "ChatBotFSM Y readFile file = (Inl err, log) \<Longrightarrow>
     (\<exists>p. error_text err = p @ '': '' @ root_cause err) \<and>
     (case readFile file of
        Inl c \<Rightarrow> error_text err = ''failed to read config file '' @ file @ '': '' @ c
      | Inr b \<Rightarrow> \<exists>e. yamlToFSM Y b = (Inl e, log) \<and>
          error_text err =
            ''failed to create FSM from contents of file '' @ file @ '': '' @ error_text e)"
  using error_text_root_cause [of err] by (auto dest!: ChatBotFSM_InlD)

theorem ChatBotFSM_error_text_witness:
  "error_text (projl (fst (ChatBotFSM (scripted (Inr chat_rules) (Inl ''EOF'') (Inr chat_events))
       (\<lambda>path. Inr ()) ''fsm.yaml''))) =
     ''failed to create FSM from contents of file fsm.yaml: failed to decode states list: EOF''"
proof -
  let ?Y = "scripted (Inr chat_rules) (Inl ''EOF'') (Inr chat_events)"
  have y: "yamlToFSM ?Y () = (Inl (DecodeStatesFailed ''EOF''), [DecodedFSM chat_rules])"
    by (rule yamlToFSM_error, rule decode_sections_states_error) simp_all
  then have c: "ChatBotFSM ?Y (\<lambda>path. Inr ()) ''fsm.yaml'' =
      (Inl (CreateFSMFailed (DecodeStatesFailed ''EOF'') ''fsm.yaml''), [DecodedFSM chat_rules])"
    by (simp add: ChatBotFSM_def)
  from ChatBotFSM_error_text [OF c] show ?thesis by (simp add: c)
qed

text \<open>
  \<open>eventDescYamlToEventDesc\<close> converts the decoded rules one by one and in order:
  the result has as many rules as the section, and its rule at each position has the
  name, the sources and the destination of the entry at that position.
\<close>
lemma eventDescYamlToEventDesc_nth:
  "length (eventDescYamlToEventDesc m) = length (Fsm m) \<and>
   (\<forall>i < length (Fsm m).
      eventDescYamlToEventDesc m ! i =
        \<lparr>Name = Entry_Name (Fsm m ! i), Src = SrcState (Fsm m ! i), Dst = DestState (Fsm m ! i)\<rparr>)"
  by (simp add: eventDescYamlToEventDesc_def nth_append_all entry_desc_def)

text \<open>
  C6. Every sequence of events that the built machine accepts one after the other
  from its start state is a path of the graph that the document declares: each
  transition taken follows a declared rule from the state reached so far, and the
  machine ends in the state where the path ends.
\<close>
theorem runs_are_declared_paths:
  "fire_all (FSM (assemble y st ev)) events = Inr m \<Longrightarrow>
     path (document_edges y) ''Initial'' events (current m) \<and>
     transitions m = transitions (FSM (assemble y st ev))"
  using assemble_fire_all_path [of y st ev events m]
  by (simp add: document_edges_eq fire_all_transitions InitialStateName_def)

theorem runs_are_declared_paths_witness:
  "path (document_edges chat_rules) ''Initial''
     [''GetStarted'', ''ShowBlogInfo'', ''Reset''] ''Initial''"
proof -
  have "fire_all (FSM (assemble chat_rules chat_states chat_events))
      [''GetStarted'', ''ShowBlogInfo'', ''Reset''] =
      Inr ((FSM (assemble chat_rules chat_states chat_events))\<lparr>current := ''Initial''\<rparr>)"
    by (simp add: Fire_def NewFSM_entry_lookup chat_rules_def last_with_def InitialStateName_def)
  from runs_are_declared_paths [OF this] show ?thesis by simp
qed

text \<open>
  C7. When no two rules of the document give one pair of source state and event two
  destinations, every path of the declared graph from "Initial" is accepted by the
  built machine event by event, and leaves it in the state where the path ends with
  its tables unchanged.
\<close>
theorem declared_paths_are_runs:
  "document_conflict_free y \<Longrightarrow> path (document_edges y) ''Initial'' events s \<Longrightarrow>
     fire_all (FSM (assemble y st ev)) events = Inr ((FSM (assemble y st ev))\<lparr>current := s\<rparr>)"
  by (simp add: path_fire_all document_edges_eq document_conflict_free_eq InitialStateName_def)

theorem declared_paths_are_runs_witness:
  "fire_all (FSM (assemble greet_rules greet_states greet_events)) [''Greet''] =
     Inr ((FSM (assemble greet_rules greet_states greet_events))\<lparr>current := ''Hello''\<rparr>)"
proof (rule declared_paths_are_runs)
  show "document_conflict_free greet_rules"
    by (simp add: document_conflict_free_def document_edge_list_def greet_rules_def)
  show "path (document_edges greet_rules) ''Initial'' [''Greet''] ''Hello''"
    by (simp add: path_Cons_iff document_edges_iff greet_rules_def)
qed

text \<open>
  C12. The transition table of the built machine holds exactly the declared edges
  if and only if the rules are conflict free. In every case the table holds, for
  each pair of a source state and an event, the edge of the last rule of the
  document that names the event and lists the state: when two rules give one pair
  different destinations, the build does not fail, the table keeps the destination
  of the later rule and the edge of the earlier rule is lost.
\<close>
theorem table_is_graph_iff:
  "(table_edges (transitions (FSM (assemble y st ev))) = document_edges y \<longleftrightarrow>
      document_conflict_free y) \<and>
   table_edges (transitions (FSM (assemble y st ev))) =
     {(s, event, DestState r) | s event r.
        last_with (\<lambda>r. Entry_Name r = event \<and> s \<in> set (SrcState r)) (Fsm y) = Some r}"
proof
  show "table_edges (transitions (FSM (assemble y st ev))) = document_edges y \<longleftrightarrow>
      document_conflict_free y"
    by (simp add: table_edges_eq_iff document_edges_eq document_conflict_free_eq)
  show "table_edges (transitions (FSM (assemble y st ev))) =
      {(s, event, DestState r) | s event r.
         last_with (\<lambda>r. Entry_Name r = event \<and> s \<in> set (SrcState r)) (Fsm y) = Some r}"
    by (auto simp: table_edges_def NewFSM_entry_lookup)
qed

theorem table_is_graph_iff_witness:
  "\<not> document_conflict_free clash_rules \<and>
   transitions (FSM (assemble clash_rules greet_states greet_events)) (''Initial'', ''Greet'') =
     Some ''Initial'' \<and>
   (''Initial'', ''Greet'', ''Hello'') \<in> document_edges clash_rules \<and>
   (''Initial'', ''Greet'', ''Hello'') \<notin>
     table_edges (transitions (FSM (assemble clash_rules greet_states greet_events)))"
proof -
  have t: "transitions (FSM (assemble clash_rules greet_states greet_events)) (''Initial'', ''Greet'') =
      Some ''Initial''"
    by (simp add: NewFSM_entry_lookup clash_rules_def last_with_def)
  have e: "(''Initial'', ''Greet'', ''Hello'') \<in> document_edges clash_rules"
    by (simp add: document_edges_iff clash_rules_def)
  from t have n: "(''Initial'', ''Greet'', ''Hello'') \<notin>
      table_edges (transitions (FSM (assemble clash_rules greet_states greet_events)))"
    by simp
  with e have "table_edges (transitions (FSM (assemble clash_rules greet_states greet_events))) \<noteq>
      document_edges clash_rules"
    by metis
  with table_is_graph_iff [of clash_rules greet_states greet_events, THEN conjunct1] t e n
  show ?thesis by simp
qed

text \<open>
  C16. The build installs every rule of a decoded document without checking it: for
  each rule and each of its source states, the built machine accepts the rule's
  event in that state, whether or not the event, the source or the destination is
  declared in the other two sections.
\<close>
theorem every_rule_installed:
  "decodes Y b y st ev \<Longrightarrow> r \<in> set (Fsm y) \<Longrightarrow> s \<in> set (SrcState r) \<Longrightarrow>
     \<exists>m. fst (yamlToFSM Y b) = Inr m \<and> transitions (FSM m) (s, Entry_Name r) \<noteq> None"
proof -
  assume d: "decodes Y b y st ev" and r: "r \<in> set (Fsm y)" and s: "s \<in> set (SrcState r)"
  from s have "governs s (Entry_Name r) (entry_desc r)" by simp
  with r have "\<exists>e \<in> set (eventDescYamlToEventDesc y). governs s (Entry_Name r) e"
    by (auto simp: eventDescYamlToEventDesc_map)
  then have "transitions (NewFSM InitialStateName (eventDescYamlToEventDesc y)) (s, Entry_Name r) \<noteq> None"
    by (simp only: NewFSM_enabled_iff)
  with d show ?thesis by (simp add: yamlToFSM_ok)
qed

theorem every_rule_installed_witness:
  "\<not> wf_document unknown_rules greet_states greet_events \<and>
   (\<exists>m. fst (yamlToFSM (scripted (Inr unknown_rules) (Inr greet_states) (Inr greet_events)) ()) =
      Inr m \<and> transitions (FSM m) (''Initial'', ''Unknown'') \<noteq> None)"
proof -
  have "\<not> wf_document unknown_rules greet_states greet_events"
    by (simp add: wf_document_def rule_resolves_def event_names_def unknown_rules_def
        greet_events_def)
  moreover have "\<exists>m. fst (yamlToFSM (scripted (Inr unknown_rules) (Inr greet_states)
      (Inr greet_events)) ()) = Inr m \<and>
      transitions (FSM m) (''Initial'',
        Entry_Name \<lparr>Entry_Name = ''Unknown'', SrcState = [''Initial''], DestState = ''Nowhere''\<rparr>) \<noteq> None"
    by (rule every_rule_installed [where y = unknown_rules and st = greet_states
          and ev = greet_events]) (simp_all add: unknown_rules_def)
  ultimately show ?thesis by simp
qed

text \<open>
  C27. Neither table is larger than its section of the document, and a table has as
  many entries as the section has declarations exactly when no name is declared
  twice: a repeated name is the only way in which a declaration is lost.
\<close>
theorem tables_size:
  "card (dom (statesMap st)) \<le> length (StateYaml_States st) \<and>
   (card (dom (statesMap st)) = length (StateYaml_States st) \<longleftrightarrow> distinct (state_names st)) \<and>
   card (dom (eventsMap ev)) \<le> length (EventYaml_Events ev) \<and>
   (card (dom (eventsMap ev)) = length (EventYaml_Events ev) \<longleftrightarrow> distinct (event_names ev))"
  by (simp add: card_image_set_le card_image_set_eq_iff state_names_def event_names_def)

theorem tables_size_witness:
  "card (dom (statesMap \<lparr>StateYaml_States = [NewState ''Hello'' ''first'', NewState ''Blog'' ''b'',
       NewState ''Hello'' ''second'']\<rparr>)) = 2"
proof -
  have "card {''Hello'', ''Blog''} = 2" by simp
  then show ?thesis
    using tables_size [of "\<lparr>StateYaml_States = [NewState ''Hello'' ''first'', NewState ''Blog'' ''b'',
       NewState ''Hello'' ''second'']\<rparr>" chat_events]
    by (simp add: NewState_def insert_commute)
qed

text \<open>
  C28. When no name is declared twice, the tables do not depend on the order of the
  declarations: two sections that hold the same declarations in different orders
  give the same table of states, and the same table of events.
\<close>
theorem tables_order_independent:
  assumes "distinct (state_names st)" and "mset (StateYaml_States st') = mset (StateYaml_States st)"
    and "distinct (event_names ev)" and "mset (EventYaml_Events ev') = mset (EventYaml_Events ev)"
  shows "statesMap st' = statesMap st \<and> eventsMap ev' = eventsMap ev"
proof
  show "statesMap st' = statesMap st"
    unfolding statesMap_store using assms(1,2)
    by (intro store_all_mset_cong) (simp_all add: state_names_def)
  show "eventsMap ev' = eventsMap ev"
    unfolding eventsMap_store using assms(3,4)
    by (intro store_all_mset_cong) (simp_all add: event_names_def)
qed

theorem tables_order_independent_witness:
  "statesMap \<lparr>StateYaml_States = rev (StateYaml_States chat_states)\<rparr> = statesMap chat_states \<and>
   eventsMap \<lparr>EventYaml_Events = rev (EventYaml_Events chat_events)\<rparr> = eventsMap chat_events"
  using tables_order_independent [of chat_states
      "\<lparr>StateYaml_States = rev (StateYaml_States chat_states)\<rparr>" chat_events
      "\<lparr>EventYaml_Events = rev (EventYaml_Events chat_events)\<rparr>"] chat_wf
  by (simp add: wf_document_def)

end
