(* ===== verification/Validated_Builder.thy ===== *)
theory Validated_Builder
  imports Builder
begin

text \<open>
  The builder that the specification describes, as the abstract specification of
  \<open>yamlToFSM\<close>.

  Section 4.2 of the specification gives the construction as an algorithm with four
  checks that \<^verbatim>\<open>fsm.go\<close> does not make. This theory writes that algorithm down and
  compares the builder of the file with it.

  \<^item> \<open>build_error\<close> has one constructor per build-time error of section 7, holding
    what the specification asks the error to name.
  \<^item> \<open>MachineDefinition\<close> is the output of section 4.2: the tables of states and
    events, the transition table keyed by source state and event, and the start
    state.
  \<^item> \<open>insert_new\<close> is steps 1 and 2 (insert every declaration under its name, fail at
    the first name that repeats), \<open>check_references\<close> with \<open>missing_reference\<close> is
    step 3 (the first rule with an undeclared name, and that name: the event first,
    then the sources in order, then the destination), \<open>add_edges\<close> is step 4 (fail
    at the first edge whose source and event already lead elsewhere), and
    \<open>BuildMachine\<close> runs them in this order with the start state of step 5.
  \<^item> \<open>built_definition\<close> is the abstraction function: the machine definition that a
    machine of \<^verbatim>\<open>fsm.go\<close> carries when it has just been built.

  The lemmas characterise success and every failure of each step, show that
  \<open>BuildMachine\<close> accepts exactly the documents with distinct names, resolved rules
  and no conflicting edges, and that on those the machine \<open>assemble\<close> builds has
  the definition \<open>BuildMachine\<close> returns. On all other documents \<open>BuildMachine\<close>
  fails and \<open>yamlToFSM\<close> builds a machine nevertheless, a machine in which the
  defect that the error of \<open>BuildMachine\<close> names can be observed
  (\<open>rejected_document_defects\<close>).
\<close>

datatype build_error =
    DuplicateStateError string
  | DuplicateEventError string
  | UnknownReferenceError string FsmEntry
  | ConflictingTransitionError string string

record MachineDefinition =
  state_table :: "(string, State) gomap"
  event_table :: "(string, Event) gomap"
  transition_table :: "(eKey, string) gomap"
  start_state :: string

fun insert_new ::
  "('a \<Rightarrow> string) \<Rightarrow> (string \<Rightarrow> build_error) \<Rightarrow> 'a list \<Rightarrow> (string, 'a) gomap \<Rightarrow>
     build_error + (string, 'a) gomap" where
  "insert_new name err [] m = Inr m"
| "insert_new name err (x # xs) m =
     (case m (name x) of
        Some _ \<Rightarrow> Inl (err (name x))
      | None \<Rightarrow> insert_new name err xs (m(name x \<mapsto> x)))"

definition missing_reference ::
  "(string, State) gomap \<Rightarrow> (string, Event) gomap \<Rightarrow> FsmEntry \<Rightarrow> string option" where
  "missing_reference S E r =
     (case E (Entry_Name r) of
        None \<Rightarrow> Some (Entry_Name r)
      | Some _ \<Rightarrow> find (\<lambda>s. S s = None) (SrcState r @ [DestState r]))"

fun check_references ::
  "(string, State) gomap \<Rightarrow> (string, Event) gomap \<Rightarrow> FsmEntry list \<Rightarrow> build_error + unit" where
  "check_references S E [] = Inr ()"
| "check_references S E (r # rs) =
     (case missing_reference S E r of
        Some n \<Rightarrow> Inl (UnknownReferenceError n r)
      | None \<Rightarrow> check_references S E rs)"

fun add_edges :: "edge list \<Rightarrow> (eKey, string) gomap \<Rightarrow> build_error + (eKey, string) gomap" where
  "add_edges [] T = Inr T"
| "add_edges ((s, event, d) # es) T =
     (case T (s, event) of
        None \<Rightarrow> add_edges es (T((s, event) \<mapsto> d))
      | Some d' \<Rightarrow> if d' = d then add_edges es T else Inl (ConflictingTransitionError s event))"

definition BuildMachine ::
  "EventDescYaml \<Rightarrow> StateYaml \<Rightarrow> EventYaml \<Rightarrow> build_error + MachineDefinition" where
  "BuildMachine y st ev =
     and_then (insert_new State_Name DuplicateStateError (StateYaml_States st) Map.empty) (\<lambda>S.
     and_then (insert_new Event_Name DuplicateEventError (EventYaml_Events ev) Map.empty) (\<lambda>E.
     and_then (check_references S E (Fsm y)) (\<lambda>_.
     and_then (add_edges (document_edge_list y) Map.empty) (\<lambda>T.
       Inr \<lparr>state_table = S, event_table = E, transition_table = T,
            start_state = InitialStateName\<rparr>))))"

definition built_definition :: "FSMWithStatesAndEvents \<Rightarrow> MachineDefinition" where
  "built_definition f =
     \<lparr>state_table = States f, event_table = Events f, transition_table = transitions (FSM f),
      start_state = current (FSM f)\<rparr>"

declare BuildMachine_def [model_defs] built_definition_def [model_defs]
  missing_reference_def [model_defs]


section \<open>Inserting under new names\<close>

lemma insert_new_Inr_iff:
  "insert_new name err xs m = Inr m' \<longleftrightarrow>
     distinct (map name xs) \<and> name ` set xs \<inter> dom m = {} \<and> m' = store_all name (\<lambda>x. x) xs m"
  by (induction xs arbitrary: m) (auto split: option.splits)

lemma insert_new_append:
  "insert_new name err (ys @ zs) m = and_then (insert_new name err ys m) (insert_new name err zs)"
  by (induction ys arbitrary: m) (auto split: option.splits)

lemma insert_new_InlD:
  "insert_new name err xs m = Inl e \<Longrightarrow>
     \<exists>ys x zs. xs = ys @ x # zs \<and> distinct (map name ys) \<and> name ` set ys \<inter> dom m = {} \<and>
        name x \<in> name ` set ys \<union> dom m \<and> e = err (name x)"
proof (induction xs arbitrary: m)
  case Nil
  then show ?case by simp
next
  case (Cons a xs)
  show ?case
  proof (cases "m (name a)")
    case (Some v)
    with Cons.prems show ?thesis
      by (intro exI [of _ "[]"] exI [of _ a] exI [of _ xs]) auto
  next
    case None
    with Cons.prems have "insert_new name err xs (m(name a \<mapsto> a)) = Inl e" by simp
    from Cons.IH [OF this] obtain ys x zs where "xs = ys @ x # zs" "distinct (map name ys)"
      "name ` set ys \<inter> dom (m(name a \<mapsto> a)) = {}"
      "name x \<in> name ` set ys \<union> dom (m(name a \<mapsto> a))" "e = err (name x)"
      by blast
    with None show ?thesis
      by (intro exI [of _ "a # ys"] exI [of _ x] exI [of _ zs]) auto
  qed
qed

lemma insert_new_InlI:
  assumes "distinct (map name ys)" and "name ` set ys \<inter> dom m = {}"
    and "name x \<in> name ` set ys \<union> dom m"
  shows "insert_new name err (ys @ x # zs) m = Inl (err (name x))"
proof -
  from assms(1,2) have "insert_new name err ys m = Inr (store_all name (\<lambda>x. x) ys m)"
    by (simp add: insert_new_Inr_iff)
  moreover from assms(3) have "store_all name (\<lambda>x. x) ys m (name x) \<noteq> None"
    using dom_store_all [of name "\<lambda>x. x" ys m] by blast
  ultimately show ?thesis
    by (auto simp: insert_new_append)
qed

lemma insert_new_Inl_iff:
  "insert_new name err xs Map.empty = Inl e \<longleftrightarrow>
     (\<exists>ys x zs. xs = ys @ x # zs \<and> distinct (map name ys) \<and> name x \<in> name ` set ys \<and>
        e = err (name x))"
  by (auto dest!: insert_new_InlD simp: insert_new_InlI)


section \<open>Checking the references of the rules\<close>

lemma missing_reference_None_iff:
  "missing_reference S E r = None \<longleftrightarrow>
     Entry_Name r \<in> dom E \<and> set (SrcState r) \<subseteq> dom S \<and> DestState r \<in> dom S"
  by (auto simp: missing_reference_def find_None_iff split: option.splits)

lemma missing_reference_SomeD:
  "missing_reference S E r = Some n \<Longrightarrow>
     n = Entry_Name r \<and> E n = None \<or>
     (n \<in> set (SrcState r) \<or> n = DestState r) \<and> S n = None"
  by (auto simp: missing_reference_def find_Some_iff nth_append split: option.splits if_splits)

lemma check_references_Inr_iff:
  "check_references S E rs = Inr u \<longleftrightarrow> (\<forall>r \<in> set rs. missing_reference S E r = None)"
  by (induction rs) (auto split: option.splits)

lemma check_references_InlD:
  "check_references S E rs = Inl e \<Longrightarrow>
     \<exists>r \<in> set rs. \<exists>n. missing_reference S E r = Some n \<and> e = UnknownReferenceError n r"
  by (induction rs) (auto split: option.splits)

lemma check_references_first:
  "\<forall>r \<in> set ys. missing_reference S E r = None \<Longrightarrow> missing_reference S E r = Some n \<Longrightarrow>
     check_references S E (ys @ r # zs) = Inl (UnknownReferenceError n r)"
  by (induction ys) auto


section \<open>Adding the edges\<close>

lemma add_edges_Cons_None:
  "T (s, event) = None \<Longrightarrow> add_edges ((s, event, d) # es) T = add_edges es (T((s, event) \<mapsto> d))"
  by simp

lemma add_edges_Cons_Some:
  "T (s, event) = Some d \<Longrightarrow> add_edges ((s, event, d) # es) T = add_edges es T"
  by simp

lemma add_edges_Cons_conflict:
  "T (s, event) = Some d' \<Longrightarrow> d' \<noteq> d \<Longrightarrow>
     add_edges ((s, event, d) # es) T = Inl (ConflictingTransitionError s event)"
  by simp

lemmas add_edges_Cons = add_edges_Cons_None add_edges_Cons_Some add_edges_Cons_conflict

declare add_edges.simps(2) [simp del]

lemma add_edges_InrD:
  "add_edges es T = Inr T' \<Longrightarrow>
     T \<subseteq>\<^sub>m T' \<and> (\<forall>(s, event, d) \<in> set es. T' (s, event) = Some d) \<and>
     dom T' = dom T \<union> (\<lambda>(s, event, d). (s, event)) ` set es"
proof (induction es T rule: add_edges.induct)
  case (1 T)
  then show ?case by simp
next
  case (2 s event d es T)
  show ?case
  proof (cases "T (s, event)")
    case None
    with "2.prems" have "add_edges es (T((s, event) \<mapsto> d)) = Inr T'"
      by (simp add: add_edges_Cons)
    from "2.IH"(1) [OF None this] None show ?thesis
      by (auto simp: map_le_def dom_def split: if_splits)
  next
    case (Some d')
    with "2.prems" have "d' = d"
      by (cases "d' = d") (simp_all add: add_edges_Cons)
    with "2.prems" Some have "add_edges es T = Inr T'"
      by (simp add: add_edges_Cons)
    from "2.IH"(2) [OF Some \<open>d' = d\<close> this] Some \<open>d' = d\<close> show ?thesis
      by (auto simp: map_le_def dom_def)
  qed
qed

lemma add_edges_isOK:
  "T \<subseteq>\<^sub>m T' \<Longrightarrow> \<forall>(s, event, d) \<in> set es. T' (s, event) = Some d \<Longrightarrow> isOK (add_edges es T)"
proof (induction es T rule: add_edges.induct)
  case (1 T)
  then show ?case by simp
next
  case (2 s event d es T)
  from "2.prems" have T': "T' (s, event) = Some d"
    and rest: "\<forall>(s, event, d) \<in> set es. T' (s, event) = Some d" by simp_all
  show ?case
  proof (cases "T (s, event)")
    case None
    from "2.prems" T' have le: "T((s, event) \<mapsto> d) \<subseteq>\<^sub>m T'"
      by (auto simp: map_le_def)
    have "isOK (add_edges es (T((s, event) \<mapsto> d)))"
      by (rule "2.IH"(1)) (fact None, fact le, fact rest)
    then show ?thesis
      by (simp only: add_edges_Cons_None [of T s event, OF None])
  next
    case (Some d')
    with "2.prems"(1) T' have eq: "d' = d"
      by (auto simp: map_le_def dom_def)
    have "isOK (add_edges es T)"
      by (rule "2.IH"(2)) (fact Some, fact eq, fact "2.prems"(1), fact rest)
    with Some eq show ?thesis
      by (simp add: add_edges_Cons)
  qed
qed

lemma add_edges_InlD:
  "add_edges es T = Inl e \<Longrightarrow>
     \<exists>s event d d'. e = ConflictingTransitionError s event \<and> (s, event, d) \<in> set es \<and> d \<noteq> d' \<and>
        ((s, event, d') \<in> set es \<or> T (s, event) = Some d')"
proof (induction es T rule: add_edges.induct)
  case (1 T)
  then show ?case by simp
next
  case (2 s event d es T)
  consider (new) "T (s, event) = None" | (same) "T (s, event) = Some d"
    | (other) d' where "T (s, event) = Some d'" "d' \<noteq> d"
    by (cases "T (s, event)") auto
  then obtain s1 event1 d1 d2 where "e = ConflictingTransitionError s1 event1"
    and "(s1, event1, d1) \<in> set ((s, event, d) # es)" and "d1 \<noteq> d2"
    and "(s1, event1, d2) \<in> set ((s, event, d) # es) \<or> T (s1, event1) = Some d2"
  proof cases
    case new
    with "2.prems" have "add_edges es (T((s, event) \<mapsto> d)) = Inl e"
      by (simp add: add_edges_Cons)
    from "2.IH"(1) [OF new this] obtain s1 event1 d1 d2
      where *: "e = ConflictingTransitionError s1 event1" "(s1, event1, d1) \<in> set es" "d1 \<noteq> d2"
        and d2: "(s1, event1, d2) \<in> set es \<or> (T((s, event) \<mapsto> d)) (s1, event1) = Some d2"
      by blast
    from d2 have "(s1, event1, d2) \<in> set ((s, event, d) # es) \<or> T (s1, event1) = Some d2"
      by (cases "(s1, event1) = (s, event)") auto
    with * show ?thesis by (intro that [of s1 event1 d1 d2]) simp_all
  next
    case same
    with "2.prems" have "add_edges es T = Inl e"
      by (simp add: add_edges_Cons)
    from "2.IH"(2) [OF same refl this] obtain s1 event1 d1 d2
      where "e = ConflictingTransitionError s1 event1" "(s1, event1, d1) \<in> set es" "d1 \<noteq> d2"
        "(s1, event1, d2) \<in> set es \<or> T (s1, event1) = Some d2"
      by blast
    then show ?thesis by (intro that [of s1 event1 d1 d2]) auto
  next
    case other
    with "2.prems" have "e = ConflictingTransitionError s event"
      by (simp add: add_edges_Cons)
    with other show ?thesis by (intro that [of s event d d']) simp_all
  qed
  then show ?case by blast
qed

lemma add_edges_isOK_iff:
  "isOK (add_edges es Map.empty) \<longleftrightarrow>
     (\<forall>(s, event, d) \<in> set es. \<forall>(s', event', d') \<in> set es. s = s' \<and> event = event' \<longrightarrow> d = d')"
proof
  assume "isOK (add_edges es Map.empty)"
  then obtain T' where "add_edges es Map.empty = Inr T'" by (auto simp: isOK_iff)
  from add_edges_InrD [OF this] have all: "\<forall>(s, event, d) \<in> set es. T' (s, event) = Some d"
    by simp
  show "\<forall>(s, event, d) \<in> set es. \<forall>(s', event', d') \<in> set es. s = s' \<and> event = event' \<longrightarrow> d = d'"
  proof clarify
    fix s event d d' assume "(s, event, d) \<in> set es" and "(s, event, d') \<in> set es"
    with all have "T' (s, event) = Some d" and "T' (s, event) = Some d'" by auto
    then show "d = d'" by simp
  qed
next
  let ?T = "map_of (map (\<lambda>(s, event, d). ((s, event), d)) es)"
  assume cf: "\<forall>(s, event, d) \<in> set es. \<forall>(s', event', d') \<in> set es. s = s' \<and> event = event' \<longrightarrow> d = d'"
  show "isOK (add_edges es Map.empty)"
  proof (rule add_edges_isOK)
    show "Map.empty \<subseteq>\<^sub>m ?T" by simp
    show "\<forall>(s, event, d) \<in> set es. ?T (s, event) = Some d"
    proof clarify
      fix s event d assume mem: "(s, event, d) \<in> set es"
      then have "((s, event), d) \<in> set (map (\<lambda>(s, event, d). ((s, event), d)) es)" by force
      from weak_map_of_SomeI [OF this] obtain d' where d': "?T (s, event) = Some d'"
        by blast
      then have "(s, event, d') \<in> set es"
        by (auto dest!: map_of_SomeD)
      with cf mem have "d' = d" by auto
      with d' show "?T (s, event) = Some d" by simp
    qed
  qed
qed


section \<open>BuildMachine\<close>

lemma document_conflict_free_iff:
  "document_conflict_free y \<longleftrightarrow>
     (\<forall>(s, event, d) \<in> set (document_edge_list y).
        \<forall>(s', event', d') \<in> set (document_edge_list y). s = s' \<and> event = event' \<longrightarrow> d = d')"
  by (simp add: document_conflict_free_def list_all_iff)

lemma add_edges_table:
  assumes T: "add_edges (document_edge_list y) Map.empty = Inr T"
  shows "T = transitions (FSM (assemble y st ev))"
proof (rule ext)
  fix k :: eKey
  obtain s event where k: "k = (s, event)" by (cases k)
  from T have "isOK (add_edges (document_edge_list y) Map.empty)" by simp
  then have "conflict_free (eventDescYamlToEventDesc y)"
    by (simp add: add_edges_isOK_iff document_conflict_free_iff [symmetric]
        document_conflict_free_eq)
  then have table: "table_edges (transitions (FSM (assemble y st ev))) = document_edges y"
    by (simp add: table_edges_conflict_free document_edges_eq)
  from add_edges_InrD [OF T]
  have all: "\<forall>(s, event, d) \<in> set (document_edge_list y). T (s, event) = Some d"
    and dom: "dom T = (\<lambda>(s, event, d). (s, event)) ` set (document_edge_list y)"
    by simp_all
  show "T k = transitions (FSM (assemble y st ev)) k"
  proof (cases "T k")
    case None
    with dom k have "\<forall>d. (s, event, d) \<notin> document_edges y"
      by (force simp: document_edges_def dom_def)
    with table have "transitions (FSM (assemble y st ev)) (s, event) = None"
      by (metis not_Some_eq table_edges_iff)
    with None k show ?thesis by simp
  next
    case (Some d)
    with dom k obtain d' where d': "(s, event, d') \<in> set (document_edge_list y)"
      by (force simp: dom_def)
    with all have "T (s, event) = Some d'" by auto
    with Some k d' have "(s, event, d) \<in> document_edges y"
      by (simp add: document_edges_def)
    with table have "transitions (FSM (assemble y st ev)) (s, event) = Some d"
      by (metis table_edges_iff)
    with Some k show ?thesis by simp
  qed
qed

lemma add_edges_document:
  "add_edges (document_edge_list y) Map.empty = Inr T \<longleftrightarrow>
     document_conflict_free y \<and> T = transitions (FSM (assemble y st ev))"
proof
  assume T: "add_edges (document_edge_list y) Map.empty = Inr T"
  then have "isOK (add_edges (document_edge_list y) Map.empty)" by simp
  with add_edges_table [OF T]
  show "document_conflict_free y \<and> T = transitions (FSM (assemble y st ev))"
    by (simp add: add_edges_isOK_iff document_conflict_free_iff)
next
  assume "document_conflict_free y \<and> T = transitions (FSM (assemble y st ev))"
  moreover from this obtain T' where T': "add_edges (document_edge_list y) Map.empty = Inr T'"
    by (auto simp: document_conflict_free_iff add_edges_isOK_iff [symmetric] isOK_iff)
  ultimately show "add_edges (document_edge_list y) Map.empty = Inr T"
    using add_edges_table [OF T'] by simp
qed

lemma missing_reference_tables:
  "missing_reference (statesMap st) (eventsMap ev) r = None \<longleftrightarrow>
     rule_resolves (state_names st) (event_names ev) r"
  by (auto simp: missing_reference_None_iff rule_resolves_def state_names_def event_names_def
      list_all_iff)

lemma check_references_tables:
  "check_references (statesMap st) (eventsMap ev) (Fsm y) = Inr u \<longleftrightarrow>
     list_all (rule_resolves (state_names st) (event_names ev)) (Fsm y)"
  by (simp add: check_references_Inr_iff missing_reference_tables list_all_iff)

lemma insert_new_states:
  "insert_new State_Name err (StateYaml_States st) Map.empty = Inr S \<longleftrightarrow>
     distinct (state_names st) \<and> S = statesMap st"
  by (simp add: insert_new_Inr_iff statesMap_store state_names_def)

lemma insert_new_events:
  "insert_new Event_Name err (EventYaml_Events ev) Map.empty = Inr E \<longleftrightarrow>
     distinct (event_names ev) \<and> E = eventsMap ev"
  by (simp add: insert_new_Inr_iff eventsMap_store event_names_def)

lemma BuildMachine_Inr_iff:
  "BuildMachine y st ev = Inr d \<longleftrightarrow>
     distinct (state_names st) \<and> distinct (event_names ev) \<and>
     list_all (rule_resolves (state_names st) (event_names ev)) (Fsm y) \<and>
     document_conflict_free y \<and> d = built_definition (assemble y st ev)"
  by (auto simp: BuildMachine_def and_then_eq_Inr_iff insert_new_states insert_new_events
      check_references_tables add_edges_document [of y _ st ev] built_definition_def)

lemma insert_new_Inl_count:
  assumes "insert_new name err xs Map.empty = Inl e"
  obtains n where "e = err n" and "1 < count (mset (map name xs)) n"
proof -
  from assms obtain ys x zs where xs: "xs = ys @ x # zs" and "name x \<in> name ` set ys"
    and e: "e = err (name x)"
    by (auto simp: insert_new_Inl_iff)
  then have "0 < count (mset (map name ys)) (name x)"
    by (simp add: count_greater_zero_iff del: count_mset_0_iff)
  with xs have "1 < count (mset (map name xs)) (name x)" by simp
  with e show thesis by (rule that)
qed

lemma BuildMachine_stages:
  assumes "BuildMachine y st ev = Inl e"
  obtains
    (states) "insert_new State_Name DuplicateStateError (StateYaml_States st) Map.empty = Inl e"
  | (events) "distinct (state_names st)"
      "insert_new Event_Name DuplicateEventError (EventYaml_Events ev) Map.empty = Inl e"
  | (references) "distinct (state_names st)" "distinct (event_names ev)"
      "check_references (statesMap st) (eventsMap ev) (Fsm y) = Inl e"
  | (edges) "distinct (state_names st)" "distinct (event_names ev)"
      "list_all (rule_resolves (state_names st) (event_names ev)) (Fsm y)"
      "add_edges (document_edge_list y) Map.empty = Inl e"
  using assms unfolding BuildMachine_def and_then_eq_Inl_iff
  by (auto simp: insert_new_states insert_new_events check_references_tables)

lemma BuildMachine_InlD:
  assumes "BuildMachine y st ev = Inl e"
  shows "case e of
      DuplicateStateError n \<Rightarrow> 1 < count (mset (state_names st)) n
    | DuplicateEventError n \<Rightarrow> distinct (state_names st) \<and> 1 < count (mset (event_names ev)) n
    | UnknownReferenceError n r \<Rightarrow>
        distinct (state_names st) \<and> distinct (event_names ev) \<and> r \<in> set (Fsm y) \<and>
        (n = Entry_Name r \<and> n \<notin> set (event_names ev) \<or>
         (n \<in> set (SrcState r) \<or> n = DestState r) \<and> n \<notin> set (state_names st))
    | ConflictingTransitionError s event \<Rightarrow>
        distinct (state_names st) \<and> distinct (event_names ev) \<and>
        list_all (rule_resolves (state_names st) (event_names ev)) (Fsm y) \<and>
        (\<exists>d d'. d \<noteq> d' \<and> (s, event, d) \<in> document_edges y \<and> (s, event, d') \<in> document_edges y)"
  using assms
proof (cases rule: BuildMachine_stages)
  case states
  then show ?thesis
    by (rule insert_new_Inl_count) (simp add: state_names_def)
next
  case events
  from events(2) show ?thesis
    by (rule insert_new_Inl_count) (simp add: event_names_def events(1))
next
  case references
  from check_references_InlD [OF references(3)] obtain r n where r: "r \<in> set (Fsm y)"
    and n: "missing_reference (statesMap st) (eventsMap ev) r = Some n"
    and e: "e = UnknownReferenceError n r"
    by blast
  from missing_reference_SomeD [OF n]
  have "n = Entry_Name r \<and> n \<notin> set (event_names ev) \<or>
      (n \<in> set (SrcState r) \<or> n = DestState r) \<and> n \<notin> set (state_names st)"
    by (simp add: statesMap_None_iff eventsMap_None_iff state_names_def event_names_def)
  with references(1,2) r e show ?thesis by simp
next
  case edges
  from add_edges_InlD [OF edges(4)] edges(1-3) show ?thesis
    by (fastforce simp: document_edges_def)
qed

lemma BuildMachine_accepts_iff:
  "isOK (BuildMachine y st ev) \<longleftrightarrow>
     distinct (state_names st) \<and> distinct (event_names ev) \<and>
     list_all (rule_resolves (state_names st) (event_names ev)) (Fsm y) \<and>
     document_conflict_free y"
  by (simp add: isOK_iff BuildMachine_Inr_iff)

lemma BuildMachine_closed:
  "isOK (BuildMachine y st ev) \<Longrightarrow> InitialStateName \<in> set (state_names st) \<Longrightarrow>
     closed (assemble y st ev)"
  by (simp add: BuildMachine_accepts_iff closed_assemble wf_document_def)


section \<open>The documents of the specification\<close>

lemma greet_accepted: "isOK (BuildMachine greet_rules greet_states greet_events)"
  by (simp add: BuildMachine_accepts_iff greet_rules_def greet_states_def greet_events_def
      state_names_def event_names_def rule_resolves_def document_conflict_free_def
      document_edge_list_def NewState_def NewEvent_def)

lemma chat_accepted: "isOK (BuildMachine chat_rules chat_states chat_events)"
  by (simp add: BuildMachine_accepts_iff chat_rules_def chat_states_def chat_events_def
      state_names_def event_names_def rule_resolves_def document_conflict_free_def
      document_edge_list_def NewState_def NewEvent_def)

lemma unknown_rejected:
  "BuildMachine unknown_rules greet_states greet_events =
     Inl (UnknownReferenceError ''Unknown''
       \<lparr>Entry_Name = ''Unknown'', SrcState = [''Initial''], DestState = ''Nowhere''\<rparr>)"
  by (simp add: BuildMachine_def unknown_rules_def greet_states_def greet_events_def
      missing_reference_def NewState_def NewEvent_def)

lemma clash_rejected:
  "BuildMachine clash_rules greet_states greet_events =
     Inl (ConflictingTransitionError ''Initial'' ''Greet'')"
  by (simp add: BuildMachine_def clash_rules_def greet_states_def greet_events_def
      missing_reference_def document_edge_list_def add_edges_Cons NewState_def NewEvent_def)

lemma repeated_state_rejected:
  "BuildMachine greet_rules
     \<lparr>StateYaml_States = StateYaml_States greet_states @ [NewState ''Hello'' ''Again'']\<rparr>
     greet_events = Inl (DuplicateStateError ''Hello'')"
  by (simp add: BuildMachine_def greet_states_def NewState_def)

lemma repeated_event_rejected:
  "BuildMachine greet_rules greet_states
     \<lparr>EventYaml_Events = EventYaml_Events greet_events @ [NewEvent ''Greet'' ''Hi'' 2]\<rparr> =
     Inl (DuplicateEventError ''Greet'')"
  by (simp add: BuildMachine_def greet_states_def greet_events_def NewState_def NewEvent_def)


section \<open>What the built machine keeps of a defective document\<close>

lemma assemble_rule_enabled:
  assumes "r \<in> set (Fsm y)" and "s \<in> set (SrcState r)"
  shows "transitions (FSM (assemble y st ev)) (s, Entry_Name r) \<noteq> None"
proof -
  from assms have "\<exists>e \<in> set (eventDescYamlToEventDesc y). governs s (Entry_Name r) e"
    by (auto simp: eventDescYamlToEventDesc_map intro!: bexI [of _ r])
  then have "transitions (NewFSM InitialStateName (eventDescYamlToEventDesc y)) (s, Entry_Name r) \<noteq> None"
    by (simp only: NewFSM_enabled_iff)
  then show ?thesis by simp
qed

lemma repeated_name_shrinks:
  assumes "1 < count (mset (map name xs)) n"
  shows "card (name ` set xs) < length xs" and "n \<in> name ` set xs"
proof -
  have "\<not> distinct (map name xs)"
  proof
    assume "distinct (map name xs)"
    then have "count (mset (map name xs)) n \<le> 1" by (simp add: distinct_count_atmost_1)
    with assms show False by simp
  qed
  then have "card (name ` set xs) \<noteq> length xs" by (simp add: card_image_set_eq_iff)
  with card_image_set_le [of name xs] show "card (name ` set xs) < length xs" by simp
  have "n \<in> set (map name xs)"
  proof (rule ccontr)
    assume "n \<notin> set (map name xs)"
    then have "count (mset (map name xs)) n = 0" by (simp add: count_eq_zero_iff)
    with assms show False by simp
  qed
  then show "n \<in> name ` set xs" by simp
qed

lemma conflicting_edge_lost:
  assumes "(s, event, d) \<in> document_edges y" and "(s, event, d') \<in> document_edges y" and "d \<noteq> d'"
  shows "\<exists>d1 d2. d1 \<noteq> d2 \<and> (s, event, d1) \<in> document_edges y \<and>
    transitions (FSM (assemble y st ev)) (s, event) = Some d2"
proof -
  from assms(1) obtain r where r: "r \<in> set (Fsm y)" and s: "s \<in> set (SrcState r)"
    and e: "Entry_Name r = event"
    unfolding document_edges_iff by blast
  from assemble_rule_enabled [OF r s, of st ev] obtain d2
    where d2: "transitions (FSM (assemble y st ev)) (s, event) = Some d2"
    unfolding e by blast
  show ?thesis
  proof (cases "d2 = d")
    case True
    with assms(3) have "d' \<noteq> d2" by simp
    with assms(2) d2 show ?thesis by (intro exI [of _ d'] exI [of _ d2] conjI)
  next
    case False
    then have "d \<noteq> d2" by simp
    with assms(1) d2 show ?thesis by (intro exI [of _ d] exI [of _ d2] conjI)
  qed
qed


lemma BuildMachine_Inl_defects:
  assumes "BuildMachine y st ev = Inl e"
  shows "case e of
       DuplicateStateError n \<Rightarrow>
         n \<in> dom (States (assemble y st ev)) \<and>
         card (dom (States (assemble y st ev))) < length (StateYaml_States st)
     | DuplicateEventError n \<Rightarrow>
         n \<in> dom (Events (assemble y st ev)) \<and>
         card (dom (Events (assemble y st ev))) < length (EventYaml_Events ev)
     | UnknownReferenceError n r \<Rightarrow>
         (\<forall>s \<in> set (SrcState r). transitions (FSM (assemble y st ev)) (s, Entry_Name r) \<noteq> None) \<and>
         (n = Entry_Name r \<and> n \<notin> dom (Events (assemble y st ev)) \<or>
          (n \<in> set (SrcState r) \<or> n = DestState r) \<and> n \<notin> dom (States (assemble y st ev)))
     | ConflictingTransitionError s event \<Rightarrow>
         (\<exists>d d'. d \<noteq> d' \<and> (s, event, d) \<in> document_edges y \<and>
            transitions (FSM (assemble y st ev)) (s, event) = Some d')"
proof (cases e)
  case (DuplicateStateError n)
  then show ?thesis
    using BuildMachine_InlD [OF assms]
      repeated_name_shrinks [where name = State_Name and xs = "StateYaml_States st" and n = n]
    by (simp add: state_names_def)
next
  case (DuplicateEventError n)
  then show ?thesis
    using BuildMachine_InlD [OF assms]
      repeated_name_shrinks [where name = Event_Name and xs = "EventYaml_Events ev" and n = n]
    by (simp add: event_names_def)
next
  case (UnknownReferenceError n r)
  with BuildMachine_InlD [OF assms] have r: "r \<in> set (Fsm y)"
    and n: "n = Entry_Name r \<and> n \<notin> set (event_names ev) \<or>
      (n \<in> set (SrcState r) \<or> n = DestState r) \<and> n \<notin> set (state_names st)"
    by simp_all
  have "transitions (FSM (assemble y st ev)) (s, Entry_Name r) \<noteq> None"
    if "s \<in> set (SrcState r)" for s
    using r that by (rule assemble_rule_enabled)
  with n UnknownReferenceError show ?thesis
    by (simp add: state_names_def event_names_def del: assemble_sel(1))
next
  case (ConflictingTransitionError s event)
  with BuildMachine_InlD [OF assms] obtain d d' where "d \<noteq> d'"
    and "(s, event, d) \<in> document_edges y" and "(s, event, d') \<in> document_edges y"
    by auto
  from conflicting_edge_lost [OF this(2,3,1), of st ev] ConflictingTransitionError
  show ?thesis by (simp del: assemble_sel(1))
qed


section \<open>The builder of the file against the builder of the specification\<close>

text \<open>
  C10. Refinement of the specified builder: on every document that \<open>BuildMachine\<close>
  accepts, \<open>yamlToFSM\<close> returns a machine whose tables of states and events,
  transition table and start state are exactly the machine definition that
  \<open>BuildMachine\<close> returns.
\<close>

theorem yamlToFSM_refines_BuildMachine:
  assumes "decodes Y b y st ev" and "isOK (BuildMachine y st ev)"
  shows "\<exists>f. fst (yamlToFSM Y b) = Inr f \<and> BuildMachine y st ev = Inr (built_definition f)"
proof -
  from assms(2) have "BuildMachine y st ev = Inr (built_definition (assemble y st ev))"
    by (auto simp: isOK_iff BuildMachine_Inr_iff)
  with yamlToFSM_ok [OF assms(1)] show ?thesis by simp
qed

theorem yamlToFSM_refines_BuildMachine_witness:
  "isOK (BuildMachine greet_rules greet_states greet_events) \<and>
   (\<exists>f. fst (yamlToFSM greet_api ()) = Inr f \<and>
      BuildMachine greet_rules greet_states greet_events = Inr (built_definition f))"
  using yamlToFSM_refines_BuildMachine [OF greet_decodes greet_accepted] greet_accepted by simp

text \<open>
  C11. What the file builds from a document that the specification rejects.
  Whenever the three sections decode and \<open>BuildMachine\<close> fails, \<open>yamlToFSM\<close> returns
  a machine nevertheless, and that machine has the defect the error names. For a
  repeated state name (event name) the name is a key of the state table (event
  table) and the table has fewer entries than the section has declarations. For an
  undeclared reference the machine accepts the event of the rule in every source
  state of the rule, although the name the error reports is missing from the table
  of events or of states. For conflicting transitions the table sends the state
  under the event to one destination, and a declared edge from that state under that
  event to another destination is not in the machine.
\<close>

theorem rejected_document_defects:
  assumes "decodes Y b y st ev" and "BuildMachine y st ev = Inl e"
  shows "\<exists>f. fst (yamlToFSM Y b) = Inr f \<and>
    (case e of
       DuplicateStateError n \<Rightarrow>
         n \<in> dom (States f) \<and> card (dom (States f)) < length (StateYaml_States st)
     | DuplicateEventError n \<Rightarrow>
         n \<in> dom (Events f) \<and> card (dom (Events f)) < length (EventYaml_Events ev)
     | UnknownReferenceError n r \<Rightarrow>
         (\<forall>s \<in> set (SrcState r). transitions (FSM f) (s, Entry_Name r) \<noteq> None) \<and>
         (n = Entry_Name r \<and> n \<notin> dom (Events f) \<or>
          (n \<in> set (SrcState r) \<or> n = DestState r) \<and> n \<notin> dom (States f))
     | ConflictingTransitionError s event \<Rightarrow>
         (\<exists>d d'. d \<noteq> d' \<and> (s, event, d) \<in> document_edges y \<and>
            transitions (FSM f) (s, event) = Some d'))"
proof (intro exI conjI)
  from assms(1) show "fst (yamlToFSM Y b) = Inr (assemble y st ev)" by (simp add: yamlToFSM_ok)
qed (rule BuildMachine_Inl_defects [OF assms(2)])

theorem rejected_document_defects_witness:
  "\<exists>f. fst (yamlToFSM (scripted (Inr unknown_rules) (Inr greet_states) (Inr greet_events)) ()) = Inr f \<and>
     transitions (FSM f) (''Initial'', ''Unknown'') \<noteq> None \<and> ''Unknown'' \<notin> dom (Events f)"
proof -
  let ?Y = "scripted (Inr unknown_rules) (Inr greet_states) (Inr greet_events)"
  have "decodes ?Y () unknown_rules greet_states greet_events" by simp
  from rejected_document_defects [OF this unknown_rejected]
  show ?thesis by simp
qed

end
