(* ===== verification/Runtime.thy ===== *)
theory Runtime
  imports Builder
begin

text \<open>
  The queries of the built machine: the methods \<open>Current\<close> and
  \<open>AvailableTransitions\<close> of \<open>FSMWithStatesAndEvents\<close> in \<^verbatim>\<open>fsm.go\<close>, and the
  transition operation that callers reach through the exported field \<^verbatim>\<open>FSM\<close>.

  \<^item> \<open>Current\<close> indexes the state table with the engine's current state. A name the
    table does not hold yields \<open>zero_State\<close>, as indexing a Go map does.
  \<^item> \<open>AvailableTransitions\<close> asks the engine for the names of the available events
    and indexes the event table with each; a name the table does not hold yields
    \<open>zero_Event\<close>. The range order \<open>ks\<close> of the engine's table is a parameter.
  \<^item> \<open>FireEvent\<close> is \<open>Fire\<close> on the engine inside the struct (section 4.3 of the
    specification); \<open>session\<close> is the set of machines a caller can reach with it.
  \<^item> \<open>well_typed\<close> is what holds of every machine the package hands out, whatever
    the document declares: the three tables are finite and the tables of states and
    events store each entry under its own name.
  \<^item> \<open>chat_at\<close> and \<open>chat_order\<close> are the worked example of \<open>Builder\<close> as a machine
    in a given state and the declaration order of its table.

  The lemmas show that the invariant \<open>closed\<close> of \<open>Builder\<close> is kept by every
  transition of a session, and that on a closed machine the two queries return
  declared entries that agree with what \<open>FireEvent\<close> accepts.
\<close>

definition Current :: "FSMWithStatesAndEvents \<Rightarrow> State" where
  "Current f = index_or zero_State (States f) (FSM_Current (FSM f))"

definition AvailableTransitions :: "eKey list \<Rightarrow> FSMWithStatesAndEvents \<Rightarrow> Event list" where
  "AvailableTransitions ks f =
     (let transitions = FSM_AvailableTransitions ks (FSM f)
      in append_all (\<lambda>t. index_or zero_Event (Events f) t) transitions)"

definition FireEvent :: "FSMWithStatesAndEvents \<Rightarrow> string \<Rightarrow> fire_error + FSMWithStatesAndEvents" where
  "FireEvent f event =
     (case Fire (FSM f) event of Inl err \<Rightarrow> Inl err | Inr m \<Rightarrow> Inr (f\<lparr>FSM := m\<rparr>))"

inductive session :: "FSMWithStatesAndEvents \<Rightarrow> FSMWithStatesAndEvents \<Rightarrow> bool" for f0 where
  opened: "session f0 f0"
| fired: "session f0 f \<Longrightarrow> FireEvent f event = Inr f' \<Longrightarrow> session f0 f'"

definition well_typed :: "FSMWithStatesAndEvents \<Rightarrow> bool" where
  "well_typed f \<longleftrightarrow>
     finite (dom (States f)) \<and> finite (dom (Events f)) \<and> finite (dom (transitions (FSM f))) \<and>
     keyed_by State_Name (States f) \<and> keyed_by Event_Name (Events f)"

definition chat_at :: "string \<Rightarrow> FSMWithStatesAndEvents" where
  "chat_at s = chat_machine\<lparr>FSM := chat_fsm_at s\<rparr>"

definition chat_order :: "eKey list" where
  "chat_order = decl_order (eventDescYamlToEventDesc chat_rules)"

declare Current_def [model_defs] AvailableTransitions_def [model_defs]
  FireEvent_def [model_defs]


section \<open>FireEvent\<close>

lemma FireEvent_Some:
  "transitions (FSM f) (current (FSM f), event) = Some dst \<Longrightarrow>
     FireEvent f event = Inr (f\<lparr>FSM := (FSM f)\<lparr>current := dst\<rparr>\<rparr>)"
  by (simp add: FireEvent_def Fire_Some)

lemma FireEvent_None:
  "transitions (FSM f) (current (FSM f), event) = None \<Longrightarrow>
     FireEvent f event = Inl (IllegalTransitionError (current (FSM f)) event)"
  by (simp add: FireEvent_def Fire_None)

lemma FireEvent_InrD:
  "FireEvent f event = Inr f' \<Longrightarrow>
     Fire (FSM f) event = Inr (FSM f') \<and> States f' = States f \<and> Events f' = Events f"
  by (auto simp: FireEvent_def split: sum.splits)

lemma FireEvent_InlD:
  "FireEvent f event = Inl err \<Longrightarrow> Fire (FSM f) event = Inl err"
  by (auto simp: FireEvent_def split: sum.splits)

lemma isOK_FireEvent: "isOK (FireEvent f event) \<longleftrightarrow> Can (FSM f) event"
  by (auto simp: FireEvent_def isOK_Fire [symmetric] split: sum.splits)

lemma FireEvent_current:
  "FireEvent f event = Inr f' \<Longrightarrow>
     transitions (FSM f) (current (FSM f), event) = Some (current (FSM f'))"
  by (auto dest!: FireEvent_InrD Fire_InrD)

lemma FireEvent_transitions:
  "FireEvent f event = Inr f' \<Longrightarrow> transitions (FSM f') = transitions (FSM f)"
  by (auto dest!: FireEvent_InrD Fire_transitions)


section \<open>Sessions\<close>

lemma session_tables: "session f0 f \<Longrightarrow> States f = States f0 \<and> Events f = Events f0"
  by (induction rule: session.induct) (auto dest: FireEvent_InrD)

lemma session_reachable: "session f0 f \<Longrightarrow> reachable (FSM f0) (FSM f)"
  by (induction rule: session.induct)
    (auto intro: reachable.start reachable_Fire dest: FireEvent_InrD)

lemma session_transitions: "session f0 f \<Longrightarrow> transitions (FSM f) = transitions (FSM f0)"
  by (auto dest!: session_reachable reachable_transitions)

lemma session_trans: "session f f' \<Longrightarrow> session f0 f \<Longrightarrow> session f0 f'"
proof (induction rule: session.induct)
  case opened
  then show ?case .
next
  case (fired f1 event f2)
  then have "session f0 f1" by simp
  then show ?case using fired.hyps(2) by (rule session.fired)
qed


lemma well_typed_assemble: "well_typed (assemble y st ev)"
  by (simp add: well_typed_def NewFSM_finite keyed_statesMap keyed_eventsMap)

lemma well_typed_session: "session f0 f \<Longrightarrow> well_typed f0 \<Longrightarrow> well_typed f"
  by (simp add: well_typed_def session_tables session_transitions)

lemma well_typed_range_order: "well_typed f \<Longrightarrow> \<exists>ks. range_order (transitions (FSM f)) ks"
  by (simp add: well_typed_def range_order_exists)


section \<open>Closed machines in a session\<close>

lemma session_eq: "session f0 f \<Longrightarrow> f = f0\<lparr>FSM := FSM f\<rparr>"
proof (induction rule: session.induct)
  case opened
  show ?case by simp
next
  case (fired f event f')
  from fired.hyps(2) obtain m where "f' = f\<lparr>FSM := m\<rparr>"
    by (auto simp: FireEvent_def split: sum.splits)
  with fired.IH have "f' = (f0\<lparr>FSM := FSM f\<rparr>)\<lparr>FSM := m\<rparr>" by simp
  then show ?case by simp
qed

lemma closed_session: "session f0 f \<Longrightarrow> closed f0 \<Longrightarrow> closed f"
  using closed_reachable [of f0 "FSM f"] session_eq [of f0 f] session_reachable [of f0 f]
  by simp

lemma session_closed:
  "wf_document y st ev \<Longrightarrow> session (assemble y st ev) f \<Longrightarrow> closed f"
  by (blast intro: closed_session closed_assemble)

lemma closed_FireEvent: "closed f \<Longrightarrow> FireEvent f event = Inr f' \<Longrightarrow> closed f'"
  by (blast intro: closed_session session.intros)

lemma session_of_reachable: "reachable (FSM f0) m \<Longrightarrow> session f0 (f0\<lparr>FSM := m\<rparr>)"
proof (induction rule: reachable.induct)
  case start
  show ?case by (simp add: session.opened)
next
  case (step m event m')
  from step.hyps(2) have "FireEvent (f0\<lparr>FSM := m\<rparr>) event = Inr (f0\<lparr>FSM := m'\<rparr>)"
    by (simp add: FireEvent_def fsm_step_Fire)
  with step.IH show ?case by (rule session.fired)
qed


section \<open>Current\<close>

lemma Current_declared: "States f (current (FSM f)) = Some s \<Longrightarrow> Current f = s"
  by (simp add: Current_def FSM_Current_def)

lemma Current_missing: "States f (current (FSM f)) = None \<Longrightarrow> Current f = zero_State"
  by (simp add: Current_def FSM_Current_def)

lemma Current_closed:
  assumes "closed f"
  shows "States f (current (FSM f)) = Some (Current f)"
    and "State_Name (Current f) = current (FSM f)"
proof -
  from assms obtain s where s: "States f (current (FSM f)) = Some s"
    by (auto dest: closed_current)
  then have "Current f = s" by (rule Current_declared)
  with s show "States f (current (FSM f)) = Some (Current f)" by simp
  with assms show "State_Name (Current f) = current (FSM f)"
    by (blast dest: closed_keyed keyed_byD)
qed

lemma Current_FireEvent:
  "FireEvent f event = Inr f' \<Longrightarrow>
     Current f' = index_or zero_State (States f) (current (FSM f'))"
  by (auto simp: Current_def FSM_Current_def dest: FireEvent_InrD)


section \<open>AvailableTransitions\<close>

lemma AvailableTransitions_map:
  "AvailableTransitions ks f =
     map (index_or zero_Event (Events f)) (FSM_AvailableTransitions ks (FSM f))"
  by (simp add: AvailableTransitions_def append_all_map)

lemma length_AvailableTransitions:
  "length (AvailableTransitions ks f) = length (FSM_AvailableTransitions ks (FSM f))"
  by (simp add: AvailableTransitions_map)

lemma available_declared:
  assumes "closed f" and "range_order (transitions (FSM f)) ks"
    and "n \<in> set (FSM_AvailableTransitions ks (FSM f))"
  shows "\<exists>e. Events f n = Some e \<and> Event_Name e = n"
proof -
  from assms(2,3) have "Can (FSM f) n"
    by (simp add: set_FSM_AvailableTransitions)
  then obtain d where "transitions (FSM f) (current (FSM f), n) = Some d"
    by (auto simp: Can_def)
  with assms(1) obtain e where e: "Events f n = Some e"
    by (blast dest: closed_edge)
  with assms(1) have "Event_Name e = n" by (blast dest: closed_keyed keyed_byD)
  with e show ?thesis by blast
qed

lemma AvailableTransitions_names:
  assumes "closed f" and "range_order (transitions (FSM f)) ks"
  shows "map Event_Name (AvailableTransitions ks f) = FSM_AvailableTransitions ks (FSM f)"
proof -
  have "Event_Name (index_or zero_Event (Events f) n) = n"
    if "n \<in> set (FSM_AvailableTransitions ks (FSM f))" for n
    using available_declared [OF assms that] by auto
  then show ?thesis by (simp add: AvailableTransitions_map map_idI)
qed

lemma AvailableTransitions_mset:
  assumes "range_order (transitions (FSM f)) ks" and "range_order (transitions (FSM f)) ks'"
  shows "mset (AvailableTransitions ks f) = mset (AvailableTransitions ks' f)"
  using mset_FSM_AvailableTransitions [OF assms] by (simp add: AvailableTransitions_map)

lemma session_range_order:
  "session (assemble y st ev) f \<Longrightarrow>
     range_order (transitions (FSM f)) (decl_order (eventDescYamlToEventDesc y))"
  by (simp add: session_transitions decl_order_range)


section \<open>The worked example\<close>

lemma chat_at_sel [simp]:
  "current (FSM (chat_at s)) = s" "transitions (FSM (chat_at s)) = transitions (FSM chat_machine)"
  "States (chat_at s) = States chat_machine" "Events (chat_at s) = Events chat_machine"
  by (simp_all add: chat_at_def)

lemma chat_session_Hello: "session chat_machine (chat_at ''Hello'')"
  unfolding chat_at_def using chat_reachable_Hello by (rule session_of_reachable)

lemma chat_session_Blog: "session chat_machine (chat_at ''Blog'')"
  unfolding chat_at_def using chat_reachable_Blog by (rule session_of_reachable)

lemma chat_order_eval:
  "chat_order = [(''Initial'', ''GetStarted''), (''Hello'', ''ShowBlogInfo''), (''Blog'', ''Back''),
     (''Hello'', ''Reset''), (''Blog'', ''Reset'')]"
  by (simp add: chat_order_def decl_order_def desc_keys_def eventDescYamlToEventDesc_map
      chat_rules_def)

lemma chat_range_order: "session chat_machine f \<Longrightarrow> range_order (transitions (FSM f)) chat_order"
  unfolding chat_machine_def chat_order_def by (rule session_range_order)


section \<open>Properties of the runtime\<close>

text \<open>
  C2. On a closed machine, whatever order the engine's table is ranged over, the
  names of the events that \<open>AvailableTransitions\<close> returns are, without repetition,
  exactly the events that firing would accept in the current state.
\<close>
theorem available_iff_fire:
  "closed f \<Longrightarrow> range_order (transitions (FSM f)) ks \<Longrightarrow>
     distinct (map Event_Name (AvailableTransitions ks f)) \<and>
     set (map Event_Name (AvailableTransitions ks f)) = {event. isOK (FireEvent f event)}"
  by (simp add: AvailableTransitions_names set_FSM_AvailableTransitions isOK_FireEvent
      distinct_FSM_AvailableTransitions range_order_distinct)

theorem available_iff_fire_witness:
  "map Event_Name (AvailableTransitions chat_order (chat_at ''Hello'')) = [''ShowBlogInfo'', ''Reset''] \<and>
   {event. isOK (FireEvent (chat_at ''Hello'') event)} = {''ShowBlogInfo'', ''Reset''}"
proof -
  have c: "closed (chat_at ''Hello'')"
    using closed_session [OF chat_session_Hello] closed_assemble [OF chat_wf]
    by (simp add: chat_machine_def)
  have names: "map Event_Name (AvailableTransitions chat_order (chat_at ''Hello'')) =
      [''ShowBlogInfo'', ''Reset'']"
    by (simp add: AvailableTransitions_map FSM_AvailableTransitions_def chat_order_eval
        chat_machine_def eventsMap_lookup chat_events_def last_with_def)
  from available_iff_fire [OF c chat_range_order [OF chat_session_Hello]] names
  show ?thesis by auto
qed

text \<open>
  C4. In every machine reached from one built from a well-formed document,
  \<open>Current\<close> returns a state that the document declares, and its name is the
  engine's current state; it is never the zero value.
\<close>
theorem Current_in_session:
  assumes "wf_document y st ev" and "session (assemble y st ev) f"
  shows "Current f \<in> set (StateYaml_States st) \<and> State_Name (Current f) = current (FSM f)"
proof -
  from assms have c: "closed f" by (rule session_closed)
  from assms(2) have "States f = statesMap st" by (auto dest: session_tables)
  with Current_closed [OF c] show ?thesis by (auto dest: statesMap_SomeD)
qed

theorem Current_in_session_witness:
  "Current (chat_at ''Blog'') = NewState ''Blog'' ''The blog is at /blog''"
  using Current_in_session [OF chat_wf chat_session_Blog [unfolded chat_machine_def]]
  by (auto simp: chat_states_def)

text \<open>
  C8. In every machine reached from one built from a well-formed document,
  \<open>AvailableTransitions\<close> returns only events that the document declares, one for
  each name the engine reports and in the engine's order.
\<close>
theorem AvailableTransitions_declared:
  assumes "wf_document y st ev" and "session (assemble y st ev) f"
    and "range_order (transitions (FSM f)) ks"
  shows "set (AvailableTransitions ks f) \<subseteq> set (EventYaml_Events ev) \<and>
    map Event_Name (AvailableTransitions ks f) = FSM_AvailableTransitions ks (FSM f)"
proof -
  from assms(1,2) have c: "closed f" by (rule session_closed)
  from assms(2) have ev: "Events f = eventsMap ev" by (auto dest: session_tables)
  have "index_or zero_Event (Events f) n \<in> set (EventYaml_Events ev)"
    if "n \<in> set (FSM_AvailableTransitions ks (FSM f))" for n
    using available_declared [OF c assms(3) that] by (auto simp: ev dest: eventsMap_SomeD)
  with AvailableTransitions_names [OF c assms(3)] show ?thesis
    by (auto simp: AvailableTransitions_map)
qed

theorem AvailableTransitions_declared_witness:
  "AvailableTransitions chat_order (chat_at ''Blog'') = [NewEvent ''Back'' ''Back'' 3, NewEvent ''Reset'' ''Reset'' 4]"
proof -
  have "map Event_Name (AvailableTransitions chat_order (chat_at ''Blog'')) = [''Back'', ''Reset'']"
    using AvailableTransitions_declared [OF chat_wf chat_session_Blog [unfolded chat_machine_def]
        chat_range_order [OF chat_session_Blog]]
    by (simp add: FSM_AvailableTransitions_def chat_order_eval)
  moreover have "set (AvailableTransitions chat_order (chat_at ''Blog'')) \<subseteq> set (EventYaml_Events chat_events)"
    using AvailableTransitions_declared [OF chat_wf chat_session_Blog [unfolded chat_machine_def]
        chat_range_order [OF chat_session_Blog]] by simp
  ultimately show ?thesis
    by (auto simp: chat_events_def map_eq_Cons_conv)
qed

text \<open>
  C15. A name that a table does not hold yields a zero value and no error. When the
  document does not declare a state named "Initial", the build still succeeds and
  \<open>Current\<close> of the built machine is the zero state, with empty name and empty
  message; in any machine whose current state is not in the state table \<open>Current\<close>
  is the zero state; and when the engine reports an available event whose name the
  event table does not hold, \<open>AvailableTransitions\<close> returns the zero event in its
  place, with empty name and message and order id 0.
\<close>
theorem undeclared_yields_zero:
  "(InitialStateName \<notin> State_Name ` set (StateYaml_States st) \<longrightarrow>
      Current (assemble y st ev) = zero_State) \<and>
   (current (FSM f) \<notin> dom (States f) \<longrightarrow> Current f = zero_State) \<and>
   (range_order (transitions (FSM f)) ks \<and> transitions (FSM f) (current (FSM f), n) \<noteq> None \<and>
      Events f n = None \<longrightarrow> zero_Event \<in> set (AvailableTransitions ks f))"
proof (intro conjI impI)
  assume "InitialStateName \<notin> State_Name ` set (StateYaml_States st)"
  then show "Current (assemble y st ev) = zero_State"
    by (intro Current_missing) (simp add: statesMap_None_iff)
next
  assume "current (FSM f) \<notin> dom (States f)"
  then show "Current f = zero_State"
    by (intro Current_missing) (simp add: domIff)
next
  assume a: "range_order (transitions (FSM f)) ks \<and>
    transitions (FSM f) (current (FSM f), n) \<noteq> None \<and> Events f n = None"
  then have "n \<in> set (FSM_AvailableTransitions ks (FSM f))"
    by (simp add: set_FSM_AvailableTransitions Can_def)
  then have "index_or zero_Event (Events f) n \<in> set (AvailableTransitions ks f)"
    by (simp add: AvailableTransitions_map)
  with a show "zero_Event \<in> set (AvailableTransitions ks f)" by simp
qed

theorem undeclared_yields_zero_witness:
  "Current (assemble chat_rules \<lparr>StateYaml_States = [NewState ''Hello'' ''Hi'']\<rparr> chat_events) =
     zero_State \<and>
   zero_Event \<in> set (AvailableTransitions chat_order
     (assemble chat_rules chat_states \<lparr>EventYaml_Events = []\<rparr>))"
proof -
  let ?f = "assemble chat_rules chat_states \<lparr>EventYaml_Events = []\<rparr>"
  have "range_order (transitions (FSM ?f)) chat_order"
    unfolding chat_order_def by (rule assemble_range_order)
  moreover have "transitions (FSM ?f) (current (FSM ?f), ''GetStarted'') \<noteq> None"
    by (simp add: NewFSM_entry_lookup chat_rules_def last_with_def InitialStateName_def)
  moreover have "Events ?f ''GetStarted'' = None"
    by (simp add: eventsMap_lookup)
  ultimately show ?thesis
    using undeclared_yields_zero [of "\<lparr>StateYaml_States = [NewState ''Hello'' ''Hi'']\<rparr>"
        chat_rules chat_events ?f chat_order "''GetStarted''"]
    by (simp add: InitialStateName_def)
qed

text \<open>
  C19. The current state of a machine reached from a freshly built one is the start
  state "Initial" or the destination of some rule of the document; the transition
  table and the two tables of states and events are those of the built machine.
\<close>
theorem session_current:
  assumes "session (assemble y st ev) f"
  shows "(current (FSM f) = InitialStateName \<or> current (FSM f) \<in> DestState ` set (Fsm y)) \<and>
    transitions (FSM f) = transitions (FSM (assemble y st ev)) \<and>
    States f = statesMap st \<and> Events f = eventsMap ev"
proof -
  from assms have "reachable (FSM (assemble y st ev)) (FSM f)" by (rule session_reachable)
  then have "current (FSM f) = InitialStateName \<or>
      current (FSM f) \<in> ran (transitions (NewFSM InitialStateName (eventDescYamlToEventDesc y)))"
    by (auto dest: reachable_current)
  moreover have "ran (transitions (NewFSM InitialStateName (eventDescYamlToEventDesc y))) \<subseteq>
      DestState ` set (Fsm y)"
    using NewFSM_ran [of InitialStateName "eventDescYamlToEventDesc y"]
    by (auto simp: eventDescYamlToEventDesc_map)
  ultimately show ?thesis using assms by (auto dest: session_tables session_transitions)
qed

theorem session_current_witness:
  "''Blog'' = InitialStateName \<or> ''Blog'' \<in> DestState ` set (Fsm chat_rules)"
  using session_current [OF chat_session_Blog [unfolded chat_machine_def]] by simp

text \<open>
  \<open>AvailableTransitions\<close> returns the empty list, and no error, exactly in the states
  from which no event can be fired.
\<close>
lemma terminal_iff:
  "range_order (transitions (FSM f)) ks \<Longrightarrow>
     AvailableTransitions ks f = [] \<longleftrightarrow> (\<forall>event. \<not> isOK (FireEvent f event))"
  by (simp add: AvailableTransitions_map FSM_AvailableTransitions_Nil_iff isOK_FireEvent)

text \<open>
  C26. Every machine that \<open>yamlToFSM\<close> returns, and every machine reached from it by
  firing events, is well typed, whatever the document declares: its three tables are
  finite, the tables of states and events store every entry under its own name, and
  so the engine's table has an order in which it can be ranged over.
\<close>
theorem built_machine_well_typed:
  assumes "fst (yamlToFSM Y b) = Inr f0" and "session f0 f"
  shows "well_typed f \<and> (\<exists>ks. range_order (transitions (FSM f)) ks)"
proof -
  from assms(1) obtain log where "yamlToFSM Y b = (Inr f0, log)"
    by (cases "yamlToFSM Y b") simp
  then obtain y st ev where "f0 = assemble y st ev" by (blast dest: yamlToFSM_InrD)
  then have "well_typed f0" by (simp add: well_typed_assemble)
  with assms(2) have "well_typed f" by (rule well_typed_session)
  then show ?thesis by (simp add: well_typed_range_order)
qed

theorem built_machine_well_typed_witness:
  "well_typed (chat_at ''Hello'') \<and>
   (\<exists>ks. range_order (transitions (FSM (chat_at ''Hello''))) ks)"
proof (rule built_machine_well_typed)
  show "fst (yamlToFSM chat_api ()) = Inr chat_machine"
    using chat_decodes by (simp add: yamlToFSM_ok chat_machine_def)
  show "session chat_machine (chat_at ''Hello'')" by (rule chat_session_Hello)
qed

end
