(* ===== verification/Event_Order.thy ===== *)
theory Event_Order
  imports Runtime
begin

text \<open>
  How many events \<open>AvailableTransitions\<close> returns and in which order.

  The engine ranges over a Go map, so the order of the result of
  \<open>AvailableTransitions\<close> (lines 179 to 186 of \<^verbatim>\<open>fsm.go\<close>) is open; the specification
  (section 4.3) leaves the presentation order to callers, which sort by the order id
  of the events. This theory shows what is fixed all the same:

  \<^item> the result is never longer than the number of different event names in the
    rules of the document (\<open>AvailableTransitions_bound\<close>);
  \<^item> for a well-formed document the result holds every declared event that can be
    fired, once (\<open>AvailableTransitions_mset_declared\<close>);
  \<^item> when the order ids of the declared events are pairwise different, sorting the
    result by order id gives the same list for every range order, namely the
    declared events that can be fired, sorted (\<open>sorted_available\<close>);
  \<^item> the declaration order \<open>decl_order\<close> of the rules is one range order, and under
    it the result lists the events of the rules that name the current state among
    their sources, in the order of the rules, an event named by several such rules
    at the place of the last of them (\<open>AvailableTransitions_decl_order\<close>);
  \<^item> both queries are functions of the document and the current state
    (\<open>queries_of_document\<close>).
\<close>

section \<open>The result as a multiset of declared events\<close>

lemma session_Can_iff:
  assumes "session (assemble y st ev) f"
  shows "Can (FSM f) event \<longleftrightarrow>
    (\<exists>r \<in> set (Fsm y). Entry_Name r = event \<and> current (FSM f) \<in> set (SrcState r))"
proof -
  from assms have "transitions (FSM f) =
      transitions (NewFSM InitialStateName (eventDescYamlToEventDesc y))"
    by (auto dest: session_transitions)
  then show ?thesis
    using NewFSM_enabled_iff [of InitialStateName "eventDescYamlToEventDesc y"
        "current (FSM f)" event]
    by (simp add: Can_def eventDescYamlToEventDesc_map)
qed

lemma session_Events:
  "session (assemble y st ev) f \<Longrightarrow> Events f = eventsMap ev"
  by (auto dest: session_tables)

lemma distinct_AvailableTransitions:
  assumes "closed f" and "range_order (transitions (FSM f)) ks"
  shows "distinct (AvailableTransitions ks f)"
proof -
  from assms(2) have "distinct (FSM_AvailableTransitions ks (FSM f))"
    by (simp add: distinct_FSM_AvailableTransitions range_order_distinct)
  then have "distinct (map Event_Name (AvailableTransitions ks f))"
    by (simp add: AvailableTransitions_names [OF assms])
  then show ?thesis by (rule distinct_map [THEN iffD1, THEN conjunct1])
qed

lemma set_AvailableTransitions:
  assumes wf: "wf_document y st ev" and s: "session (assemble y st ev) f"
    and ks: "range_order (transitions (FSM f)) ks"
  shows "set (AvailableTransitions ks f) =
    {e \<in> set (EventYaml_Events ev). Can (FSM f) (Event_Name e)}"
proof -
  note c = session_closed [OF wf s]
  from wf have d: "distinct (map Event_Name (EventYaml_Events ev))"
    by (simp add: wf_document_def event_names_def)
  have names: "set (FSM_AvailableTransitions ks (FSM f)) = {event. Can (FSM f) event}"
    using ks by (rule set_FSM_AvailableTransitions)
  show ?thesis
  proof (intro set_eqI iffI)
    fix e assume "e \<in> set (AvailableTransitions ks f)"
    then obtain n where n: "Can (FSM f) n" and e: "e = index_or zero_Event (Events f) n"
      using names by (auto simp: AvailableTransitions_map)
    from n names obtain e' where "Events f n = Some e'" and "Event_Name e' = n"
      using available_declared [OF c ks, of n] by auto
    with e n show "e \<in> {e \<in> set (EventYaml_Events ev). Can (FSM f) (Event_Name e)}"
      by (auto simp: session_Events [OF s] dest: eventsMap_SomeD)
  next
    fix e assume "e \<in> {e \<in> set (EventYaml_Events ev). Can (FSM f) (Event_Name e)}"
    then have e: "e \<in> set (EventYaml_Events ev)" and n: "Can (FSM f) (Event_Name e)" by auto
    from d e have "Events f (Event_Name e) = Some e"
      by (simp add: session_Events [OF s] eventsMap_distinct)
    with n names show "e \<in> set (AvailableTransitions ks f)"
      by (force simp: AvailableTransitions_map)
  qed
qed

lemma AvailableTransitions_mset_declared:
  assumes wf: "wf_document y st ev" and s: "session (assemble y st ev) f"
    and ks: "range_order (transitions (FSM f)) ks"
  shows "mset (AvailableTransitions ks f) =
    mset (filter (\<lambda>e. Can (FSM f) (Event_Name e)) (EventYaml_Events ev))"
proof -
  from wf have "distinct (map Event_Name (EventYaml_Events ev))"
    by (simp add: wf_document_def event_names_def)
  then have "distinct (filter (\<lambda>e. Can (FSM f) (Event_Name e)) (EventYaml_Events ev))"
    by (simp add: distinct_map)
  moreover have "distinct (AvailableTransitions ks f)"
    using session_closed [OF wf s] ks by (rule distinct_AvailableTransitions)
  ultimately show ?thesis
    using set_AvailableTransitions [OF assms]
    by (intro set_eq_iff_mset_eq_distinct [THEN iffD1]) auto
qed


section \<open>The declaration order\<close>

lemma remdups_map_inj_on: "inj_on f (set xs) \<Longrightarrow> remdups (map f xs) = map f (remdups xs)"
  by (induction xs) (auto simp: inj_on_def)

lemma remdups_replicate_append:
  "remdups (replicate n a @ xs) = (if n = 0 \<or> a \<in> set xs then remdups xs else a # remdups xs)"
  by (induction n) auto

lemma mem_desc_keys: "k \<in> set (desc_keys e) \<longleftrightarrow> fst k \<in> set (Src e) \<and> snd k = Name e"
  by (cases k) (auto simp: desc_keys_def)

lemma filter_desc_keys:
  "filter (\<lambda>key. fst key = s) (desc_keys e) = replicate (count (mset (Src e)) s) (s, Name e)"
proof -
  have "filter (\<lambda>key. fst key = s) (map (\<lambda>src. (src, n)) xs) = replicate (count (mset xs) s) (s, n)"
    for xs :: "string list" and n :: string
    by (induction xs) auto
  then show ?thesis by (simp add: desc_keys_def)
qed

lemma names_at:
  "snd ` {k \<in> set (concat (map desc_keys es)). fst k = s} = Name ` {e \<in> set es. s \<in> set (Src e)}"
proof (intro set_eqI iffI)
  fix n assume "n \<in> snd ` {k \<in> set (concat (map desc_keys es)). fst k = s}"
  then obtain k e where "e \<in> set es" "k \<in> set (desc_keys e)" "fst k = s" "n = snd k"
    by auto
  then show "n \<in> Name ` {e \<in> set es. s \<in> set (Src e)}"
    by (auto simp: mem_desc_keys)
next
  fix n assume "n \<in> Name ` {e \<in> set es. s \<in> set (Src e)}"
  then obtain e where "e \<in> set es" "s \<in> set (Src e)" "n = Name e"
    by auto
  then have "(s, n) \<in> set (concat (map desc_keys es))"
    by (auto simp: mem_desc_keys)
  then show "n \<in> snd ` {k \<in> set (concat (map desc_keys es)). fst k = s}"
    by force
qed

lemma FSM_AvailableTransitions_decl_order:
  "FSM_AvailableTransitions (decl_order es) f =
     remdups (map Name (filter (\<lambda>e. current f \<in> set (Src e)) es))"
proof -
  let ?c = "current f"
  have inj: "inj_on snd (set (filter (\<lambda>key. fst key = ?c) zs))" for zs :: "eKey list"
    by (auto simp: inj_on_def)
  have "remdups (map snd (filter (\<lambda>key. fst key = ?c) (concat (map desc_keys es)))) =
      remdups (map Name (filter (\<lambda>e. ?c \<in> set (Src e)) es))"
    using names_at [of _ ?c]
    by (induction es)
      (simp_all add: filter_desc_keys remdups_replicate_append map_replicate count_eq_zero_iff)
  then show ?thesis
    by (simp add: FSM_AvailableTransitions_def decl_order_def remdups_filter [symmetric]
        remdups_map_inj_on [OF inj])
qed

lemma AvailableTransitions_decl_order:
  "AvailableTransitions (decl_order (eventDescYamlToEventDesc y)) f =
     map (index_or zero_Event (Events f))
       (remdups (map Entry_Name (filter (\<lambda>r. current (FSM f) \<in> set (SrcState r)) (Fsm y))))"
  by (simp add: AvailableTransitions_map FSM_AvailableTransitions_decl_order
      eventDescYamlToEventDesc_map filter_map comp_def)

lemma AvailableTransitions_chat_order:
  "map Event_Name (AvailableTransitions chat_order (chat_at ''Hello'')) =
     [''ShowBlogInfo'', ''Reset'']"
  by (simp add: chat_order_def AvailableTransitions_decl_order chat_rules_def chat_machine_def
      eventsMap_lookup chat_events_def last_with_def)


section \<open>The tables in terms of the document\<close>

lemma index_or_statesMap:
  "index_or zero_State (statesMap st) n =
     (case last_with (\<lambda>s. State_Name s = n) (StateYaml_States st) of
        None \<Rightarrow> zero_State | Some s \<Rightarrow> s)"
  by (simp add: index_or_def statesMap_lookup)

lemma index_or_eventsMap:
  "index_or zero_Event (eventsMap ev) n =
     (case last_with (\<lambda>e. Event_Name e = n) (EventYaml_Events ev) of
        None \<Rightarrow> zero_Event | Some e \<Rightarrow> e)"
  by (simp add: index_or_def eventsMap_lookup)


section \<open>Properties of the size and the order\<close>

text \<open>
  C25. \<open>AvailableTransitions\<close> never returns more events than the rules of the document
  have different event names (and so never more than the document has rules),
  whatever the document declares and in whatever order the table is ranged over.
\<close>
theorem AvailableTransitions_bound:
  assumes "session (assemble y st ev) f" and "range_order (transitions (FSM f)) ks"
  shows "length (AvailableTransitions ks f) \<le> length (remdups (map Entry_Name (Fsm y)))"
proof -
  have "distinct (FSM_AvailableTransitions ks (FSM f))"
    using assms(2) by (simp add: distinct_FSM_AvailableTransitions range_order_distinct)
  moreover have "set (FSM_AvailableTransitions ks (FSM f)) \<subseteq> Entry_Name ` set (Fsm y)"
    using assms by (auto simp: set_FSM_AvailableTransitions session_Can_iff)
  ultimately show ?thesis
    by (simp add: length_AvailableTransitions distinct_length_le_card)
qed

theorem AvailableTransitions_bound_witness:
  "length (AvailableTransitions chat_order (chat_at ''Hello'')) \<le> 4"
  using AvailableTransitions_bound [OF chat_session_Hello [unfolded chat_machine_def]
      chat_range_order [OF chat_session_Hello]]
  by (simp add: chat_rules_def)

text \<open>
  C24. Sorting restores a fixed order: for a well-formed document whose events have
  pairwise different order ids, the result of \<open>AvailableTransitions\<close> sorted by order id
  is the same for every order in which the table is ranged over. It is the list of
  the declared events that can be fired in the current state, sorted by order id.
\<close>
theorem sorted_available:
  assumes "wf_document y st ev" and "distinct (map Event_OrderID (EventYaml_Events ev))"
    and "session (assemble y st ev) f" and "range_order (transitions (FSM f)) ks"
  shows "sort_key Event_OrderID (AvailableTransitions ks f) =
    sort_key Event_OrderID (filter (\<lambda>e. Can (FSM f) (Event_Name e)) (EventYaml_Events ev))"
proof (rule sort_key_mset_cong)
  show "mset (AvailableTransitions ks f) =
      mset (filter (\<lambda>e. Can (FSM f) (Event_Name e)) (EventYaml_Events ev))"
    using assms(1,3,4) by (rule AvailableTransitions_mset_declared)
  have "set (AvailableTransitions ks f) \<subseteq> set (EventYaml_Events ev)"
    using set_AvailableTransitions [OF assms(1,3,4)] by auto
  moreover from assms(2) have "inj_on Event_OrderID (set (EventYaml_Events ev))"
    by (simp add: distinct_map)
  ultimately show "inj_on Event_OrderID (set (AvailableTransitions ks f))"
    by (rule inj_on_subset [rotated])
qed

theorem sorted_available_witness:
  "sort_key Event_OrderID (AvailableTransitions chat_order (chat_at ''Hello'')) =
     [NewEvent ''ShowBlogInfo'' ''Blog'' 2, NewEvent ''Reset'' ''Reset'' 4]"
proof -
  have "Can (FSM (chat_at ''Hello'')) event \<longleftrightarrow> event = ''ShowBlogInfo'' \<or> event = ''Reset''"
    for event
    by (auto simp: session_Can_iff [OF chat_session_Hello [unfolded chat_machine_def]]
        chat_at_sel chat_rules_def)
  with sorted_available [OF chat_wf _ chat_session_Hello [unfolded chat_machine_def]
      chat_range_order [OF chat_session_Hello]]
  show ?thesis by (simp add: chat_events_def NewEvent_def)
qed

text \<open>
  C31. The two queries in terms of the document alone, whatever the document
  declares. In every machine reached from a built one, \<open>Current\<close> returns the last
  declaration of the states section whose name is the current state, and the zero
  state when there is none. When the engine ranges over its table in the order of
  the rules, \<open>AvailableTransitions\<close> goes through the rules that list the current
  state among their sources, takes the event name of each once, and returns for each
  name the last declaration of the events section with that name, or the zero event
  when there is none.
\<close>
theorem queries_of_document:
  assumes "session (assemble y st ev) f"
  shows "Current f =
      (case last_with (\<lambda>s. State_Name s = current (FSM f)) (StateYaml_States st) of
         None \<Rightarrow> zero_State | Some s \<Rightarrow> s) \<and>
    AvailableTransitions (decl_order (eventDescYamlToEventDesc y)) f =
      map (\<lambda>n. case last_with (\<lambda>e. Event_Name e = n) (EventYaml_Events ev) of
                  None \<Rightarrow> zero_Event | Some e \<Rightarrow> e)
        (remdups (map Entry_Name (filter (\<lambda>r. current (FSM f) \<in> set (SrcState r)) (Fsm y))))"
proof -
  from assms have "States f = statesMap st" and "Events f = eventsMap ev"
    by (auto dest: session_tables)
  then show ?thesis
    by (simp add: Current_def FSM_Current_def AvailableTransitions_decl_order
        index_or_statesMap index_or_eventsMap)
qed

theorem queries_of_document_witness:
  "Current (chat_at ''Hello'') = NewState ''Hello'' ''How can I help?'' \<and>
   AvailableTransitions chat_order (chat_at ''Hello'') =
     [NewEvent ''ShowBlogInfo'' ''Blog'' 2, NewEvent ''Reset'' ''Reset'' 4]"
  using queries_of_document [OF chat_session_Hello [unfolded chat_machine_def]]
  by (simp add: chat_order_def chat_rules_def chat_states_def chat_events_def last_with_def)

end
