(* ===== verification/Shared_Machine.thy ===== *)
theory Shared_Machine
  imports Runtime
begin

text \<open>
  The machine as Go stores it. In \<^verbatim>\<open>fsm.go\<close> the field \<^verbatim>\<open>FSM\<close> of
  \<^verbatim>\<open>FSMWithStatesAndEvents\<close> is a pointer (line 14), \<^verbatim>\<open>fsm.NewFSM\<close> returns a pointer to a
  new engine (line 82), the methods \<^verbatim>\<open>Current\<close> and \<^verbatim>\<open>AvailableTransitions\<close> have value
  receivers (lines 175 and 179), and a transition changes the engine behind the
  pointer. So every copy of the struct sees the transitions made through any other
  copy, and two machines are independent only when they come from two calls of
  \<^verbatim>\<open>yamlToFSM\<close>. The theories \<open>Builder\<close> and \<open>Runtime\<close> pass the machine as a value;
  this theory has the store and shows that the value model is what each handle sees.

  \<^item> \<open>heap\<close> is the store of engines: the list of the engines allocated so far, an
    address being a position in it. A pointer is an \<open>addr option\<close>, \<open>None\<close> for
    \<^verbatim>\<open>nil\<close>. \<open>deref\<close> follows a pointer; following \<^verbatim>\<open>nil\<close> (or an address that was never
    allocated, which no Go program can make) is the \<open>panic\<close> of the Go runtime.
  \<^item> \<open>FSMWithStatesAndEvents_p\<close> is the struct with the pointer in it. The operations
    thread the store: \<open>NewFSM_p\<close> allocates, \<open>assemble_p\<close>, \<open>yamlToFSM_p\<close> and
    \<open>ChatBotFSM_p\<close> build, \<open>Current_p\<close> and \<open>AvailableTransitions_p\<close> read through
    the pointer, \<open>Fire_p\<close> is the transition on the engine behind a pointer.
  \<^item> \<open>valid\<close> says that the pointer of a struct leads to an engine, \<open>abs_machine\<close> is
    the abstraction function to the value model of \<open>Builder\<close>.
  \<^item> \<open>fire_calls\<close> is a sequence of transitions that any number of callers make on
    any engines of the store, in the order in which they happen; \<open>heap_later\<close> is the
    set of stores that transitions and further constructions lead to.

  The lemmas show that each operation on a valid struct is the operation of the value
  model on its abstraction, that a struct made by \<open>yamlToFSM_p\<close> stays valid and moves
  along a \<open>session\<close> of the value model whatever happens in the store, that the
  engine at an address is changed by the calls made on that address and by no other,
  and that two calls of \<open>ChatBotFSM_p\<close> return machines that do not share an engine.
\<close>

type_synonym addr = nat

type_synonym heap = "FSM list"

datatype panic = NilPointerDereference

record FSMWithStatesAndEvents_p =
  FSM_p :: "addr option"
  States_p :: "(string, State) gomap"
  Events_p :: "(string, Event) gomap"

definition deref :: "heap \<Rightarrow> addr option \<Rightarrow> panic + FSM" where
  "deref h p =
     (case p of
        None \<Rightarrow> Inl NilPointerDereference
      | Some a \<Rightarrow> if a < length h then Inr (h ! a) else Inl NilPointerDereference)"

definition NewFSM_p :: "string \<Rightarrow> EventDesc list \<Rightarrow> heap \<Rightarrow> addr option \<times> heap" where
  "NewFSM_p initial events h = (Some (length h), h @ [NewFSM initial events])"

definition assemble_p ::
  "EventDescYaml \<Rightarrow> StateYaml \<Rightarrow> EventYaml \<Rightarrow> heap \<Rightarrow> FSMWithStatesAndEvents_p \<times> heap" where
  "assemble_p eventDescYaml states events h =
     (let eventDes = eventDescYamlToEventDesc eventDescYaml;
          (fsm, h') = NewFSM_p InitialStateName eventDes h
      in (\<lparr>FSM_p = fsm, States_p = statesMap states, Events_p = eventsMap events\<rparr>, h'))"

definition yamlToFSM_p ::
  "('b, 'd) yaml_api \<Rightarrow> 'b \<Rightarrow> heap \<Rightarrow> (error + FSMWithStatesAndEvents_p) logged \<times> heap" where
  "yamlToFSM_p Y yamlSpec h =
     (case decode_sections Y yamlSpec of
        (Inl err, log) \<Rightarrow> ((Inl err, log), h)
      | (Inr (eventDescYaml, states, events), log) \<Rightarrow>
          (let (f, h') = assemble_p eventDescYaml states events h
           in ((Inr f, log @ [BuiltEventDesc (eventDescYamlToEventDesc eventDescYaml)]), h')))"

definition ChatBotFSM_p ::
  "('b, 'd) yaml_api \<Rightarrow> (string \<Rightarrow> cause + 'b) \<Rightarrow> string \<Rightarrow> heap \<Rightarrow>
     (error + FSMWithStatesAndEvents_p) logged \<times> heap" where
  "ChatBotFSM_p Y readFile configFile h =
     (case readFile configFile of
        Inl err \<Rightarrow> ((Inl (ReadConfigFailed err configFile), []), h)
      | Inr fileBytes \<Rightarrow>
          (case yamlToFSM_p Y fileBytes h of
             ((Inl err, log), h') \<Rightarrow> ((Inl (CreateFSMFailed err configFile), log), h')
           | ((Inr fsm, log), h') \<Rightarrow> ((Inr fsm, log), h')))"

definition Current_p :: "FSMWithStatesAndEvents_p \<Rightarrow> heap \<Rightarrow> panic + State" where
  "Current_p f h =
     (case deref h (FSM_p f) of
        Inl p \<Rightarrow> Inl p
      | Inr m \<Rightarrow> Inr (index_or zero_State (States_p f) (FSM_Current m)))"

definition AvailableTransitions_p ::
  "eKey list \<Rightarrow> FSMWithStatesAndEvents_p \<Rightarrow> heap \<Rightarrow> panic + Event list" where
  "AvailableTransitions_p ks f h =
     (case deref h (FSM_p f) of
        Inl p \<Rightarrow> Inl p
      | Inr m \<Rightarrow>
          (let transitions = FSM_AvailableTransitions ks m
           in Inr (append_all (\<lambda>t. index_or zero_Event (Events_p f) t) transitions)))"

definition Fire_p :: "addr option \<Rightarrow> string \<Rightarrow> heap \<Rightarrow> (panic + fire_error option) \<times> heap" where
  "Fire_p p event h =
     (case deref h p of
        Inl pn \<Rightarrow> (Inl pn, h)
      | Inr m \<Rightarrow>
          (case Fire m event of
             Inl err \<Rightarrow> (Inr (Some err), h)
           | Inr m' \<Rightarrow> (Inr None, h[the p := m'])))"

fun fire_calls :: "(addr option \<times> string) list \<Rightarrow> heap \<Rightarrow> heap" where
  "fire_calls [] h = h"
| "fire_calls ((p, event) # cs) h = fire_calls cs (snd (Fire_p p event h))"

definition valid :: "heap \<Rightarrow> FSMWithStatesAndEvents_p \<Rightarrow> bool" where
  "valid h f \<longleftrightarrow> (case FSM_p f of None \<Rightarrow> False | Some a \<Rightarrow> a < length h)"

definition abs_machine :: "heap \<Rightarrow> FSMWithStatesAndEvents_p \<Rightarrow> FSMWithStatesAndEvents" where
  "abs_machine h f = \<lparr>FSM = h ! the (FSM_p f), States = States_p f, Events = Events_p f\<rparr>"

inductive heap_later :: "heap \<Rightarrow> heap \<Rightarrow> bool" for h where
  same: "heap_later h h"
| fired: "heap_later h h1 \<Longrightarrow> heap_later h (snd (Fire_p p event h1))"
| built: "heap_later h h1 \<Longrightarrow> heap_later h (snd (assemble_p y st ev h1))"

definition chat_heap :: heap where
  "chat_heap = snd (assemble_p chat_rules chat_states chat_events [])"

definition chat_p :: FSMWithStatesAndEvents_p where
  "chat_p = fst (assemble_p chat_rules chat_states chat_events [])"

definition greet_p :: FSMWithStatesAndEvents_p where
  "greet_p = fst (assemble_p greet_rules greet_states greet_events chat_heap)"

definition two_heap :: heap where
  "two_heap = snd (assemble_p greet_rules greet_states greet_events chat_heap)"

declare deref_def [model_defs] NewFSM_p_def [model_defs] assemble_p_def [model_defs]
  yamlToFSM_p_def [model_defs] ChatBotFSM_p_def [model_defs] Current_p_def [model_defs] AvailableTransitions_p_def [model_defs]
  Fire_p_def [model_defs]


section \<open>Pointers and the store\<close>

lemma deref_nil [simp]: "deref h None = Inl NilPointerDereference"
  by (simp add: deref_def)

lemma deref_Some [simp]: "a < length h \<Longrightarrow> deref h (Some a) = Inr (h ! a)"
  by (simp add: deref_def)

lemma valid_iff: "valid h f \<longleftrightarrow> (\<exists>a. FSM_p f = Some a \<and> a < length h)"
  by (auto simp: valid_def split: option.splits)

lemma validE:
  assumes "valid h f"
  obtains a where "FSM_p f = Some a" and "a < length h"
  using assms by (auto simp: valid_iff)

lemma valid_deref: "valid h f \<Longrightarrow> deref h (FSM_p f) = Inr (FSM (abs_machine h f))"
  by (auto simp: abs_machine_def elim!: validE)

lemma abs_machine_sel [simp]:
  "FSM (abs_machine h f) = h ! the (FSM_p f)"
  "States (abs_machine h f) = States_p f"
  "Events (abs_machine h f) = Events_p f"
  by (simp_all add: abs_machine_def)

lemma length_Fire_p [simp]: "length (snd (Fire_p p event h)) = length h"
  by (simp add: Fire_p_def split: sum.splits)

lemma length_fire_calls [simp]: "length (fire_calls cs h) = length h"
  by (induction cs arbitrary: h) auto

lemma Fire_p_nth:
  "a < length h \<Longrightarrow>
     snd (Fire_p p event h) ! a =
       (if p = Some a then (case Fire (h ! a) event of Inl _ \<Rightarrow> h ! a | Inr m' \<Rightarrow> m') else h ! a)"
  by (cases p) (auto simp: Fire_p_def deref_def split: sum.splits)

lemma Fire_p_result:
  "a < length h \<Longrightarrow>
     fst (Fire_p (Some a) event h) =
       Inr (case Fire (h ! a) event of Inl err \<Rightarrow> Some err | Inr _ \<Rightarrow> None)"
  by (simp add: Fire_p_def split: sum.splits)

lemma fire_calls_nth:
  "a < length h \<Longrightarrow>
     fire_calls cs h ! a = run (h ! a) (map snd (filter (\<lambda>c. fst c = Some a) cs))"
proof (induction cs arbitrary: h)
  case Nil
  show ?case by simp
next
  case (Cons c cs)
  obtain p event where c: "c = (p, event)" by (cases c)
  from Cons.prems have "fire_calls cs (snd (Fire_p p event h)) ! a =
      run (snd (Fire_p p event h) ! a) (map snd (filter (\<lambda>c. fst c = Some a) cs))"
    by (intro Cons.IH) simp
  with Cons.prems show ?case by (simp add: c Fire_p_nth)
qed


section \<open>Construction\<close>

lemma assemble_p_eq:
  "assemble_p y st ev h =
     (\<lparr>FSM_p = Some (length h), States_p = statesMap st, Events_p = eventsMap ev\<rparr>,
      h @ [FSM (assemble y st ev)])"
  by (simp add: assemble_p_def NewFSM_p_def)

lemma assemble_p_valid: "valid (snd (assemble_p y st ev h)) (fst (assemble_p y st ev h))"
  by (simp add: assemble_p_eq valid_iff)

lemma assemble_p_abs:
  "abs_machine (snd (assemble_p y st ev h)) (fst (assemble_p y st ev h)) = assemble y st ev"
  by (simp add: assemble_p_eq abs_machine_def)

lemma assemble_p_frame:
  "valid h f \<Longrightarrow> valid (snd (assemble_p y st ev h)) f \<and>
     abs_machine (snd (assemble_p y st ev h)) f = abs_machine h f"
  by (auto simp: assemble_p_eq valid_iff abs_machine_def nth_append)

lemma yamlToFSM_p_ok:
  "decodes Y b y st ev \<Longrightarrow>
     yamlToFSM_p Y b h =
       ((Inr (fst (assemble_p y st ev h)),
         [DecodedFSM y, DecodedStates st, DecodedEvents ev,
          BuiltEventDesc (eventDescYamlToEventDesc y)]),
        snd (assemble_p y st ev h))"
  by (simp add: yamlToFSM_p_def decode_sections_ok split: prod.splits)

lemma yamlToFSM_p_error:
  "decode_sections Y b = (Inl err, log) \<Longrightarrow> yamlToFSM_p Y b h = ((Inl err, log), h)"
  by (simp add: yamlToFSM_p_def)

lemma yamlToFSM_p_InrD:
  assumes "yamlToFSM_p Y b h = ((Inr f, log), h')"
  shows "\<exists>y st ev. decodes Y b y st ev \<and> f = fst (assemble_p y st ev h) \<and>
    h' = snd (assemble_p y st ev h)"
proof -
  from assms obtain y st ev log' where d: "decode_sections Y b = (Inr (y, st, ev), log')"
    and "f = fst (assemble_p y st ev h)" and "h' = snd (assemble_p y st ev h)"
    by (auto simp: yamlToFSM_p_def split: prod.splits sum.splits)
  moreover from d have "decodes Y b y st ev" by (blast dest: decode_sections_InrD)
  ultimately show ?thesis by blast
qed

lemma yamlToFSM_p_abs:
  "map_sum id (abs_machine (snd (yamlToFSM_p Y b h))) (fst (fst (yamlToFSM_p Y b h))) =
     fst (yamlToFSM Y b) \<and>
   snd (fst (yamlToFSM_p Y b h)) = snd (yamlToFSM Y b) \<and>
   (isOK (fst (yamlToFSM Y b)) \<or> snd (yamlToFSM_p Y b h) = h)"
proof (cases "decode_sections Y b")
  case (Pair r log)
  show ?thesis
  proof (cases r)
    case (Inl err)
    with Pair show ?thesis by (simp add: yamlToFSM_p_def yamlToFSM_def)
  next
    case (Inr d)
    obtain y st ev where "d = (y, st, ev)" by (cases d)
    with Pair Inr show ?thesis
      using assemble_p_abs [of y st ev h]
      by (auto simp: yamlToFSM_p_def yamlToFSM_def split: prod.splits)
  qed
qed

lemma ChatBotFSM_p_InrD:
  assumes "ChatBotFSM_p Y readFile c h = ((Inr f, log), h')"
  shows "\<exists>b. readFile c = Inr b \<and> yamlToFSM_p Y b h = ((Inr f, log), h')"
  using assms by (auto simp: ChatBotFSM_p_def split: sum.splits prod.splits)

lemma ChatBotFSM_p_abs:
  "map_sum id (abs_machine (snd (ChatBotFSM_p Y readFile c h)))
     (fst (fst (ChatBotFSM_p Y readFile c h))) = fst (ChatBotFSM Y readFile c) \<and>
   snd (fst (ChatBotFSM_p Y readFile c h)) = snd (ChatBotFSM Y readFile c)"
proof (cases "readFile c")
  case (Inl err)
  then show ?thesis by (simp add: ChatBotFSM_p_def ChatBotFSM_def)
next
  case (Inr b)
  obtain r log h' where p: "yamlToFSM_p Y b h = ((r, log), h')"
    by (metis surj_pair)
  show ?thesis
  proof (cases r)
    case (Inl err)
    with p have "yamlToFSM Y b = (Inl err, log)"
      by (auto simp: yamlToFSM_p_def yamlToFSM_def split: prod.splits sum.splits)
    with p Inl Inr show ?thesis by (simp add: ChatBotFSM_p_def ChatBotFSM_def)
  next
    case (Inr f)
    with p obtain y st ev where d: "decodes Y b y st ev" and f: "f = fst (assemble_p y st ev h)"
      and h': "h' = snd (assemble_p y st ev h)"
      by (blast dest: yamlToFSM_p_InrD)
    from d p Inr have "yamlToFSM Y b = (Inr (assemble y st ev), log)"
      by (simp add: yamlToFSM_ok yamlToFSM_p_ok)
    with p Inr \<open>readFile c = Inr b\<close> f h' show ?thesis
      by (simp add: ChatBotFSM_p_def ChatBotFSM_def assemble_p_abs)
  qed
qed

lemma ChatBotFSM_p_fresh:
  assumes "ChatBotFSM_p Y readFile c h = ((Inr f, log), h')"
  shows "FSM_p f = Some (length h)" and "length h' = Suc (length h)" and "valid h' f"
  using assms
  by (auto dest!: ChatBotFSM_p_InrD yamlToFSM_p_InrD simp: assemble_p_eq valid_iff)


section \<open>The operations through a valid pointer\<close>

lemma Current_p_abs: "valid h f \<Longrightarrow> Current_p f h = Inr (Current (abs_machine h f))"
  by (simp add: Current_p_def valid_deref Current_def)

lemma AvailableTransitions_p_abs:
  "valid h f \<Longrightarrow> AvailableTransitions_p ks f h = Inr (AvailableTransitions ks (abs_machine h f))"
  by (simp add: AvailableTransitions_p_def valid_deref AvailableTransitions_def)

lemma Current_p_invalid: "\<not> valid h f \<Longrightarrow> Current_p f h = Inl NilPointerDereference"
  by (auto simp: Current_p_def deref_def valid_iff split: option.splits)

lemma AvailableTransitions_p_invalid:
  "\<not> valid h f \<Longrightarrow> AvailableTransitions_p ks f h = Inl NilPointerDereference"
  by (auto simp: AvailableTransitions_p_def deref_def valid_iff split: option.splits)

lemma Fire_p_abs:
  assumes "valid h f"
  shows "fst (Fire_p (FSM_p f) event h) =
      Inr (case FireEvent (abs_machine h f) event of Inl err \<Rightarrow> Some err | Inr _ \<Rightarrow> None)"
    and "abs_machine (snd (Fire_p (FSM_p f) event h)) f =
      (case FireEvent (abs_machine h f) event of Inl _ \<Rightarrow> abs_machine h f | Inr f' \<Rightarrow> f')"
  using assms
  by (auto simp: Fire_p_result Fire_p_nth FireEvent_def abs_machine_def elim!: validE
      split: sum.splits)

lemma Fire_p_valid [simp]: "valid (snd (Fire_p p event h)) f \<longleftrightarrow> valid h f"
  by (simp add: valid_iff)

lemma Fire_p_step:
  assumes "valid h f"
  shows "abs_machine (snd (Fire_p p event h)) f = abs_machine h f \<or>
    FireEvent (abs_machine h f) event = Inr (abs_machine (snd (Fire_p p event h)) f)"
proof (cases "p = FSM_p f")
  case True
  with Fire_p_abs(2) [OF assms, of event] show ?thesis by (auto split: sum.splits)
next
  case False
  with assms have "abs_machine (snd (Fire_p p event h)) f = abs_machine h f"
    by (auto simp: abs_machine_def Fire_p_nth elim!: validE)
  then show ?thesis ..
qed

lemma heap_later_session:
  "heap_later h h' \<Longrightarrow> valid h f \<Longrightarrow> valid h' f \<and> session (abs_machine h f) (abs_machine h' f)"
proof (induction rule: heap_later.induct)
  case same
  then show ?case by (simp add: session.opened)
next
  case (fired h1 p event)
  then have v: "valid h1 f" and s: "session (abs_machine h f) (abs_machine h1 f)" by simp_all
  from Fire_p_step [OF v, of p event] s
  have "session (abs_machine h f) (abs_machine (snd (Fire_p p event h1)) f)"
    by (auto intro: session.fired)
  with v show ?case by simp
next
  case (built h1 y st ev)
  then show ?case by (simp add: assemble_p_frame)
qed

lemma fire_calls_snoc:
  "fire_calls (cs @ [(p, event)]) h = snd (Fire_p p event (fire_calls cs h))"
  by (induction cs h rule: fire_calls.induct) simp_all

lemma heap_later_fire_calls: "heap_later h (fire_calls cs h)"
proof (induction cs rule: rev_induct)
  case Nil
  show ?case by (simp add: heap_later.same)
next
  case (snoc c cs)
  then show ?case by (cases c) (simp add: fire_calls_snoc heap_later.fired)
qed

lemma heap_later_length: "heap_later h h' \<Longrightarrow> length h \<le> length h'"
  by (induction rule: heap_later.induct) (auto simp: assemble_p_eq)

lemma fire_calls_valid [simp]: "valid (fire_calls cs h) f \<longleftrightarrow> valid h f"
  by (simp add: valid_iff)

lemma fire_calls_other:
  assumes "valid h f" and "\<forall>c \<in> set cs. fst c \<noteq> FSM_p f"
  shows "abs_machine (fire_calls cs h) f = abs_machine h f"
proof -
  from assms(1) obtain a where a: "FSM_p f = Some a" "a < length h" by (rule validE)
  from assms(2) a have "filter (\<lambda>c. fst c = Some a) cs = []"
    by (auto simp: filter_empty_conv)
  with a show ?thesis
    by (simp add: abs_machine_def fire_calls_nth)
qed


section \<open>The worked example in the store\<close>

lemma chat_p_sel [simp]:
  "FSM_p chat_p = Some 0" "States_p chat_p = statesMap chat_states"
  "Events_p chat_p = eventsMap chat_events"
  by (simp_all add: chat_p_def assemble_p_eq)

lemma greet_p_sel [simp]:
  "FSM_p greet_p = Some 1" "States_p greet_p = statesMap greet_states"
  "Events_p greet_p = eventsMap greet_events"
  by (simp_all add: greet_p_def chat_heap_def assemble_p_eq)

lemma two_heap_eq: "two_heap = [FSM chat_machine, FSM greet_machine]"
  by (simp add: two_heap_def chat_heap_def assemble_p_eq chat_machine_def greet_machine_def)

lemma two_heap_valid: "valid two_heap chat_p" "valid two_heap greet_p"
  by (simp_all add: valid_iff two_heap_eq)

lemma two_heap_abs [simp]:
  "abs_machine two_heap chat_p = chat_machine" "abs_machine two_heap greet_p = greet_machine"
  by (simp_all add: abs_machine_def two_heap_eq chat_machine_def greet_machine_def)

lemma chat_FireEvent_GetStarted: "FireEvent chat_machine ''GetStarted'' = Inr (chat_at ''Hello'')"
  by (simp add: FireEvent_def chat_at_def chat_fsm_fire [of "''Initial''", unfolded chat_fsm_at_Initial]
      chat_lookup chat_rules_def last_with_def)


section \<open>Properties of the machine in the store\<close>

text \<open>
  C21. A struct that \<open>yamlToFSM_p\<close> returns never leads to a panic and never leaves the
  sessions of the value model: whatever transitions are fired on whatever engines
  and whatever machines are built afterwards, \<open>Current_p\<close> and
  \<open>AvailableTransitions_p\<close> through the struct return a result, the one of the value
  model, and the machine the struct stands for is reached, in the value model, from
  the machine that \<open>yamlToFSM\<close> returns for the same input.
\<close>
theorem built_struct_session:
  assumes "yamlToFSM_p Y b h0 = ((Inr f, log), h)" and "heap_later h h'"
  shows "\<exists>m. yamlToFSM Y b = (Inr m, log) \<and> session m (abs_machine h' f) \<and>
    Current_p f h' = Inr (Current (abs_machine h' f)) \<and>
    (\<forall>ks. AvailableTransitions_p ks f h' = Inr (AvailableTransitions ks (abs_machine h' f)))"
proof -
  from assms(1) obtain y st ev where d: "decodes Y b y st ev"
    and f: "f = fst (assemble_p y st ev h0)" and h: "h = snd (assemble_p y st ev h0)"
    by (blast dest: yamlToFSM_p_InrD)
  from d assms(1) have log: "yamlToFSM Y b = (Inr (assemble y st ev), log)"
    by (simp add: yamlToFSM_ok yamlToFSM_p_ok)
  from f h have "valid h f" and "abs_machine h f = assemble y st ev"
    by (simp_all add: assemble_p_valid assemble_p_abs)
  with heap_later_session [OF assms(2), of f]
  have "valid h' f" and "session (assemble y st ev) (abs_machine h' f)" by simp_all
  with log show ?thesis by (simp add: Current_p_abs AvailableTransitions_p_abs)
qed

theorem built_struct_session_witness:
  "\<exists>m. yamlToFSM chat_api () = (Inr m, [DecodedFSM chat_rules, DecodedStates chat_states,
       DecodedEvents chat_events, BuiltEventDesc (eventDescYamlToEventDesc chat_rules)]) \<and>
     session m (abs_machine (snd (Fire_p (Some 0) ''GetStarted'' two_heap)) chat_p) \<and>
     Current_p chat_p (snd (Fire_p (Some 0) ''GetStarted'' two_heap)) =
       Inr (Current (abs_machine (snd (Fire_p (Some 0) ''GetStarted'' two_heap)) chat_p)) \<and>
     (\<forall>ks. AvailableTransitions_p ks chat_p (snd (Fire_p (Some 0) ''GetStarted'' two_heap)) =
        Inr (AvailableTransitions ks
          (abs_machine (snd (Fire_p (Some 0) ''GetStarted'' two_heap)) chat_p)))"
proof (rule built_struct_session)
  show "yamlToFSM_p chat_api () [] = ((Inr chat_p, [DecodedFSM chat_rules, DecodedStates chat_states,
       DecodedEvents chat_events, BuiltEventDesc (eventDescYamlToEventDesc chat_rules)]), chat_heap)"
    using chat_decodes by (simp add: yamlToFSM_p_ok chat_p_def chat_heap_def)
  have "heap_later chat_heap two_heap"
    unfolding two_heap_def by (intro heap_later.built heap_later.same)
  then show "heap_later chat_heap (snd (Fire_p (Some 0) ''GetStarted'' two_heap))"
    by (rule heap_later.fired)
qed

text \<open>
  C22. The engine behind a pointer is changed by the transitions fired through that
  pointer, in their order, and by nothing else: after any interleaving of calls on
  the engines of the store, \<open>Current_p\<close> through a struct returns the state reached by
  the calls that were made on the struct's own pointer, through whichever copy of
  the struct they were made. Calls on other machines do not matter, and rejected
  calls change nothing.
\<close>
theorem fire_calls_projection:
  assumes "valid h f"
  shows "Current_p f (fire_calls cs h) =
    Inr (index_or zero_State (States_p f)
      (current (run (FSM (abs_machine h f)) (map snd (filter (\<lambda>c. fst c = FSM_p f) cs)))))"
proof -
  from assms obtain a where a: "FSM_p f = Some a" "a < length h" by (rule validE)
  then have "valid (fire_calls cs h) f" by (simp add: valid_iff)
  then show ?thesis
    using a by (simp add: Current_p_abs Current_def FSM_Current_def fire_calls_nth)
qed

theorem fire_calls_projection_witness:
  "Current_p chat_p
     (fire_calls [(Some 1, ''Greet''), (Some 0, ''GetStarted''), (Some 1, ''Greet''),
        (Some 0, ''ShowBlogInfo'')] two_heap) = Inr (NewState ''Blog'' ''The blog is at /blog'')"
proof -
  have "Fire (FSM chat_machine) ''GetStarted'' = Inr (chat_fsm_at ''Hello'')"
    using chat_fsm_fire [of "''Initial''" "''GetStarted''" "''Hello''"]
    by (simp add: chat_fsm_at_Initial chat_lookup chat_rules_def last_with_def)
  moreover have "Fire (chat_fsm_at ''Hello'') ''ShowBlogInfo'' = Inr (chat_fsm_at ''Blog'')"
    by (rule chat_fsm_fire) (simp add: chat_lookup chat_rules_def last_with_def)
  ultimately have "run (FSM chat_machine) [''GetStarted'', ''ShowBlogInfo''] = chat_fsm_at ''Blog''"
    by simp
  with fire_calls_projection [OF two_heap_valid(1),
      of "[(Some 1, ''Greet''), (Some 0, ''GetStarted''), (Some 1, ''Greet''),
        (Some 0, ''ShowBlogInfo'')]"]
  show ?thesis by (simp add: statesMap_lookup chat_states_def last_with_def)
qed

text \<open>
  C23. Two calls of \<open>ChatBotFSM_p\<close> give two machines: the second call, whatever
  happened in the store since the first, returns a struct with another pointer, both
  structs are valid afterwards, and no sequence of transitions fired through one of
  them changes what \<open>Current_p\<close> returns through the other. This is what the
  package offers in place of instances of one definition: one call of \<open>ChatBotFSM\<close>
  per session.
\<close>
theorem sessions_independent:
  assumes "ChatBotFSM_p Y readFile c h0 = ((Inr f, log), h1)" and "heap_later h1 h2"
    and "ChatBotFSM_p Y' readFile' c' h2 = ((Inr f', log'), h3)"
  shows "FSM_p f \<noteq> FSM_p f' \<and> valid h3 f \<and> valid h3 f' \<and>
    (\<forall>events. Current_p f (fire_calls (map (Pair (FSM_p f')) events) h3) = Current_p f h3 \<and>
       Current_p f' (fire_calls (map (Pair (FSM_p f)) events) h3) = Current_p f' h3)"
proof -
  note first = ChatBotFSM_p_fresh [OF assms(1)] and second = ChatBotFSM_p_fresh [OF assms(3)]
  from heap_later_length [OF assms(2)] first second have ne: "FSM_p f \<noteq> FSM_p f'"
    and v: "valid h3 f"
    by (auto simp: valid_iff)
  have "Current_p g (fire_calls (map (Pair p) events) h3) = Current_p g h3"
    if "valid h3 g" and "p \<noteq> FSM_p g" for g p events
    using that by (simp add: Current_p_abs fire_calls_other Current_def)
  with ne v second(3) show ?thesis by metis
qed

theorem sessions_independent_witness:
  "FSM_p chat_p \<noteq> FSM_p greet_p \<and> valid two_heap chat_p \<and> valid two_heap greet_p \<and>
   (\<forall>events. Current_p chat_p (fire_calls (map (Pair (FSM_p greet_p)) events) two_heap) =
        Current_p chat_p two_heap \<and>
      Current_p greet_p (fire_calls (map (Pair (FSM_p chat_p)) events) two_heap) =
        Current_p greet_p two_heap)"
proof (rule sessions_independent)
  show "ChatBotFSM_p chat_api (\<lambda>_. Inr ()) ''chat.yaml'' [] =
      ((Inr chat_p, [DecodedFSM chat_rules, DecodedStates chat_states, DecodedEvents chat_events,
         BuiltEventDesc (eventDescYamlToEventDesc chat_rules)]), chat_heap)"
    using chat_decodes by (simp add: ChatBotFSM_p_def yamlToFSM_p_ok chat_p_def chat_heap_def)
  show "heap_later chat_heap chat_heap"
    by (rule heap_later.same)
  show "ChatBotFSM_p greet_api (\<lambda>_. Inr ()) ''greet.yaml'' chat_heap =
      ((Inr greet_p, [DecodedFSM greet_rules, DecodedStates greet_states,
         DecodedEvents greet_events, BuiltEventDesc (eventDescYamlToEventDesc greet_rules)]),
       two_heap)"
    using greet_decodes by (simp add: ChatBotFSM_p_def yamlToFSM_p_ok greet_p_def two_heap_def)
qed

end
