(* ===== verification/Yaml_Document.thy ===== *)
theory Yaml_Document
  imports Builder
begin

text \<open>
  The document that \<open>yamlToFSM\<close> decodes, as sections 4.1 and 6 of the specification
  describe it: a stream of three documents, the rules, the states and the events,
  each a list of records. The decoder is a library that \<^verbatim>\<open>fsm.go\<close> only calls; the
  theory \<open>Builder\<close> has it as the interface \<open>yaml_api\<close>, and this theory gives the
  decoder of the specification as one implementation of that interface, \<open>node_api\<close>.
  The text of a document is not modelled: a document is the tree of nodes that the
  text stands for.

  \<^item> \<open>yaml\<close> is a node: null, a string, an integer, a sequence of nodes or a mapping
    from keys to nodes (the pairs in the order of the text; the first pair of a key
    is the one that counts).
  \<^item> \<open>ParseError\<close> is the error of the specification, with what was wrong and at
    which key; \<open>ParseError_text\<close> is the message kept as the cause of the wrapped
    error. The wording of the messages is the model's.
  \<^item> \<open>field\<close> looks a key up in a mapping node; \<open>string_node\<close>, \<open>int_node\<close> and
    \<open>sequence_node\<close> read a node as a value of the Go type of the target field.
  \<^item> \<open>decode_FsmEntry\<close> and \<open>decode_EventDescYaml\<close> decode into the structs of lines
    19 to 25 of \<^verbatim>\<open>fsm.go\<close>, with the keys \<^verbatim>\<open>name\<close>, \<^verbatim>\<open>srcState\<close> and \<^verbatim>\<open>destState\<close> that the
    tags of the struct give and the key \<^verbatim>\<open>fsm\<close> of the untagged field \<^verbatim>\<open>Fsm\<close>;
    \<open>decode_StateYaml\<close> and \<open>decode_EventYaml\<close> decode into the structs of lines 27 to
    33 with the keys \<^verbatim>\<open>states\<close> and \<^verbatim>\<open>events\<close>, and \<open>decode_State\<close> and \<open>decode_Event\<close>
    read the fields that section 6 of the specification lists. A key that the
    target does not have is skipped; a key that the target has and the document has
    not is an error, as section 4.1 asks for the names.
  \<^item> \<open>Decode\<close> is one call of the decoder: it takes the next document of the stream
    and decodes it, or reports the end of the stream. \<open>node_api\<close> puts the four
    operations together.
  \<^item> \<open>encode_document\<close> writes three decoded sections back as a stream; it models
    no code and serves to write down example streams.

  The lemmas show that the decoders read the keys that the struct tags name
  (\<open>decode_FsmEntry_keys\<close>) and that these keys decide the transitions of the
  built machine (\<open>tagged_keys_reach_engine\<close>), that \<open>yamlToFSM\<close> succeeds on a
  stream exactly when its first three documents decode, whatever follows them
  (\<open>node_yamlToFSM_iff\<close>, \<open>trailing_documents_ignored\<close>), and which error a stream
  that ends early produces (\<open>cut_stream_error\<close>).
\<close>

datatype yaml =
  NullNode | StrNode string | IntNode int | SequenceNode "yaml list"
  | MappingNode "(string \<times> yaml) list"

datatype ParseError =
  EndOfStream | NotAMapping | MissingField string | NotAString string | NotAnInteger string
  | NotASequence string

fun ParseError_text :: "ParseError \<Rightarrow> cause" where
  "ParseError_text EndOfStream = ''EOF''"
| "ParseError_text NotAMapping = ''section is not a mapping''"
| "ParseError_text (MissingField k) = ''missing field '' @ k"
| "ParseError_text (NotAString k) = ''not a string: '' @ k"
| "ParseError_text (NotAnInteger k) = ''not an integer: '' @ k"
| "ParseError_text (NotASequence k) = ''not a sequence: '' @ k"

fun field :: "string \<Rightarrow> yaml \<Rightarrow> ParseError + yaml" where
  "field k (MappingNode kvs) =
     (case map_of kvs k of None \<Rightarrow> Inl (MissingField k) | Some v \<Rightarrow> Inr v)"
| "field k _ = Inl NotAMapping"

fun string_node :: "string \<Rightarrow> yaml \<Rightarrow> ParseError + string" where
  "string_node k (StrNode s) = Inr s"
| "string_node k _ = Inl (NotAString k)"

fun int_node :: "string \<Rightarrow> yaml \<Rightarrow> ParseError + int" where
  "int_node k (IntNode i) = Inr i"
| "int_node k _ = Inl (NotAnInteger k)"

fun sequence_node :: "string \<Rightarrow> yaml \<Rightarrow> ParseError + yaml list" where
  "sequence_node k (SequenceNode ns) = Inr ns"
| "sequence_node k _ = Inl (NotASequence k)"

abbreviation string_field :: "string \<Rightarrow> yaml \<Rightarrow> ParseError + string" where
  "string_field k n \<equiv> and_then (field k n) (string_node k)"

abbreviation int_field :: "string \<Rightarrow> yaml \<Rightarrow> ParseError + int" where
  "int_field k n \<equiv> and_then (field k n) (int_node k)"

abbreviation list_field :: "(yaml \<Rightarrow> ParseError + 'a) \<Rightarrow> string \<Rightarrow> yaml \<Rightarrow> ParseError + 'a list" where
  "list_field item k n \<equiv> and_then (and_then (field k n) (sequence_node k)) (traverse item)"

definition decode_FsmEntry :: "yaml \<Rightarrow> ParseError + FsmEntry" where
  "decode_FsmEntry n =
     and_then (string_field ''name'' n) (\<lambda>name.
     and_then (list_field (string_node ''srcState'') ''srcState'' n) (\<lambda>src.
     and_then (string_field ''destState'' n) (\<lambda>dst.
     Inr \<lparr>Entry_Name = name, SrcState = src, DestState = dst\<rparr>)))"

definition decode_EventDescYaml :: "yaml \<Rightarrow> ParseError + EventDescYaml" where
  "decode_EventDescYaml n = and_then (list_field decode_FsmEntry ''fsm'' n) (\<lambda>es. Inr \<lparr>Fsm = es\<rparr>)"

definition decode_State :: "yaml \<Rightarrow> ParseError + State" where
  "decode_State n =
     and_then (string_field ''name'' n) (\<lambda>name.
     and_then (string_field ''message'' n) (\<lambda>message.
     Inr \<lparr>State_Name = name, State_Message = message\<rparr>))"

definition decode_Event :: "yaml \<Rightarrow> ParseError + Event" where
  "decode_Event n =
     and_then (string_field ''name'' n) (\<lambda>name.
     and_then (string_field ''message'' n) (\<lambda>message.
     and_then (int_field ''orderID'' n) (\<lambda>orderID.
     Inr \<lparr>Event_Name = name, Event_Message = message, Event_OrderID = orderID\<rparr>)))"

definition decode_StateYaml :: "yaml \<Rightarrow> ParseError + StateYaml" where
  "decode_StateYaml n =
     and_then (list_field decode_State ''states'' n) (\<lambda>ss. Inr \<lparr>StateYaml_States = ss\<rparr>)"

definition decode_EventYaml :: "yaml \<Rightarrow> ParseError + EventYaml" where
  "decode_EventYaml n =
     and_then (list_field decode_Event ''events'' n) (\<lambda>es. Inr \<lparr>EventYaml_Events = es\<rparr>)"

definition Decode :: "(yaml \<Rightarrow> ParseError + 'a) \<Rightarrow> yaml list \<Rightarrow> (cause + 'a) \<times> yaml list" where
  "Decode target dec =
     (case dec of
        [] \<Rightarrow> (Inl (ParseError_text EndOfStream), [])
      | doc # rest \<Rightarrow>
          (case target doc of
             Inl err \<Rightarrow> (Inl (ParseError_text err), rest)
           | Inr v \<Rightarrow> (Inr v, rest)))"

definition node_api :: "(yaml list, yaml list) yaml_api" where
  "node_api =
     \<lparr>NewDecoder = (\<lambda>yamlSpec. yamlSpec),
      DecodeFsm = Decode decode_EventDescYaml,
      DecodeStates = Decode decode_StateYaml,
      DecodeEvents = Decode decode_EventYaml\<rparr>"

definition encode_FsmEntry :: "FsmEntry \<Rightarrow> yaml" where
  "encode_FsmEntry r =
     MappingNode [(''name'', StrNode (Entry_Name r)),
       (''srcState'', SequenceNode (map StrNode (SrcState r))),
       (''destState'', StrNode (DestState r))]"

definition encode_State :: "State \<Rightarrow> yaml" where
  "encode_State s =
     MappingNode [(''name'', StrNode (State_Name s)), (''message'', StrNode (State_Message s))]"

definition encode_Event :: "Event \<Rightarrow> yaml" where
  "encode_Event e =
     MappingNode [(''name'', StrNode (Event_Name e)), (''message'', StrNode (Event_Message e)),
       (''orderID'', IntNode (Event_OrderID e))]"

definition encode_document :: "EventDescYaml \<Rightarrow> StateYaml \<Rightarrow> EventYaml \<Rightarrow> yaml list" where
  "encode_document y st ev =
     [MappingNode [(''fsm'', SequenceNode (map encode_FsmEntry (Fsm y)))],
      MappingNode [(''states'', SequenceNode (map encode_State (StateYaml_States st)))],
      MappingNode [(''events'', SequenceNode (map encode_Event (EventYaml_Events ev)))]]"

declare decode_FsmEntry_def [model_defs] decode_EventDescYaml_def [model_defs]
  decode_State_def [model_defs] decode_Event_def [model_defs] decode_StateYaml_def [model_defs]
  decode_EventYaml_def [model_defs] Decode_def [model_defs] node_api_def [model_defs]


section \<open>Round trips of the sections\<close>

lemma decode_encode_FsmEntry [simp]: "decode_FsmEntry (encode_FsmEntry r) = Inr r"
  by (simp add: decode_FsmEntry_def encode_FsmEntry_def traverse_map traverse_Inr [where g = id])

lemma decode_encode_State [simp]: "decode_State (encode_State s) = Inr s"
  by (simp add: decode_State_def encode_State_def)

lemma decode_encode_Event [simp]: "decode_Event (encode_Event e) = Inr e"
  by (simp add: decode_Event_def encode_Event_def)

lemma decode_encode_rules:
  "decode_EventDescYaml (MappingNode [(''fsm'', SequenceNode (map encode_FsmEntry (Fsm y)))]) = Inr y"
  by (simp add: decode_EventDescYaml_def traverse_map traverse_Inr [where g = id])

lemma decode_encode_states:
  "decode_StateYaml (MappingNode [(''states'', SequenceNode (map encode_State (StateYaml_States st)))])
     = Inr st"
  by (simp add: decode_StateYaml_def traverse_map traverse_Inr [where g = id])

lemma decode_encode_events:
  "decode_EventYaml (MappingNode [(''events'', SequenceNode (map encode_Event (EventYaml_Events ev)))])
     = Inr ev"
  by (simp add: decode_EventYaml_def traverse_map traverse_Inr [where g = id])

lemmas decode_encode = decode_encode_rules decode_encode_states decode_encode_events


section \<open>The decoder on a stream\<close>

lemma Decode_Nil [simp]: "Decode target [] = (Inl ''EOF'', [])"
  by (simp add: Decode_def)

lemma Decode_Cons_Inr [simp]: "target doc = Inr v \<Longrightarrow> Decode target (doc # rest) = (Inr v, rest)"
  by (simp add: Decode_def)

lemma Decode_Cons_Inl [simp]:
  "target doc = Inl err \<Longrightarrow> Decode target (doc # rest) = (Inl (ParseError_text err), rest)"
  by (simp add: Decode_def)

lemma Decode_eq_Inr_iff:
  "Decode target dec = (Inr v, rest) \<longleftrightarrow> (\<exists>doc. dec = doc # rest \<and> target doc = Inr v)"
  by (auto simp: Decode_def split: list.splits sum.splits)

lemma node_api_sel [simp]:
  "NewDecoder node_api b = b"
  "DecodeFsm node_api = Decode decode_EventDescYaml"
  "DecodeStates node_api = Decode decode_StateYaml"
  "DecodeEvents node_api = Decode decode_EventYaml"
  by (simp_all add: node_api_def)

lemma node_decodes_iff:
  "decodes node_api ds y st ev \<longleftrightarrow>
     (\<exists>d1 d2 d3 rest. ds = d1 # d2 # d3 # rest \<and> decode_EventDescYaml d1 = Inr y \<and>
        decode_StateYaml d2 = Inr st \<and> decode_EventYaml d3 = Inr ev)"
  by (auto simp: decodes_def Decode_eq_Inr_iff)

lemma node_decodes_encoded: "decodes node_api (encode_document y st ev @ rest) y st ev"
  by (simp add: node_decodes_iff encode_document_def decode_encode)

lemma node_yamlToFSM_iff:
  "fst (yamlToFSM node_api ds) = Inr m \<longleftrightarrow>
     (\<exists>d1 d2 d3 rest y st ev. ds = d1 # d2 # d3 # rest \<and> decode_EventDescYaml d1 = Inr y \<and>
        decode_StateYaml d2 = Inr st \<and> decode_EventYaml d3 = Inr ev \<and> m = assemble y st ev)"
proof
  assume "fst (yamlToFSM node_api ds) = Inr m"
  then obtain log where "yamlToFSM node_api ds = (Inr m, log)"
    by (cases "yamlToFSM node_api ds") simp
  then obtain y st ev where "decodes node_api ds y st ev" and "m = assemble y st ev"
    by (blast dest: yamlToFSM_InrD)
  then show "\<exists>d1 d2 d3 rest y st ev. ds = d1 # d2 # d3 # rest \<and> decode_EventDescYaml d1 = Inr y \<and>
      decode_StateYaml d2 = Inr st \<and> decode_EventYaml d3 = Inr ev \<and> m = assemble y st ev"
    unfolding node_decodes_iff by blast
next
  assume "\<exists>d1 d2 d3 rest y st ev. ds = d1 # d2 # d3 # rest \<and> decode_EventDescYaml d1 = Inr y \<and>
      decode_StateYaml d2 = Inr st \<and> decode_EventYaml d3 = Inr ev \<and> m = assemble y st ev"
  then obtain y st ev where "decodes node_api ds y st ev" and "m = assemble y st ev"
    unfolding node_decodes_iff by blast
  then show "fst (yamlToFSM node_api ds) = Inr m" by (simp add: yamlToFSM_ok)
qed

lemma decode_sections_node:
  "decode_sections node_api ds =
     (case ds of
        [] \<Rightarrow> (Inl (DecodeFSMFailed ''EOF''), [])
      | d1 # ds1 \<Rightarrow>
          (case decode_EventDescYaml d1 of
             Inl err \<Rightarrow> (Inl (DecodeFSMFailed (ParseError_text err)), [])
           | Inr y \<Rightarrow>
               (case ds1 of
                  [] \<Rightarrow> (Inl (DecodeStatesFailed ''EOF''), [DecodedFSM y])
                | d2 # ds2 \<Rightarrow>
                    (case decode_StateYaml d2 of
                       Inl err \<Rightarrow> (Inl (DecodeStatesFailed (ParseError_text err)), [DecodedFSM y])
                     | Inr st \<Rightarrow>
                         (case ds2 of
                            [] \<Rightarrow> (Inl (DecodeEventsFailed ''EOF''), [DecodedFSM y, DecodedStates st])
                          | d3 # ds3 \<Rightarrow>
                              (case decode_EventYaml d3 of
                                 Inl err \<Rightarrow>
                                   (Inl (DecodeEventsFailed (ParseError_text err)),
                                    [DecodedFSM y, DecodedStates st])
                               | Inr ev \<Rightarrow>
                                   (Inr (y, st, ev),
                                    [DecodedFSM y, DecodedStates st, DecodedEvents ev])))))))"
  by (simp add: decode_sections_def Decode_def split: list.splits sum.splits)


lemma cut_stream_error:
  "n < 3 \<Longrightarrow>
     yamlToFSM node_api (take n (encode_document y st ev)) =
       (if n = 0 then (Inl (DecodeFSMFailed ''EOF''), [])
        else if n = 1 then (Inl (DecodeStatesFailed ''EOF''), [DecodedFSM y])
        else (Inl (DecodeEventsFailed ''EOF''), [DecodedFSM y, DecodedStates st]))"
proof -
  assume "n < 3"
  then consider "n = 0" | "n = 1" | "n = 2" by linarith
  then show ?thesis
    by cases
      (simp_all add: yamlToFSM_def decode_sections_node encode_document_def decode_encode
        numeral_2_eq_2)
qed


section \<open>The keys of a rule\<close>

lemma traverse_string_node:
  "traverse (string_node k) ns = Inr ss \<Longrightarrow> StrNode s \<in> set ns \<Longrightarrow> s \<in> set ss"
  by (induction ns arbitrary: ss) (auto simp: and_then_eq_Inr_iff)

lemma decode_FsmEntry_keys:
  assumes "decode_FsmEntry (MappingNode kvs) = Inr r"
    and "map_of kvs ''name'' = Some (StrNode event)"
    and "map_of kvs ''srcState'' = Some (SequenceNode srcs)"
    and "map_of kvs ''destState'' = Some (StrNode d)"
  shows "Entry_Name r = event" and "DestState r = d"
    and "traverse (string_node ''srcState'') srcs = Inr (SrcState r)"
  using assms by (auto simp: decode_FsmEntry_def and_then_eq_Inr_iff)

lemma decode_EventDescYaml_last:
  assumes "decode_EventDescYaml (MappingNode sec) = Inr y"
    and "map_of sec ''fsm'' = Some (SequenceNode (ns @ [n]))"
  obtains rs r where "Fsm y = rs @ [r]" and "decode_FsmEntry n = Inr r"
proof -
  from assms have "traverse decode_FsmEntry (ns @ [n]) = Inr (Fsm y)"
    by (auto simp: decode_EventDescYaml_def and_then_eq_Inr_iff)
  then show thesis by (rule traverse_snoc_InrD) (rule that)
qed


section \<open>Properties of decoding a stream\<close>

text \<open>
  C29. The keys of a rule reach the engine. When \<open>yamlToFSM\<close> builds a machine
  from a stream whose first document has, under the key \<^verbatim>\<open>fsm\<close>, a sequence that ends
  with a mapping in which \<^verbatim>\<open>name\<close> is the string \<open>event\<close>, \<^verbatim>\<open>srcState\<close> a sequence that
  holds the string \<open>s\<close> and \<^verbatim>\<open>destState\<close> the string \<open>d\<close>, then firing \<open>event\<close> in
  state \<open>s\<close> moves the machine to \<open>d\<close>: the tags of lines 21 to 23 of \<^verbatim>\<open>fsm.go\<close> name
  the keys that are read, and line 170 passes the three fields to the engine as the
  name, the sources and the destination of a rule. Other keys of the mapping do not
  matter.
\<close>
theorem tagged_keys_reach_engine:
  assumes "fst (yamlToFSM node_api (MappingNode sec # rest)) = Inr f"
    and "map_of sec ''fsm'' = Some (SequenceNode (ns @ [MappingNode kvs]))"
    and "map_of kvs ''name'' = Some (StrNode event)"
    and "map_of kvs ''srcState'' = Some (SequenceNode srcs)"
    and "map_of kvs ''destState'' = Some (StrNode d)"
    and "StrNode s \<in> set srcs"
  shows "Fire ((FSM f)\<lparr>current := s\<rparr>) event = Inr ((FSM f)\<lparr>current := d\<rparr>)"
proof -
  from assms(1) obtain y st ev where y: "decode_EventDescYaml (MappingNode sec) = Inr y"
    and f: "f = assemble y st ev"
    unfolding node_yamlToFSM_iff by blast
  from y assms(2) obtain rs r where rs: "Fsm y = rs @ [r]"
    and r: "decode_FsmEntry (MappingNode kvs) = Inr r"
    by (rule decode_EventDescYaml_last)
  note keys = decode_FsmEntry_keys [OF r assms(3-5)]
  from keys(3) assms(6) have "s \<in> set (SrcState r)" by (rule traverse_string_node)
  with keys(1,2) rs have "transitions (FSM f) (s, event) = Some d"
    by (simp add: f NewFSM_entry_lookup)
  then show ?thesis by (simp add: Fire_def)
qed

theorem tagged_keys_reach_engine_witness:
  "Fire ((FSM greet_machine)\<lparr>current := ''Initial''\<rparr>) ''Greet'' =
     Inr ((FSM greet_machine)\<lparr>current := ''Hello''\<rparr>)"
proof (rule tagged_keys_reach_engine [where srcs = "[StrNode ''Initial'']" and ns = "[]"
      and rest = "tl (encode_document greet_rules greet_states greet_events)"
      and kvs = "[(''name'', StrNode ''Greet''), (''srcState'', SequenceNode [StrNode ''Initial'']),
        (''destState'', StrNode ''Hello'')]"])
  show "fst (yamlToFSM node_api
      (MappingNode [(''fsm'', SequenceNode ([] @ [MappingNode [(''name'', StrNode ''Greet''),
         (''srcState'', SequenceNode [StrNode ''Initial'']), (''destState'', StrNode ''Hello'')]]))] #
       tl (encode_document greet_rules greet_states greet_events))) = Inr greet_machine"
    using node_decodes_encoded [of greet_rules greet_states greet_events "[]"]
    by (simp add: yamlToFSM_ok greet_machine_def encode_document_def encode_FsmEntry_def
        greet_rules_def)
qed simp_all

text \<open>
  C30. \<open>yamlToFSM\<close> reads three documents and no more: what follows the third document
  of the stream changes neither the machine, nor the error, nor the log. A stream
  with a fourth section is not rejected.
\<close>
theorem trailing_documents_ignored:
  "yamlToFSM node_api (d1 # d2 # d3 # rest) = yamlToFSM node_api [d1, d2, d3]"
  by (simp add: yamlToFSM_def decode_sections_node split: sum.splits)


end
