(* ===== verification/Spec2Isabelle.thy ===== *)
theory Spec2Isabelle
  imports Go_Prelude Chat_Types Looplab_FSM Graph_Spec Builder Validated_Builder Runtime
    Logging Event_Order Shared_Machine Yaml_Document
begin

text \<open>
  \<^bold>\<open>A verification development for the chatbot state machine\<close>
  (\<^verbatim>\<open>src/chatbot/statemachine/fsm.go\<close>).

  \<^bold>\<open>The program.\<close> The package turns a YAML document of three sections (transition
  rules, states, events) into a state machine and answers two questions about it.
  \<^verbatim>\<open>ChatBotFSM\<close> reads the file and calls \<^verbatim>\<open>yamlToFSM\<close>; \<^verbatim>\<open>yamlToFSM\<close> decodes the three
  sections with one YAML decoder, converts the rules with
  \<^verbatim>\<open>eventDescYamlToEventDesc\<close>, fills a table of states and a table of events by name,
  and hands the rules to the graph library (\<^verbatim>\<open>fsm.NewFSM\<close>) with the start state
  "Initial". The result, \<^verbatim>\<open>FSMWithStatesAndEvents\<close>, has two methods: \<^verbatim>\<open>Current\<close> looks the
  library's current state up in the state table, \<^verbatim>\<open>AvailableTransitions\<close> looks the
  library's available event names up in the event table. Callers fire events on the
  exported library machine.

  \<^bold>\<open>The theories.\<close>
  \<^item> \<open>Go_Prelude\<close>: the Go idioms of the file as executable definitions with their
    lemmas: a map as a partial function (\<open>gomap\<close>), indexing a map (\<open>index_or\<close>,
    zero value for a missing key), the store loop (\<open>store_all\<close>), the append loop
    (\<open>append_all\<close>), the last element with a property (\<open>last_with\<close>), the
    admissible orders of a map range (\<open>range_order\<close>), and results with an error
    (\<open>and_then\<close>, \<open>traverse\<close>).
  \<^item> \<open>Chat_Types\<close>: \<open>State\<close>, \<open>Event\<close> and their zero values, and the decoding targets
    \<open>FsmEntry\<close>, \<open>EventDescYaml\<close>, \<open>StateYaml\<close>, \<open>EventYaml\<close> (lines 19 to 33).
  \<^item> \<open>Looplab_FSM\<close>: the graph library as the specification describes it:
    \<open>EventDesc\<close>, \<open>FSM\<close>, \<open>NewFSM\<close>, \<open>Fire\<close>, \<open>FSM_Current\<close>,
    \<open>FSM_AvailableTransitions\<close>, the step relation \<open>fsm_step\<close> and \<open>reachable\<close>,
    and the callers \<open>fire_all\<close> and \<open>run\<close>.
  \<^item> \<open>Graph_Spec\<close>: the abstract contract, the labelled graph \<open>edges_of\<close> of the
    declared rules with its \<open>path\<close>s, and the refinement lemmas that relate the
    library's table to it through the abstraction function \<open>table_edges\<close>.
  \<^item> \<open>Builder\<close>: \<open>FSMWithStatesAndEvents\<close> (lines 13 to 17), \<open>ChatBotFSM\<close> (35 to 45),
    \<open>yamlToFSM\<close> (47 to 85) as \<open>decode_sections\<close> followed by \<open>assemble\<close>,
    \<open>eventDescYamlToEventDesc\<close> (167 to 173), the errors and the log entries, and the
    YAML decoder as the interface \<open>yaml_api\<close>; the invariant \<open>closed\<close> of built
    machines, the condition \<open>wf_document\<close> on documents and the graph
    \<open>document_edges\<close> that a decoded document declares.
  \<^item> \<open>Validated_Builder\<close>: the builder that section 4.2 of the specification
    describes, \<open>BuildMachine\<close> with its four checks and the errors of section 7, as
    the abstract specification of \<open>yamlToFSM\<close>; \<open>built_definition\<close> is the
    abstraction function from a built machine to a machine definition. The file has
    no code for these checks; every definition of this theory follows the
    specification.
  \<^item> \<open>Runtime\<close>: \<open>Current\<close> (175 to 177), \<open>AvailableTransitions\<close> (179 to 186),
    \<open>FireEvent\<close>, the machines of a \<open>session\<close> and the invariant \<open>well_typed\<close>.
  \<^item> \<open>Logging\<close>: the messages of the four \<^verbatim>\<open>glog.Infof\<close> calls of \<open>yamlToFSM\<close> (lines
    55, 62, 68 and 71), \<open>log_text\<close>, with the rendering of the verb \<^verbatim>\<open>%+v\<close> as the
    parameter \<open>plus_v\<close>.
  \<^item> \<open>Event_Order\<close>: how many events \<open>AvailableTransitions\<close> returns, what sorting
    them by order id fixes, and both queries as functions of the document.
  \<^item> \<open>Shared_Machine\<close>: the same operations with the engine behind a pointer in a
    store, as Go has them (\<open>ChatBotFSM_p\<close>, \<open>yamlToFSM_p\<close>, \<open>Current_p\<close>,
    \<open>AvailableTransitions_p\<close>, \<open>Fire_p\<close>), and the abstraction \<open>abs_machine\<close> to the
    value model.
  \<^item> \<open>Yaml_Document\<close>: documents as trees of nodes and one decoder, \<open>node_api\<close>, as an
    implementation of \<open>yaml_api\<close>; the keys it reads for a rule are the struct tags
    of lines 21 to 23.
  \<^item> This theory: the property that spans the builder, the runtime and the abstract
    graph.

  \<^bold>\<open>How the model corresponds to the code.\<close> A Go struct is a record with the struct's
  fields (prefixed where two structs share a field name), a Go map a partial
  function, a slice a list. A function that returns \<^verbatim>\<open>(value, error)\<close> returns a sum
  with the error on the left; each \<^verbatim>\<open>errors.Wrapf\<close> is a constructor of \<open>error\<close> and
  \<open>error_text\<close> is the wrapped message. Each \<^verbatim>\<open>glog.Infof\<close> is a \<open>log_entry\<close>, returned
  in order beside the result, and \<open>log_text\<close> is its message. A \<^verbatim>\<open>range\<close> loop over a
  slice is a fold, kept in the shape of the loop and proved equal to the list
  function it computes. The third argument of \<^verbatim>\<open>fsm.NewFSM\<close> at line 82 is the empty
  table of callbacks; no hook is registered anywhere in the file, and \<open>NewFSM\<close> has
  no such argument.

  In \<open>Builder\<close> and \<open>Runtime\<close> the pointer to the library machine inside the struct
  (line 14) is the record field \<open>FSM\<close>, held as a value, and a transition returns the
  struct with that field updated. Go shares the engine between the copies of a
  struct; a value can stand for the struct all the same because every use of the
  struct goes through one pointer to one engine. \<open>Shared_Machine\<close> has the struct
  with the pointer and the store of engines, and its lemmas \<open>yamlToFSM_p_abs\<close>,
  \<open>Current_p_abs\<close>, \<open>AvailableTransitions_p_abs\<close> and \<open>Fire_p_abs\<close> show that each
  operation through a valid pointer is the operation of the value model on
  \<open>abs_machine\<close>. A \<^verbatim>\<open>nil\<close> pointer is the only way to a panic, and no struct that
  \<open>yamlToFSM_p\<close> returns has one.

  \<^bold>\<open>What is a parameter.\<close> Three things are outside the file and enter as parameters,
  so that every theorem holds for all of them: the YAML decoder (\<open>yaml_api\<close>, over
  the types of its input and of its state), the file system (\<open>readFile\<close>), and the
  order in which the library ranges over its transition table (\<open>ks\<close> with
  \<open>range_order\<close>; Go leaves the order of a map range open, so \<open>AvailableTransitions\<close>
  has one argument more than the method). \<open>Yaml_Document\<close> gives one decoder,
  \<open>Builder\<close> a scripted one; \<open>well_typed\<close> machines always have a range order.

  \<^bold>\<open>What the lemmas show.\<close>
  \<^item> The behaviour of a transition in terms of the document: the last rule that names
    the event and lists the current state decides (\<open>fire_follows_last_rule\<close>).
  \<^item> Agreement of the two queries with the transitions (\<open>available_iff_fire\<close>, and
    the lemma \<open>terminal_iff\<close>), and the two queries as functions of the document,
    whatever it declares (\<open>queries_of_document\<close>).
  \<^item> Refinement of the specified builder: on the documents that \<open>BuildMachine\<close>
    accepts the file builds the machine definition of the specification
    (\<open>yamlToFSM_refines_BuildMachine\<close>); on the others the file builds a machine
    nevertheless, in which the defect that the error of \<open>BuildMachine\<close> names can
    be observed (\<open>rejected_document_defects\<close>).
  \<^item> The invariant: from a well-formed document every reachable machine is closed
    (\<open>built_machine_closed\<close>), so the queries return declared entries
    (\<open>Current_in_session\<close>, \<open>AvailableTransitions_declared\<close>).
  \<^item> Refinement: runs of the built machine are paths of the declared graph, and on
    conflict-free rules the converse holds (\<open>runs_are_declared_paths\<close>,
    \<open>declared_paths_are_runs\<close>, \<open>table_is_graph_iff\<close>); the queries agree with
    the graph (\<open>queries_on_declared_graph\<close>).
  \<^item> The construction on every branch, errors and log included
    (\<open>yamlToFSM_succeeds_iff\<close>, \<open>yamlToFSM_fails_iff\<close>, \<open>yamlToFSM_log\<close>,
    \<open>ChatBotFSM_succeeds_iff\<close>, \<open>ChatBotFSM_error_text\<close>), the size of the tables
    (\<open>tables_size\<close>, \<open>tables_order_independent\<close>), and the text of the log on every
    input (\<open>yamlToFSM_log_lines\<close>, with the lemmas \<open>log_text_stage\<close>,
    \<open>yamlToFSM_stages\<close>, \<open>built_iff_four_lines\<close>).
  \<^item> The type invariant of every machine handed out (\<open>built_machine_well_typed\<close>), the
    bound on the number of available events (\<open>AvailableTransitions_bound\<close>), and the
    order that sorting by order id restores (\<open>sorted_available\<close>).
  \<^item> The store: a built struct stays valid and moves along a session of the value
    model (\<open>built_struct_session\<close>), the effect of interleaved calls on shared and
    on separate machines (\<open>fire_calls_projection\<close>), and the independence of the
    machines that two calls of \<open>ChatBotFSM\<close> return (\<open>sessions_independent\<close>).
  \<^item> The decoder: the keys that the struct tags name decide the transitions of the
    built machine (\<open>tagged_keys_reach_engine\<close>), documents after the third are
    ignored (\<open>trailing_documents_ignored\<close>), and a stream that ends early gives the
    error of the first missing section (\<open>cut_stream_error\<close>).
  \<^item> What the code does where the specification asks for a check that the code does
    not make: duplicate names (\<open>tables_last_wins\<close>), undeclared references and a
    missing start state (\<open>every_rule_installed\<close>, \<open>undeclared_yields_zero\<close>),
    conflicting rules (\<open>table_is_graph_iff\<close>).

  \<^bold>\<open>Examples.\<close> \<open>chat_rules\<close>, \<open>chat_states\<close>, \<open>chat_events\<close> are a small topology of
  three states and four events; \<open>greet_*\<close> is the scenario of section 8 of the
  specification, \<open>unknown_rules\<close> and \<open>clash_rules\<close> are documents with an undeclared
  reference and with conflicting rules; \<open>scripted\<close> is a decoder that returns three
  given results, used to evaluate the construction.

  \<^bold>\<open>Bounds.\<close> No definition needs fuel: every loop of the program ranges over a
  finite slice or map, and every recursive definition of the model is structural.
  Addresses of the store are natural numbers and the order id of an event is an
  unbounded integer; \<^verbatim>\<open>fsm.go\<close> does no arithmetic on either.

  \<^bold>\<open>What is not modelled.\<close> The text of a YAML document and its parsing into nodes;
  the behaviour of the YAML library where the specification is silent (aliases,
  tags, keys repeated in a mapping), and whether the library reports a missing key:
  \<open>node_api\<close> does, as section 4.1 of the specification asks, and no theorem about
  \<open>yaml_api\<close> depends on it. The contents of the file system; how the verb \<^verbatim>\<open>%+v\<close>
  renders a logged value (a parameter of \<open>log_text\<close>), the header that \<^verbatim>\<open>glog\<close> puts
  before a message and the log sink. The callbacks of the graph library,
  asynchronous transitions and its locks: the file registers no callback, and the
  specification makes the machine single-threaded by contract. The table of rules
  that \<open>yamlToFSM\<close> keeps as a comment after its return (lines 86 to 164) is never
  compiled and has no counterpart. The package clause and the imports (lines 1 to
  12) have no counterpart, and neither have the message rendering and the transport
  of the chatbot, which are outside the file. The checks of section 4.2 of the
  specification and its entry point \<^verbatim>\<open>NewInstance\<close> are not in the file:
  \<open>BuildMachine\<close> is the specification of the former, and in place of the latter
  the package offers one call of \<open>ChatBotFSM\<close> per machine. The libraries that the
  file calls are modelled as far as the specification describes them and are
  parameters beyond that.
\<close>

section \<open>Runs of a built machine\<close>

lemma session_fire_all:
  "session f0 f \<Longrightarrow> \<exists>events. fire_all (FSM f0) events = Inr (FSM f)"
  by (auto dest!: session_reachable simp: reachable_iff_fire_all)


lemma session_on_path:
  assumes "session (assemble y st ev) f"
  shows "\<exists>events. path (document_edges y) ''Initial'' events (current (FSM f))"
proof -
  from assms obtain events where "fire_all (FSM (assemble y st ev)) events = Inr (FSM f)"
    by (blast dest: session_fire_all)
  then have "path (document_edges y) ''Initial'' events (current (FSM f))"
    using assemble_fire_all_path [of y st ev events "FSM f"]
    by (simp add: document_edges_eq InitialStateName_def)
  then show ?thesis ..
qed

lemma session_enabled_iff:
  assumes "session (assemble y st ev) f"
  shows "Can (FSM f) event \<longleftrightarrow> (\<exists>d. (current (FSM f), event, d) \<in> document_edges y)"
proof -
  from assms have "transitions (FSM f) = transitions (NewFSM InitialStateName (eventDescYamlToEventDesc y))"
    by (auto dest: session_transitions)
  then show ?thesis
    using table_enabled_iff [of "current (FSM f)" event InitialStateName "eventDescYamlToEventDesc y"]
    by (simp add: Can_def document_edges_eq)
qed


section \<open>Properties that span the components\<close>

text \<open>
  C20. The two queries agree with the declared graph. In every machine reached from
  one built from a well-formed document, the name of the state that \<open>Current\<close>
  returns can be reached from "Initial" along edges that the document declares; and
  for every order in which the engine's table is ranged over, the events that
  \<open>AvailableTransitions\<close> returns are exactly the labels of the declared edges that
  leave that state. So the builder, the engine and both queries implement the graph
  of the document.
\<close>
theorem queries_on_declared_graph:
  assumes "wf_document y st ev" and "session (assemble y st ev) f"
  shows "(\<exists>events. path (document_edges y) ''Initial'' events (State_Name (Current f))) \<and>
    (\<forall>ks. range_order (transitions (FSM f)) ks \<longrightarrow>
       set (map Event_Name (AvailableTransitions ks f)) =
         {event. \<exists>d. (State_Name (Current f), event, d) \<in> document_edges y})"
proof -
  from assms have c: "closed f" by (rule session_closed)
  then have cur: "State_Name (Current f) = current (FSM f)" by (rule Current_closed)
  have "set (map Event_Name (AvailableTransitions ks f)) = {event. Can (FSM f) event}"
    if "range_order (transitions (FSM f)) ks" for ks
    by (simp add: AvailableTransitions_names [OF c that] set_FSM_AvailableTransitions that)
  with cur session_on_path [OF assms(2)] show ?thesis
    by (simp add: session_enabled_iff [OF assms(2)])
qed

theorem queries_on_declared_graph_witness:
  "(\<exists>events. path (document_edges chat_rules) ''Initial'' events ''Hello'') \<and>
   set (map Event_Name (AvailableTransitions chat_order (chat_at ''Hello''))) =
     {event. \<exists>d. (''Hello'', event, d) \<in> document_edges chat_rules}"
proof -
  have "State_Name (Current (chat_at ''Hello'')) = ''Hello''"
    by (simp add: Current_def FSM_Current_def chat_machine_def statesMap_lookup chat_states_def
        last_with_def)
  with queries_on_declared_graph [OF chat_wf chat_session_Hello [unfolded chat_machine_def]]
    chat_range_order [OF chat_session_Hello]
  show ?thesis by simp
qed

end
